theory Spec2Isabelle
  imports Complex_Main "HOL-Library.Word"
begin

unbundle bit_operations_syntax

section \<open>JavaScript values\<close>

text \<open>
  A JavaScript string is a sequence of UTF-16 code units, and \<open>length\<close> counts code units;
  strings are therefore lists of 16-bit words. \<open>lit\<close> embeds an ASCII literal of the source.
\<close>

type_synonym jsstring = "16 word list"

definition chr16 :: "char \<Rightarrow> 16 word" where
  "chr16 c = of_char c"

definition lit :: "string \<Rightarrow> jsstring" where
  "lit s = map chr16 s"

text \<open>
  The code units removed by \<open>String.prototype.trim\<close>: ECMAScript's WhiteSpace and
  LineTerminator productions (all of them in the Basic Multilingual Plane).
\<close>

definition isWhiteSpace :: "16 word \<Rightarrow> bool" where
  "isWhiteSpace c \<longleftrightarrow>
     c \<in> {0x09, 0x0A, 0x0B, 0x0C, 0x0D, 0x20, 0xA0, 0x1680, 0x2028, 0x2029, 0x202F, 0x205F, 0x3000, 0xFEFF}
     \<or> (0x2000 \<le> c \<and> c \<le> 0x200A)"

definition trim :: "jsstring \<Rightarrow> jsstring" where
  "trim s = rev (dropWhile isWhiteSpace (rev (dropWhile isWhiteSpace s)))"

text \<open>\<open>s.replace(/a/g, "b")\<close> for a one-character pattern.\<close>

definition replaceAll :: "16 word \<Rightarrow> 16 word \<Rightarrow> jsstring \<Rightarrow> jsstring" where
  "replaceAll a b s = map (\<lambda>c. if c = a then b else c) s"

text \<open>
  A JavaScript number is \<open>NaN\<close>, an infinity or a finite double. Every finite double is a
  real number and the operations used here (comparison, \<open>Math.min\<close>, \<open>Math.max\<close>,
  truncation) are exact on doubles, so finite values are modelled as reals; \<open>+0\<close> and
  \<open>-0\<close> are both \<open>Fin 0\<close> (both are falsy, and they compare equal).
\<close>

datatype jsnum = NaN | PosInfinity | NegInfinity | Fin real

text \<open>The values that \<open>JSON.parse\<close> and the client libraries hand to the code.\<close>

datatype jsval =
    JUndefined
  | JNull
  | JBool bool
  | JNum jsnum
  | JStr jsstring
  | JArr "jsval list"
  | JObj "(jsstring \<times> jsval) list"

datatype jstype = T_undefined | T_object | T_boolean | T_number | T_string

fun typeof :: "jsval \<Rightarrow> jstype" where
  "typeof JUndefined = T_undefined"
| "typeof JNull = T_object"
| "typeof (JBool b) = T_boolean"
| "typeof (JNum n) = T_number"
| "typeof (JStr s) = T_string"
| "typeof (JArr xs) = T_object"
| "typeof (JObj kvs) = T_object"

fun truthy :: "jsval \<Rightarrow> bool" where
  "truthy JUndefined = False"
| "truthy JNull = False"
| "truthy (JBool b) = b"
| "truthy (JNum n) = (n \<noteq> NaN \<and> n \<noteq> Fin 0)"
| "truthy (JStr s) = (s \<noteq> [])"
| "truthy (JArr xs) = True"
| "truthy (JObj kvs) = True"

text \<open>
  Property read \<open>v.k\<close> for the property names the code uses (none of them is an array
  index, \<open>length\<close> or a prototype member): an own property of an object, \<open>undefined\<close>
  otherwise. On \<open>null\<close> and \<open>undefined\<close> JavaScript throws instead; the callers below
  handle those two values before they read a property.
\<close>

fun getProp :: "jsval \<Rightarrow> jsstring \<Rightarrow> jsval" where
  "getProp (JObj kvs) k = (case map_of kvs k of Some v \<Rightarrow> v | None \<Rightarrow> JUndefined)"
| "getProp v k = JUndefined"

definition isNullish :: "jsval \<Rightarrow> bool" where
  "isNullish v \<longleftrightarrow> v = JUndefined \<or> v = JNull"

text \<open>
  A thrown error object: its \<open>name\<close> (\<open>"Error"\<close> for \<open>new Error(...)\<close>) and its
  \<open>message\<close>. The code defines no error class of its own.
\<close>

record js_error =
  name :: jsstring
  message :: jsstring

definition Error :: "jsstring \<Rightarrow> js_error" where
  "Error msg = \<lparr>name = lit ''Error'', message = msg\<rparr>"

definition TypeError :: "jsstring \<Rightarrow> js_error" where
  "TypeError msg = \<lparr>name = lit ''TypeError'', message = msg\<rparr>"

section \<open>API credentials (polymarketClob.ts)\<close>

text \<open>
  The type \<open>ApiCreds\<close> (lines 12-16), \<open>normalizeBase64ForAtob\<close> (lines 21-26) and
  \<open>coerceApiCreds\<close> (lines 28-43). In \<open>coerceApiCreds\<close> the test
  \<open>typeof x !== "string"\<close> is the default branch of a case distinction on the value.
\<close>

record ApiCreds =
  key :: jsstring
  secret :: jsstring
  passphrase :: jsstring

definition normalizeBase64ForAtob :: "jsstring \<Rightarrow> jsstring" where
  "normalizeBase64ForAtob input =
     (let trimmed = trim input;
          base64 = replaceAll (chr16 CHR ''_'') (chr16 CHR ''/'')
                     (replaceAll (chr16 CHR ''-'') (chr16 CHR ''+'') trimmed);
          padLen = (4 - length base64 mod 4) mod 4
      in base64 @ replicate padLen (chr16 CHR ''=''))"

definition coerceApiCreds :: "jsval \<Rightarrow> js_error + ApiCreds" where
  "coerceApiCreds raw =
     (if \<not> truthy raw \<or> typeof raw \<noteq> T_object
      then Inl (Error (lit ''Invalid api creds: not an object''))
      else
        let key = (if typeof (getProp raw (lit ''key'')) = T_string
                   then getProp raw (lit ''key'') else getProp raw (lit ''apiKey''));
            secret = getProp raw (lit ''secret'');
            passphrase = getProp raw (lit ''passphrase'')
        in case key of
             JStr k \<Rightarrow>
               if length (trim k) = 0
               then Inl (Error (lit ''Invalid api creds: missing key/apiKey''))
               else (case secret of
                  JStr s \<Rightarrow>
                    if length (trim s) = 0
                    then Inl (Error (lit ''Invalid api creds: missing secret''))
                    else (case passphrase of
                       JStr p \<Rightarrow>
                         if length (trim p) = 0
                         then Inl (Error (lit ''Invalid api creds: missing passphrase''))
                         else Inr \<lparr>key = trim k, secret = normalizeBase64ForAtob s,
                                   passphrase = trim p\<rparr>
                     | _ \<Rightarrow> Inl (Error (lit ''Invalid api creds: missing passphrase'')))
                | _ \<Rightarrow> Inl (Error (lit ''Invalid api creds: missing secret'')))
           | _ \<Rightarrow> Inl (Error (lit ''Invalid api creds: missing key/apiKey'')))"

text \<open>
  The vocabulary of the normalisation claim, written from the specification's words (RFC 4648):
  a standard padded Base64 string is a body over \<open>A-Z a-z 0-9 + /\<close> followed by at most two
  \<open>=\<close>, of a length that is a multiple of 4; its URL-safe encoding replaces \<open>+\<close> by
  \<open>-\<close> and \<open>/\<close> by \<open>_\<close> and drops the padding. \<open>credsResponse\<close> is a response that
  carries a credential under the canonical field names.
\<close>

definition isBase64Char :: "16 word \<Rightarrow> bool" where
  "isBase64Char c \<longleftrightarrow>
     (0x41 \<le> c \<and> c \<le> 0x5A) \<or> (0x61 \<le> c \<and> c \<le> 0x7A) \<or> (0x30 \<le> c \<and> c \<le> 0x39)
     \<or> c = 0x2B \<or> c = 0x2F"

definition base64Body :: "jsstring \<Rightarrow> jsstring" where
  "base64Body s = takeWhile (\<lambda>c. c \<noteq> chr16 CHR ''='') s"

definition base64Padding :: "jsstring \<Rightarrow> jsstring" where
  "base64Padding s = dropWhile (\<lambda>c. c \<noteq> chr16 CHR ''='') s"

definition isStandardBase64 :: "jsstring \<Rightarrow> bool" where
  "isStandardBase64 s \<longleftrightarrow>
     list_all isBase64Char (base64Body s)
     \<and> base64Padding s = replicate (length (base64Padding s)) (chr16 CHR ''='')
     \<and> length (base64Padding s) \<le> 2
     \<and> length s mod 4 = 0"

definition base64url_of :: "jsstring \<Rightarrow> jsstring" where
  "base64url_of s =
     replaceAll (chr16 CHR ''/'') (chr16 CHR ''_'')
       (replaceAll (chr16 CHR ''+'') (chr16 CHR ''-'') (base64Body s))"

definition credsResponse :: "ApiCreds \<Rightarrow> jsval" where
  "credsResponse c =
     JObj [(lit ''key'', JStr (key c)), (lit ''secret'', JStr (secret c)),
           (lit ''passphrase'', JStr (passphrase c))]"

text \<open>
  The two substitutions of \<open>normalizeBase64ForAtob\<close> and the two of the URL-safe encoding,
  on one character; the proofs reason with them.
\<close>

definition unmark :: "16 word \<Rightarrow> 16 word" where
  "unmark c = (if c = chr16 CHR ''-'' then chr16 CHR ''+''
               else if c = chr16 CHR ''_'' then chr16 CHR ''/'' else c)"

definition mark :: "16 word \<Rightarrow> 16 word" where
  "mark c = (if c = chr16 CHR ''+'' then chr16 CHR ''-''
             else if c = chr16 CHR ''/'' then chr16 CHR ''_'' else c)"

section \<open>Derived wallets, caches and credentials (polymarketClob.ts)\<close>

text \<open>
  The second part of polymarketClob.ts (lines 200-521): the wallet derivation, the signer, and
  the gas management, together with \<open>getApiCreds\<close> (lines 50-81), which uses them.
  Everything outside the repository is a parameter of the model: the master key read from the
  environment, the hash of the ethers library, the wallet and SDK constructors, the JSON-RPC
  provider and the exchange client. \<open>'sdk\<close> is the type of a ThirdwebSDK instance and
  \<open>'w\<close> the type of an \<open>ethers.Wallet\<close>. A call that can throw returns a sum, with the
  error on the left. \<open>createOrDeriveApiKey\<close> takes the number of remote calls made before, so
  that two calls of the remote system may answer differently. The library's hash itself is
  modelled further down (\<open>ethers_solidityKeccak256\<close>); what is proved of the key derivation
  is proved of the environments whose field \<open>solidityKeccak256\<close> is that function.
\<close>

record TransactionRequest =
  tx_to :: jsstring
  tx_value :: nat

record ('sdk, 'w) env =
  MASTER_PRIVATE_KEY :: jsstring
  solidityKeccak256 :: "jsstring \<Rightarrow> jsstring \<Rightarrow> js_error + jsstring"
  fromPrivateKey :: "jsstring \<Rightarrow> js_error + 'sdk"
  sdk_wallet_getAddress :: "'sdk \<Rightarrow> js_error + jsstring"
  new_Wallet :: "jsstring \<Rightarrow> js_error + 'w"
  wallet_address :: "'w \<Rightarrow> jsstring"
  getBalance :: "jsstring \<Rightarrow> js_error + nat"
  sendTransaction :: "'w \<Rightarrow> TransactionRequest \<Rightarrow> js_error + jsstring"
  tx_wait :: "jsstring \<Rightarrow> js_error + unit"
  formatEther :: "nat \<Rightarrow> jsstring"
  POLYMARKET_API_NONCE :: "jsstring option"
  Number_of_string :: "jsstring \<Rightarrow> jsnum"
  createOrDeriveApiKey :: "nat \<Rightarrow> 'w \<Rightarrow> jsnum option \<Rightarrow> js_error + jsval"

text \<open>
  The module state: the two caches of the source (\<open>apiCredsCache\<close>, \<open>sdkCache\<close>), and
  three logs that the source does not keep but that the claims count: the tenant of every call of
  \<open>deriveUserPrivateKey\<close>, the signer of every call of the remote \<open>createOrDeriveApiKey\<close>,
  and the sender and request of every call of \<open>sendTransaction\<close>. No function of the model
  reads a log, except for the index of the next remote call.
\<close>

record ('sdk, 'w) state =
  apiCredsCache :: "jsstring \<rightharpoonup> ApiCreds"
  sdkCache :: "jsstring \<rightharpoonup> 'sdk"
  derivations :: "jsstring list"
  remoteCalls :: "'w list"
  sentTransactions :: "('w \<times> TransactionRequest) list"

definition initial_state :: "('sdk, 'w) state" where
  "initial_state = \<lparr>apiCredsCache = Map.empty, sdkCache = Map.empty, derivations = [],
                     remoteCalls = [], sentTransactions = []\<rparr>"

text \<open>
  \<open>deriveUserPrivateKey\<close> (lines 233-242) and \<open>getSDKForUser\<close> (lines 248-258);
  \<open>noteDerivation\<close> writes the log entry of a call of \<open>deriveUserPrivateKey\<close>.
\<close>

definition deriveUserPrivateKey :: "('sdk, 'w) env \<Rightarrow> jsstring \<Rightarrow> js_error + jsstring" where
  "deriveUserPrivateKey e phone =
     (let seed = solidityKeccak256 e (MASTER_PRIVATE_KEY e) phone in seed)"

definition noteDerivation :: "jsstring \<Rightarrow> ('sdk, 'w) state \<Rightarrow> ('sdk, 'w) state" where
  "noteDerivation phone s = s\<lparr>derivations := derivations s @ [phone]\<rparr>"

definition getSDKForUser ::
  "('sdk, 'w) env \<Rightarrow> ('sdk, 'w) state \<Rightarrow> jsstring \<Rightarrow> (js_error + 'sdk) \<times> ('sdk, 'w) state" where
  "getSDKForUser e s phone =
     (case sdkCache s phone of
        Some cached \<Rightarrow> (Inr cached, s)
      | None \<Rightarrow>
          (let s1 = noteDerivation phone s in
           case deriveUserPrivateKey e phone of
             Inl err \<Rightarrow> (Inl err, s1)
           | Inr userPrivateKey \<Rightarrow>
               (case fromPrivateKey e userPrivateKey of
                  Inl err \<Rightarrow> (Inl err, s1)
                | Inr sdk \<Rightarrow> (Inr sdk, s1\<lparr>sdkCache := (sdkCache s1)(phone \<mapsto> sdk)\<rparr>))))"

text \<open>\<open>WalletInfo\<close> (lines 264-269) and \<open>getOrCreateServerWallet\<close> (lines 276-295).\<close>

record WalletInfo =
  address :: jsstring
  thirdwebWalletId :: jsstring
  provider :: jsstring
  chainId :: nat

definition CHAIN_ID :: nat where
  "CHAIN_ID = 137"

definition getOrCreateServerWallet ::
  "('sdk, 'w) env \<Rightarrow> ('sdk, 'w) state \<Rightarrow> jsstring \<Rightarrow> (js_error + WalletInfo) \<times> ('sdk, 'w) state" where
  "getOrCreateServerWallet e s phone =
     (case getSDKForUser e s phone of
        (Inl error, s1) \<Rightarrow>
          (Inl (Error (lit ''Thirdweb wallet creation failed: '' @ message error)), s1)
      | (Inr sdk, s1) \<Rightarrow>
          (case sdk_wallet_getAddress e sdk of
             Inl error \<Rightarrow>
               (Inl (Error (lit ''Thirdweb wallet creation failed: '' @ message error)), s1)
           | Inr addr \<Rightarrow>
               (Inr \<lparr>address = addr, thirdwebWalletId = phone, provider = lit ''thirdweb'',
                      chainId = CHAIN_ID\<rparr>, s1)))"

text \<open>
  The class \<open>ThirdwebSigner\<close> (lines 313-351): the private fields \<open>_phone\<close>, \<open>_sdk\<close>, \<open>_address\<close>
  (a string or \<open>null\<close>) and the public field \<open>address\<close>. The constructor calls the
  asynchronous \<open>getOrCreateServerWallet\<close> without awaiting it: that call runs up to its first
  \<open>await\<close> (a second \<open>getSDKForUser\<close>) and the constructor returns with the promise
  pending. \<open>ThirdwebSigner_settled\<close> is the later step in which the promise settles and the
  \<open>then\<close> or \<open>catch\<close> callback runs. \<open>getAddress\<close> is the method; \<open>resolveAddress\<close>
  is its branch for an \<open>_address\<close> that is \<open>null\<close> or empty.
\<close>

record 'sdk ThirdwebSigner =
  private_phone :: jsstring
  private_sdk :: 'sdk
  private_address :: "jsstring option"
  signer_address :: jsstring

definition ThirdwebSigner_new ::
  "('sdk, 'w) env \<Rightarrow> ('sdk, 'w) state \<Rightarrow> jsstring
     \<Rightarrow> (js_error + 'sdk ThirdwebSigner) \<times> ('sdk, 'w) state" where
  "ThirdwebSigner_new e s phone =
     (case getSDKForUser e s phone of
        (Inl err, s1) \<Rightarrow> (Inl err, s1)
      | (Inr sdk, s1) \<Rightarrow>
          (let s2 = snd (getSDKForUser e s1 phone) in
           (Inr \<lparr>private_phone = phone, private_sdk = sdk, private_address = None,
                   signer_address = []\<rparr>, s2)))"

definition ThirdwebSigner_settled ::
  "('sdk, 'w) env \<Rightarrow> 'sdk ThirdwebSigner \<Rightarrow> 'sdk ThirdwebSigner" where
  "ThirdwebSigner_settled e this =
     (case sdk_wallet_getAddress e (private_sdk this) of
        Inl err \<Rightarrow> this
      | Inr addr \<Rightarrow> this\<lparr>signer_address := addr, private_address := Some addr\<rparr>)"

definition resolveAddress ::
  "('sdk, 'w) env \<Rightarrow> 'sdk ThirdwebSigner \<Rightarrow> (js_error + jsstring) \<times> 'sdk ThirdwebSigner" where
  "resolveAddress e this =
     (case sdk_wallet_getAddress e (private_sdk this) of
        Inl err \<Rightarrow> (Inl err, this)
      | Inr addr \<Rightarrow> (Inr addr, this\<lparr>private_address := Some addr, signer_address := addr\<rparr>))"

definition getAddress ::
  "('sdk, 'w) env \<Rightarrow> 'sdk ThirdwebSigner \<Rightarrow> (js_error + jsstring) \<times> 'sdk ThirdwebSigner" where
  "getAddress e this =
     (case private_address this of
        None \<Rightarrow> resolveAddress e this
      | Some a \<Rightarrow> if a = [] then resolveAddress e this else (Inr a, this))"

text \<open>\<open>getThirdwebSigner\<close> (lines 397-405).\<close>

definition getThirdwebSigner ::
  "('sdk, 'w) env \<Rightarrow> ('sdk, 'w) state \<Rightarrow> jsstring \<Rightarrow> (js_error + 'w) \<times> ('sdk, 'w) state" where
  "getThirdwebSigner e s phone =
     (let s1 = noteDerivation phone s in
      case deriveUserPrivateKey e phone of
        Inl err \<Rightarrow> (Inl err, s1)
      | Inr privateKey \<Rightarrow> (new_Wallet e privateKey, s1))"

text \<open>
  \<open>getApiCreds\<close> (lines 50-81): the nonce of the environment (\<open>nonceEnv ? Number(nonceEnv) : undefined\<close>,
  kept when finite), then the body of the \<open>try\<close> block, then the function with its cache
  lookup and its \<open>catch\<close>.
\<close>

definition isFinite :: "jsnum \<Rightarrow> bool" where
  "isFinite n \<longleftrightarrow> (case n of Fin r \<Rightarrow> True | _ \<Rightarrow> False)"

definition apiNonce :: "('sdk, 'w) env \<Rightarrow> jsnum option" where
  "apiNonce e =
     (case POLYMARKET_API_NONCE e of
        None \<Rightarrow> None
      | Some nonceEnv \<Rightarrow>
          if nonceEnv = [] then None
          else (let nonceMaybe = Number_of_string e nonceEnv
                in if isFinite nonceMaybe then Some nonceMaybe else None))"

definition getApiCreds_try ::
  "('sdk, 'w) env \<Rightarrow> ('sdk, 'w) state \<Rightarrow> jsstring \<Rightarrow> (js_error + ApiCreds) \<times> ('sdk, 'w) state" where
  "getApiCreds_try e s phone =
     (case getThirdwebSigner e s phone of
        (Inl err, s1) \<Rightarrow> (Inl err, s1)
      | (Inr signer, s1) \<Rightarrow>
          (let nonce = apiNonce e;
               s2 = s1\<lparr>remoteCalls := remoteCalls s1 @ [signer]\<rparr>
           in case createOrDeriveApiKey e (length (remoteCalls s1)) signer nonce of
                Inl err \<Rightarrow> (Inl err, s2)
              | Inr raw \<Rightarrow>
                  (case coerceApiCreds raw of
                     Inl err \<Rightarrow> (Inl err, s2)
                   | Inr creds \<Rightarrow>
                       (Inr creds, s2\<lparr>apiCredsCache := (apiCredsCache s2)(phone \<mapsto> creds)\<rparr>))))"

definition getApiCreds ::
  "('sdk, 'w) env \<Rightarrow> ('sdk, 'w) state \<Rightarrow> jsstring \<Rightarrow> (js_error + ApiCreds) \<times> ('sdk, 'w) state" where
  "getApiCreds e s phone =
     (case apiCredsCache s phone of
        Some cached \<Rightarrow> (Inr cached, s)
      | None \<Rightarrow>
          (case getApiCreds_try e s phone of
             (Inr creds, s1) \<Rightarrow> (Inr creds, s1)
           | (Inl error, s1) \<Rightarrow>
               (Inl error, s1\<lparr>apiCredsCache := (apiCredsCache s1)(phone := None)\<rparr>)))"

subsection \<open>Gas management\<close>

text \<open>
  The constants of lines 467-468, \<open>parseEther('0.1')\<close> and \<open>parseEther('0.5')\<close>, in wei,
  and \<open>ensureGasBalance\<close> (lines 475-521). Balances are \<open>BigNumber\<close>s that are never
  negative: natural numbers.
\<close>

definition MATIC_TOP_UP_THRESHOLD_WEI :: nat where
  "MATIC_TOP_UP_THRESHOLD_WEI = 10 ^ 17"

definition MATIC_TOP_UP_AMOUNT_WEI :: nat where
  "MATIC_TOP_UP_AMOUNT_WEI = 5 * 10 ^ 17"

text \<open>
  The body of the \<open>try\<close> block of \<open>ensureGasBalance\<close> (logging left out), and the
  function with its \<open>catch\<close>, which wraps every error in a new \<open>Error\<close>.
\<close>

definition ensureGasBalance_try ::
  "('sdk, 'w) env \<Rightarrow> ('sdk, 'w) state \<Rightarrow> jsstring \<Rightarrow> (js_error + unit) \<times> ('sdk, 'w) state" where
  "ensureGasBalance_try e s userPhone =
     (case getOrCreateServerWallet e s userPhone of
        (Inl err, s1) \<Rightarrow> (Inl err, s1)
      | (Inr userWallet, s1) \<Rightarrow>
          (case getBalance e (address userWallet) of
             Inl err \<Rightarrow> (Inl err, s1)
           | Inr userBalance \<Rightarrow>
               if userBalance < MATIC_TOP_UP_THRESHOLD_WEI then
                 (case new_Wallet e (MASTER_PRIVATE_KEY e) of
                    Inl err \<Rightarrow> (Inl err, s1)
                  | Inr masterWallet \<Rightarrow>
                      (case getBalance e (wallet_address e masterWallet) of
                         Inl err \<Rightarrow> (Inl err, s1)
                       | Inr masterBalance \<Rightarrow>
                           if masterBalance < MATIC_TOP_UP_AMOUNT_WEI then
                             (Inl (Error (lit ''CRITICAL: Master wallet has insufficient MATIC (''
                                          @ formatEther e masterBalance @ lit '' < ''
                                          @ formatEther e MATIC_TOP_UP_AMOUNT_WEI @ lit '')'')), s1)
                           else
                             (let request = \<lparr>tx_to = address userWallet,
                                             tx_value = MATIC_TOP_UP_AMOUNT_WEI\<rparr>;
                                  s2 = s1\<lparr>sentTransactions :=
                                            sentTransactions s1 @ [(masterWallet, request)]\<rparr>
                              in case sendTransaction e masterWallet request of
                                   Inl err \<Rightarrow> (Inl err, s2)
                                 | Inr hash \<Rightarrow>
                                     (case tx_wait e hash of
                                        Inl err \<Rightarrow> (Inl err, s2)
                                      | Inr u \<Rightarrow> (Inr (), s2)))))
               else (Inr (), s1)))"

definition ensureGasBalance ::
  "('sdk, 'w) env \<Rightarrow> ('sdk, 'w) state \<Rightarrow> jsstring \<Rightarrow> (js_error + unit) \<times> ('sdk, 'w) state" where
  "ensureGasBalance e s userPhone =
     (case ensureGasBalance_try e s userPhone of
        (Inl error, s1) \<Rightarrow> (Inl (Error (lit ''Gas balance check failed: '' @ message error)), s1)
      | (Inr u, s1) \<Rightarrow> (Inr u, s1))"

text \<open>A client that calls an operation \<open>n\<close> times in a row, collecting the results.\<close>

fun repeatCall :: "nat \<Rightarrow> ('s \<Rightarrow> 'r \<times> 's) \<Rightarrow> 's \<Rightarrow> 'r list \<times> 's" where
  "repeatCall 0 f s = ([], s)"
| "repeatCall (Suc n) f s =
     (case f s of (r, s1) \<Rightarrow> (case repeatCall n f s1 of (rs, s2) \<Rightarrow> (r # rs, s2)))"

text \<open>A 32-byte value as the ethers library prints it: \<open>0x\<close> and 64 hexadecimal digits.\<close>

definition isHexDigit :: "16 word \<Rightarrow> bool" where
  "isHexDigit c \<longleftrightarrow> (0x30 \<le> c \<and> c \<le> 0x39) \<or> (0x61 \<le> c \<and> c \<le> 0x66) \<or> (0x41 \<le> c \<and> c \<le> 0x46)"

definition isBytes32Hex :: "jsstring \<Rightarrow> bool" where
  "isBytes32Hex k \<longleftrightarrow> length k = 66 \<and> take 2 k = lit ''0x'' \<and> list_all isHexDigit (drop 2 k)"

section \<open>The authentication middleware (server.ts)\<close>

text \<open>
  Of a request the middleware (lines 16-29) reads \<open>req.path\<close> and \<open>req.header(name)\<close>,
  which is a string or \<open>undefined\<close>.
\<close>

record Request =
  path :: jsstring
  header :: "jsstring \<rightharpoonup> jsstring"

text \<open>
  What a middleware does with a request: call \<open>next()\<close>, or end the request with a status and
  a JSON body without calling \<open>next()\<close>.
\<close>

datatype middleware_result = Next | Respond nat jsval

text \<open>
  The configured token (line 14), \<open>(process.env.EXECUTOR_API_TOKEN || "").trim()\<close>, as a
  function of the value of the environment variable.
\<close>

definition EXECUTOR_API_TOKEN :: "jsstring option \<Rightarrow> jsstring" where
  "EXECUTOR_API_TOKEN env_value =
     trim (case env_value of None \<Rightarrow> [] | Some v \<Rightarrow> if v = [] then [] else v)"

definition authMiddleware :: "jsstring \<Rightarrow> Request \<Rightarrow> middleware_result" where
  "authMiddleware configured req =
     (if path req = lit ''/health'' then Next
      else if configured = [] then
        Respond 500 (JObj [(lit ''ok'', JBool False),
                           (lit ''error'', JStr (lit ''EXECUTOR_API_TOKEN missing''))])
      else
        (let token = header req (lit ''x-executor-token'') in
         if token \<noteq> Some configured then
           Respond 401 (JObj [(lit ''ok'', JBool False), (lit ''error'', JStr (lit ''unauthorized''))])
         else Next))"

text \<open>
  The application behind the middleware: the route handler runs only when the middleware calls
  \<open>next()\<close>; otherwise the middleware's response is the response.
\<close>

definition serve :: "jsstring \<Rightarrow> (Request \<Rightarrow> 'r) \<Rightarrow> Request \<Rightarrow> (nat \<times> jsval) + 'r" where
  "serve configured handler req =
     (case authMiddleware configured req of
        Next \<Rightarrow> Inr (handler req)
      | Respond status body \<Rightarrow> Inl (status, body))"

section \<open>Top markets (polymarketGamma.ts)\<close>

text \<open>
  \<open>gammaTopMarkets\<close> (lines 37-73). First \<open>a || b\<close> on numbers, and \<open>Math.min\<close> and
  \<open>Math.max\<close> of two numbers (\<open>NaN\<close> if an argument is \<open>NaN\<close>).
\<close>

definition or_num :: "jsnum \<Rightarrow> jsnum \<Rightarrow> jsnum" where
  "or_num a b = (if truthy (JNum a) then a else b)"

fun num_le :: "jsnum \<Rightarrow> jsnum \<Rightarrow> bool" where
  "num_le NaN b = False"
| "num_le a NaN = False"
| "num_le NegInfinity b = True"
| "num_le a PosInfinity = True"
| "num_le (Fin x) (Fin y) = (x \<le> y)"
| "num_le a b = False"

definition Math_min :: "jsnum \<Rightarrow> jsnum \<Rightarrow> jsnum" where
  "Math_min a b = (if a = NaN \<or> b = NaN then NaN else if num_le a b then a else b)"

definition Math_max :: "jsnum \<Rightarrow> jsnum \<Rightarrow> jsnum" where
  "Math_max a b = (if a = NaN \<or> b = NaN then NaN else if num_le a b then b else a)"

text \<open>
  \<open>limit\<close> has the type \<open>number\<close>, on which \<open>Number(limit)\<close> is the identity; a caller
  that holds something non-numeric passes what \<open>Number\<close> made of it, \<open>NaN\<close>.
\<close>

definition safeLimit :: "jsnum \<Rightarrow> jsnum" where
  "safeLimit limit = Math_max (Fin 1) (Math_min (Fin 50) (or_num limit (Fin 10)))"

text \<open>
  \<open>xs.slice(0, end)\<close>: \<open>end\<close> goes through ToIntegerOrInfinity (\<open>NaN\<close> to 0, a finite
  number truncated towards zero); a negative end counts from the end of the array.
\<close>

definition truncate :: "real \<Rightarrow> int" where
  "truncate r = (if 0 \<le> r then \<lfloor>r\<rfloor> else \<lceil>r\<rceil>)"

definition slice0 :: "'a list \<Rightarrow> jsnum \<Rightarrow> 'a list" where
  "slice0 xs endIndex =
     (case endIndex of
        NaN \<Rightarrow> []
      | PosInfinity \<Rightarrow> xs
      | NegInfinity \<Rightarrow> []
      | Fin r \<Rightarrow>
          (let relativeEnd = truncate r;
               final = (if relativeEnd < 0 then max (int (length xs) + relativeEnd) 0
                        else min relativeEnd (int (length xs)))
           in take (nat final) xs))"

definition marketView :: "jsval \<Rightarrow> jsval \<Rightarrow> jsval" where
  "marketView ev m =
     JObj [(lit ''eventId'', getProp ev (lit ''id'')),
           (lit ''eventTitle'', getProp ev (lit ''title'')),
           (lit ''eventSlug'', getProp ev (lit ''slug'')),
           (lit ''id'', getProp m (lit ''id'')),
           (lit ''question'', getProp m (lit ''question'')),
           (lit ''slug'', getProp m (lit ''slug'')),
           (lit ''active'', getProp m (lit ''active'')),
           (lit ''endDate'', getProp m (lit ''endDate'')),
           (lit ''outcomes'', getProp m (lit ''outcomes'')),
           (lit ''outcomePrices'', getProp m (lit ''outcomePrices'')),
           (lit ''clobTokenIds'', getProp m (lit ''clobTokenIds'')),
           (lit ''volume'', getProp m (lit ''volume'')),
           (lit ''liquidity'', getProp m (lit ''liquidity''))]"

text \<open>
  The inner loop over the markets of one event, and the outer loop over the events; both push
  onto \<open>markets\<close>. Reading \<open>m.id\<close> of a \<open>null\<close> or \<open>undefined\<close> entry throws a
  TypeError (the message is the engine's).
\<close>

fun pushMarkets :: "jsval \<Rightarrow> jsval list \<Rightarrow> jsval list \<Rightarrow> js_error + jsval list" where
  "pushMarkets ev [] markets = Inr markets"
| "pushMarkets ev (m # ms) markets =
     (if isNullish m
      then Inl (TypeError (lit ''Cannot read properties of ''
                           @ (if m = JNull then lit ''null'' else lit ''undefined'')
                           @ lit '' (reading 'id')''))
      else pushMarkets ev ms (markets @ [marketView ev m]))"

fun flattenEvents :: "jsval list \<Rightarrow> jsval list \<Rightarrow> js_error + jsval list" where
  "flattenEvents [] markets = Inr markets"
| "flattenEvents (ev # evs) markets =
     (let evMarkets = (case getProp ev (lit ''markets'') of JArr ms \<Rightarrow> ms | _ \<Rightarrow> [])
      in case pushMarkets ev evMarkets markets of
           Inl err \<Rightarrow> Inl err
         | Inr markets' \<Rightarrow> flattenEvents evs markets')"

text \<open>
  \<open>gammaGet\<close> is the HTTP request; it is a parameter, applied to the path and the query.
\<close>

definition gammaTopMarkets ::
  "(jsstring \<Rightarrow> (jsstring \<times> jsval) list \<Rightarrow> js_error + jsval list) \<Rightarrow> jsnum
     \<Rightarrow> js_error + jsval list" where
  "gammaTopMarkets gammaGet limit =
     (let safe = safeLimit limit in
      case gammaGet (lit ''/events'')
             [(lit ''order'', JStr (lit ''id'')), (lit ''ascending'', JBool False),
              (lit ''closed'', JBool False), (lit ''active'', JBool True),
              (lit ''limit'', JNum safe), (lit ''offset'', JNum (Fin 0))] of
        Inl err \<Rightarrow> Inl err
      | Inr events \<Rightarrow>
          (case flattenEvents events [] of
             Inl err \<Rightarrow> Inl err
           | Inr markets \<Rightarrow> Inr (slice0 markets safe)))"


section \<open>The hash of the ethers library\<close>

text \<open>
  \<open>ethers.utils.solidityKeccak256(['bytes32', 'string'], [master, phone])\<close> of ethers v5, the
  library function that \<open>deriveUserPrivateKey\<close> calls: the value for \<open>bytes32\<close> goes through
  \<open>arrayify\<close> and must have 32 bytes, the string goes through \<open>toUtf8Bytes\<close>, and the
  Keccak-256 digest of the two byte strings, one after the other, is printed as \<open>0x\<close> and 64
  lower-case hexadecimal digits. The errors of the library's logger carry more than the reason
  (the argument, the version); \<open>mk\<close> stands for the logger's constructor of an error from
  its reason.
\<close>

type_synonym byte = "8 word"

type_synonym lane = "64 word"

text \<open>\<open>isHexString\<close>: the regular expression \<open>/^0x[0-9A-Fa-f]*$/\<close>.\<close>

definition isHexString :: "jsstring \<Rightarrow> bool" where
  "isHexString s \<longleftrightarrow> take 2 s = lit ''0x'' \<and> list_all isHexDigit (drop 2 s)"

text \<open>\<open>parseInt(d, 16)\<close> of one hexadecimal digit, and the bytes of a string of digits.\<close>

definition hexValue :: "16 word \<Rightarrow> nat" where
  "hexValue c =
     (if 0x30 \<le> c \<and> c \<le> 0x39 then unat c - 48
      else if 0x61 \<le> c \<and> c \<le> 0x66 then unat c - 87
      else unat c - 55)"

fun hexPairs :: "jsstring \<Rightarrow> byte list" where
  "hexPairs (a # b # rest) = of_nat (16 * hexValue a + hexValue b) # hexPairs rest"
| "hexPairs rest = []"

definition arrayify :: "(jsstring \<Rightarrow> js_error) \<Rightarrow> jsstring \<Rightarrow> js_error + byte list" where
  "arrayify mk v =
     (if isHexString v then
        (let hex = drop 2 v in
         if length hex mod 2 \<noteq> 0 then Inl (mk (lit ''hex data is odd-length''))
         else Inr (hexPairs hex))
      else Inl (mk (lit ''invalid arrayify value'')))"

text \<open>The case \<open>bytes32\<close> of the library's \<open>_pack\<close>.\<close>

definition pack_bytes32 :: "(jsstring \<Rightarrow> js_error) \<Rightarrow> jsstring \<Rightarrow> js_error + byte list" where
  "pack_bytes32 mk v =
     (case arrayify mk v of
        Inl err \<Rightarrow> Inl err
      | Inr bytes \<Rightarrow>
          if length bytes \<noteq> 32 then Inl (mk (lit ''invalid value for bytes32''))
          else Inr bytes)"

text \<open>
  \<open>toUtf8Bytes\<close>: one, two or three bytes for a code unit that is not a high surrogate, four
  bytes for a high surrogate followed by a low surrogate, and an error for a high surrogate
  followed by anything else or by nothing.
\<close>

definition isHighSurrogate :: "16 word \<Rightarrow> bool" where
  "isHighSurrogate c \<longleftrightarrow> c AND 0xFC00 = 0xD800"

definition isLowSurrogate :: "16 word \<Rightarrow> bool" where
  "isLowSurrogate c \<longleftrightarrow> c AND 0xFC00 = 0xDC00"

definition utf8Unit :: "16 word \<Rightarrow> byte list" where
  "utf8Unit c =
     (if c < 0x80 then [ucast c]
      else if c < 0x800 then [ucast (drop_bit 6 c) OR 0xC0, (ucast c AND 0x3F) OR 0x80]
      else [ucast (drop_bit 12 c) OR 0xE0, (ucast (drop_bit 6 c) AND 0x3F) OR 0x80,
            (ucast c AND 0x3F) OR 0x80])"

definition utf8Pair :: "16 word \<Rightarrow> 16 word \<Rightarrow> byte list" where
  "utf8Pair c c2 =
     (let pair = (0x10000 + push_bit 10 (ucast (c AND 0x03FF)) + ucast (c2 AND 0x03FF) :: 32 word)
      in [ucast (drop_bit 18 pair) OR 0xF0, (ucast (drop_bit 12 pair) AND 0x3F) OR 0x80,
          (ucast (drop_bit 6 pair) AND 0x3F) OR 0x80, (ucast pair AND 0x3F) OR 0x80])"

fun toUtf8Bytes :: "jsstring \<Rightarrow> js_error + byte list" where
  "toUtf8Bytes [] = Inr []"
| "toUtf8Bytes [c] =
     (if isHighSurrogate c then Inl (Error (lit ''invalid utf-8 string'')) else Inr (utf8Unit c))"
| "toUtf8Bytes (c # c2 # rest) =
     (if isHighSurrogate c then
        (if isLowSurrogate c2 then
           (case toUtf8Bytes rest of
              Inl err \<Rightarrow> Inl err
            | Inr bytes \<Rightarrow> Inr (utf8Pair c c2 @ bytes))
         else Inl (Error (lit ''invalid utf-8 string'')))
      else
        (case toUtf8Bytes (c2 # rest) of
           Inl err \<Rightarrow> Inl err
         | Inr bytes \<Rightarrow> Inr (utf8Unit c @ bytes)))"

text \<open>The strings that \<open>toUtf8Bytes\<close> accepts: every high surrogate is followed by a low one.\<close>

fun wellFormedUtf16 :: "jsstring \<Rightarrow> bool" where
  "wellFormedUtf16 [] = True"
| "wellFormedUtf16 [c] = (\<not> isHighSurrogate c)"
| "wellFormedUtf16 (c # c2 # rest) =
     (if isHighSurrogate c then isLowSurrogate c2 \<and> wellFormedUtf16 rest
      else wellFormedUtf16 (c2 # rest))"

subsection \<open>Keccak-256\<close>

text \<open>
  The sponge with the permutation Keccak-f[1600], a rate of 136 bytes, the padding of the
  original Keccak (a byte \<open>0x01\<close>, zeros, and \<open>0x80\<close> on the last byte of the block) and 32
  bytes of output. The state is the list of the 25 lanes, lane \<open>(x, y)\<close> at index \<open>x + 5y\<close>.
\<close>

definition roundConstants :: "lane list" where
  "roundConstants =
     [0x0000000000000001, 0x0000000000008082, 0x800000000000808A, 0x8000000080008000,
      0x000000000000808B, 0x0000000080000001, 0x8000000080008081, 0x8000000000008009,
      0x000000000000008A, 0x0000000000000088, 0x0000000080008009, 0x000000008000000A,
      0x000000008000808B, 0x800000000000008B, 0x8000000000008089, 0x8000000000008003,
      0x8000000000008002, 0x8000000000000080, 0x000000000000800A, 0x800000008000000A,
      0x8000000080008081, 0x8000000000008080, 0x0000000080000001, 0x8000000080008008]"

definition rotationOffsets :: "nat list" where
  "rotationOffsets =
     [0, 1, 62, 28, 27,
      36, 44, 6, 55, 20,
      3, 10, 43, 25, 39,
      41, 45, 15, 21, 8,
      18, 2, 61, 56, 14]"

definition theta :: "lane list \<Rightarrow> lane list" where
  "theta a =
     (let c = map (\<lambda>x. a ! x XOR a ! (x + 5) XOR a ! (x + 10) XOR a ! (x + 15) XOR a ! (x + 20))
                [0..<5];
          d = map (\<lambda>x. c ! ((x + 4) mod 5) XOR word_rotl 1 (c ! ((x + 1) mod 5))) [0..<5]
      in map (\<lambda>i. a ! i XOR d ! (i mod 5)) [0..<25])"

text \<open>
  The steps rho and pi: lane \<open>(x, y)\<close>, rotated by its offset, goes to \<open>(y, 2x + 3y)\<close>; so
  the lane at \<open>(X, Y)\<close> comes from \<open>(X + 3Y, X)\<close>.
\<close>

definition rhoPi :: "lane list \<Rightarrow> lane list" where
  "rhoPi a =
     map (\<lambda>j. let from = (j mod 5 + 3 * (j div 5)) mod 5 + 5 * (j mod 5)
              in word_rotl (rotationOffsets ! from) (a ! from)) [0..<25]"

definition chi :: "lane list \<Rightarrow> lane list" where
  "chi b =
     map (\<lambda>j. b ! j XOR (NOT (b ! ((j mod 5 + 1) mod 5 + 5 * (j div 5)))
                         AND b ! ((j mod 5 + 2) mod 5 + 5 * (j div 5)))) [0..<25]"

definition iota :: "lane \<Rightarrow> lane list \<Rightarrow> lane list" where
  "iota rc a = a[0 := a ! 0 XOR rc]"

definition keccakRound :: "lane \<Rightarrow> lane list \<Rightarrow> lane list" where
  "keccakRound rc a = iota rc (chi (rhoPi (theta a)))"

definition keccakF :: "lane list \<Rightarrow> lane list" where
  "keccakF a = fold keccakRound roundConstants a"

text \<open>Lanes are little-endian.\<close>

definition laneOfBytes :: "byte list \<Rightarrow> lane" where
  "laneOfBytes bs = foldr (\<lambda>b acc. push_bit 8 acc OR ucast b) bs 0"

definition bytesOfLane :: "lane \<Rightarrow> byte list" where
  "bytesOfLane w = map (\<lambda>k. ucast (drop_bit (8 * k) w)) [0..<8]"

definition keccakPad :: "byte list \<Rightarrow> byte list" where
  "keccakPad m =
     (let q = 136 - length m mod 136
      in if q = 1 then m @ [0x81] else m @ [0x01] @ replicate (q - 2) 0 @ [0x80])"

definition absorbBlock :: "lane list \<Rightarrow> byte list \<Rightarrow> lane list" where
  "absorbBlock a block =
     keccakF (map (\<lambda>i. if i < 17 then a ! i XOR laneOfBytes (take 8 (drop (8 * i) block))
                       else a ! i) [0..<25])"

primrec absorb :: "nat \<Rightarrow> lane list \<Rightarrow> byte list \<Rightarrow> lane list" where
  "absorb 0 a bs = a"
| "absorb (Suc n) a bs = absorb n (absorbBlock a (take 136 bs)) (drop 136 bs)"

definition keccak256 :: "byte list \<Rightarrow> byte list" where
  "keccak256 m =
     (let padded = keccakPad m
      in take 32 (concat (map bytesOfLane (absorb (length padded div 136) (replicate 25 0) padded))))"

text \<open>\<open>hexlify\<close> of bytes: \<open>0x\<close> and two lower-case digits for each byte.\<close>

definition hexDigit :: "nat \<Rightarrow> 16 word" where
  "hexDigit n = of_nat (if n < 10 then 48 + n else 87 + n)"

definition hexlify :: "byte list \<Rightarrow> jsstring" where
  "hexlify bs = lit ''0x'' @ concat (map (\<lambda>b. [hexDigit (unat b div 16), hexDigit (unat b mod 16)]) bs)"

definition ethers_solidityKeccak256 ::
  "(jsstring \<Rightarrow> js_error) \<Rightarrow> jsstring \<Rightarrow> jsstring \<Rightarrow> js_error + jsstring" where
  "ethers_solidityKeccak256 mk master phone =
     (case pack_bytes32 mk master of
        Inl err \<Rightarrow> Inl err
      | Inr masterBytes \<Rightarrow>
          (case toUtf8Bytes phone of
             Inl err \<Rightarrow> Inl err
           | Inr phoneBytes \<Rightarrow> Inr (hexlify (keccak256 (masterBytes @ phoneBytes)))))"

section \<open>Concrete scenarios\<close>

text \<open>Two responses of the exchange for the same credential, and the credential.\<close>

definition alternateResponse :: "(jsstring \<times> jsval) list" where
  "alternateResponse =
     [(lit ''apiKey'', JStr (lit '' k1 '')), (lit ''secret'', JStr (lit ''ab-_cQ'')),
      (lit ''passphrase'', JStr (lit ''pw''))]"

definition canonicalResponse :: "(jsstring \<times> jsval) list" where
  "canonicalResponse =
     [(lit ''key'', JStr (lit '' k1 '')), (lit ''secret'', JStr (lit ''ab+/cQ=='')),
      (lit ''passphrase'', JStr (lit ''pw''))]"

definition sampleCreds :: ApiCreds where
  "sampleCreds = \<lparr>key = lit ''k1'', secret = lit ''ab+/cQ=='', passphrase = lit ''pw''\<rparr>"

text \<open>Requests to the server: the health check, and an order without and with the token.\<close>

definition healthRequest :: Request where
  "healthRequest = \<lparr>path = lit ''/health'', header = Map.empty\<rparr>"

definition anonymousRequest :: Request where
  "anonymousRequest = \<lparr>path = lit ''/polymarket/orders/market'', header = Map.empty\<rparr>"

definition authorisedRequest :: Request where
  "authorisedRequest = \<lparr>path = lit ''/polymarket/orders/market'',
                          header = [lit ''x-executor-token'' \<mapsto> lit ''s3cret'']\<rparr>"

text \<open>A market-data answer with one event of three markets.\<close>

definition sampleEvents :: "jsval list" where
  "sampleEvents =
     [JObj [(lit ''id'', JStr (lit ''e1'')),
            (lit ''markets'',
             JArr [JObj [(lit ''id'', JStr (lit ''m1''))], JObj [(lit ''id'', JStr (lit ''m2''))],
                   JObj [(lit ''id'', JStr (lit ''m3''))]])]]"

text \<open>
  An environment to run the operations in. The stand-in for the hash pads the tenant identifier
  to 64 digits; SDK instances and wallets are represented by their private keys; the master
  account holds 1 MATIC and every other account 1 wei less than the threshold; the exchange
  fails on the first call and answers with \<open>canonicalResponse\<close> afterwards.
\<close>

definition demoEnv :: "(jsstring, jsstring) env" where
  "demoEnv =
     \<lparr>MASTER_PRIVATE_KEY = lit ''0xmaster'',
      solidityKeccak256 = (\<lambda>m p. Inr (lit ''0x'' @ take 64 (p @ replicate 64 (chr16 CHR ''0'')))),
      fromPrivateKey = (\<lambda>k. Inr k),
      sdk_wallet_getAddress = (\<lambda>sdk. Inr (lit ''addr:'' @ sdk)),
      new_Wallet = (\<lambda>k. Inr k),
      wallet_address = (\<lambda>w. lit ''addr:'' @ w),
      getBalance = (\<lambda>a. Inr (if a = lit ''addr:0xmaster'' then 10 ^ 18 else 10 ^ 17 - 1)),
      sendTransaction = (\<lambda>w r. Inr (lit ''0xhash'')),
      tx_wait = (\<lambda>h. Inr ()),
      formatEther = (\<lambda>n. lit ''n''),
      POLYMARKET_API_NONCE = None,
      Number_of_string = (\<lambda>s. NaN),
      createOrDeriveApiKey =
        (\<lambda>n w nonce. if n = 0 then Inl (Error (lit ''network'')) else Inr (JObj canonicalResponse))\<rparr>"

definition alice :: jsstring where
  "alice = lit ''5551001''"

definition bob :: jsstring where
  "bob = lit ''5551002''"

definition aliceKey :: jsstring where
  "aliceKey = lit ''0x5551001'' @ replicate 57 (chr16 CHR ''0'')"

text \<open>
  The states that the calls below pass through: after a failed credential derivation for
  \<open>alice\<close>, after the retry, and a state in which only \<open>bob\<close> has credentials.
\<close>

definition afterFailure :: "(jsstring, jsstring) state" where
  "afterFailure = initial_state\<lparr>derivations := [alice], remoteCalls := [aliceKey]\<rparr>"

definition afterRetry :: "(jsstring, jsstring) state" where
  "afterRetry = initial_state\<lparr>apiCredsCache := [alice \<mapsto> sampleCreds],
                                 derivations := [alice, alice],
                                 remoteCalls := [aliceKey, aliceKey]\<rparr>"

definition bobCached :: "(jsstring, jsstring) state" where
  "bobCached = initial_state\<lparr>apiCredsCache := [bob \<mapsto> sampleCreds]\<rparr>"

text \<open>
  Variants of the environment: every account at the threshold exactly, and a master account
  that holds nothing.
\<close>

definition fundedEnv :: "(jsstring, jsstring) env" where
  "fundedEnv = demoEnv\<lparr>getBalance := (\<lambda>a. Inr (10 ^ 17))\<rparr>"

definition poorEnv :: "(jsstring, jsstring) env" where
  "poorEnv = demoEnv\<lparr>getBalance := (\<lambda>a. Inr 0)\<rparr>"

definition aliceWallet :: WalletInfo where
  "aliceWallet = \<lparr>address = lit ''addr:'' @ aliceKey, thirdwebWalletId = alice,
                   provider = lit ''thirdweb'', chainId = 137\<rparr>"

definition aliceCachedSdk :: "(jsstring, jsstring) state" where
  "aliceCachedSdk = initial_state\<lparr>sdkCache := [alice \<mapsto> aliceKey], derivations := [alice]\<rparr>"

text \<open>The signer object as the constructor leaves it for \<open>alice\<close>.\<close>

definition aliceSigner :: "jsstring ThirdwebSigner" where
  "aliceSigner = \<lparr>private_phone = alice, private_sdk = aliceKey, private_address = None,
                   signer_address = []\<rparr>"


text \<open>
  Two environments that use the library's hash: one whose master key is \<open>0x\<close> and 64
  hexadecimal digits, and one whose master key is the same 64 digits without the prefix.
\<close>

definition ethersEnv :: "(jsstring, jsstring) env" where
  "ethersEnv =
     demoEnv\<lparr>MASTER_PRIVATE_KEY :=
                 lit ''0x1111111111111111111111111111111111111111111111111111111111111111'',
               solidityKeccak256 := ethers_solidityKeccak256 Error\<rparr>"

definition unprefixedEnv :: "(jsstring, jsstring) env" where
  "unprefixedEnv =
     ethersEnv\<lparr>MASTER_PRIVATE_KEY :=
                   lit ''1111111111111111111111111111111111111111111111111111111111111111''\<rparr>"

definition aliceBytes :: "byte list" where
  "aliceBytes = [0x35, 0x35, 0x35, 0x31, 0x30, 0x30, 0x31]"

lemma base64_not_ws: "isBase64Char c \<Longrightarrow> \<not> isWhiteSpace c"
  unfolding isBase64Char_def isWhiteSpace_def
  by (auto simp: word_le_nat_alt)

lemma dropWhile_hd_noop: "xs = [] \<or> \<not> P (hd xs) \<Longrightarrow> dropWhile P xs = xs"
  by (cases xs) auto

lemma trim_noop: "s = [] \<or> (\<not> isWhiteSpace (hd s) \<and> \<not> isWhiteSpace (last s)) \<Longrightarrow> trim s = s"
proof (cases s)
  case Nil then show ?thesis by (simp add: trim_def)
next
  case (Cons a as)
  assume "s = [] \<or> (\<not> isWhiteSpace (hd s) \<and> \<not> isWhiteSpace (last s))"
  with Cons have h: "\<not> isWhiteSpace a" and l: "\<not> isWhiteSpace (last s)" by auto
  from h Cons have 1: "dropWhile isWhiteSpace s = s" by simp
  have "hd (rev s) = last s" using Cons by (simp add: hd_rev)
  with l have 2: "dropWhile isWhiteSpace (rev s) = rev s"
    by (intro dropWhile_hd_noop) simp
  show ?thesis by (simp add: trim_def 1 2)
qed

lemma trim_ends: "trim s \<noteq> [] \<Longrightarrow> \<not> isWhiteSpace (hd (trim s)) \<and> \<not> isWhiteSpace (last (trim s))"
proof -
  assume ne: "trim s \<noteq> []"
  define a where "a = dropWhile isWhiteSpace s"
  define b where "b = dropWhile isWhiteSpace (rev a)"
  have t: "trim s = rev b" by (simp add: trim_def a_def b_def)
  from ne t have bne: "b \<noteq> []" by simp
  then have lastok: "\<not> isWhiteSpace (hd b)" unfolding b_def by (rule hd_dropWhile)
  have "rev a = takeWhile isWhiteSpace (rev a) @ b" by (simp add: b_def)
  then have "a = rev b @ rev (takeWhile isWhiteSpace (rev a))"
    by (metis rev_append rev_rev_ident)
  with bne have "hd a = hd (rev b)" and ane: "a \<noteq> []"
    by (metis hd_append2 rev_is_Nil_conv, metis Nil_is_append_conv rev_is_Nil_conv)
  moreover from ane have "\<not> isWhiteSpace (hd a)" unfolding a_def by (rule hd_dropWhile)
  ultimately have "\<not> isWhiteSpace (hd (rev b))" by simp
  moreover have "last (rev b) = hd b" using bne by (simp add: last_rev)
  ultimately show ?thesis using lastok t by simp
qed

lemma trim_trim: "trim (trim s) = trim s"
  by (rule trim_noop) (use trim_ends in blast)


lemma normalize_alt:
  "normalizeBase64ForAtob s =
     map unmark (trim s) @ replicate ((4 - length (trim s) mod 4) mod 4) (chr16 CHR ''='')"
  by (simp add: normalizeBase64ForAtob_def replaceAll_def unmark_def Let_def chr16_def comp_def)

lemma unmark_ws: "isWhiteSpace (unmark c) = isWhiteSpace c"
  by (simp add: unmark_def isWhiteSpace_def chr16_def)

lemma unmark_idem: "unmark (unmark c) = unmark c"
  by (simp add: unmark_def chr16_def)

lemma eq_not_ws: "\<not> isWhiteSpace (chr16 CHR ''='')"
  by (simp add: isWhiteSpace_def chr16_def)

lemma unmark_eq: "unmark (chr16 CHR ''='') = chr16 CHR ''=''"
  by (simp add: unmark_def chr16_def)

lemma pad_mod4: "(n + (4 - n mod 4) mod 4) mod 4 = (0::nat)"
proof -
  have e: "(n + k) mod 4 = (n mod 4 + k) mod 4" for k
    by (simp add: mod_add_left_eq)
  have "n mod 4 < 4" by simp
  then consider "n mod 4 = 0" | "n mod 4 = 1" | "n mod 4 = 2" | "n mod 4 = 3"
    by linarith
  then show ?thesis
    by cases (simp_all add: e mod_Suc)
qed

lemma normalize_length: "length (normalizeBase64ForAtob s) mod 4 = 0"
  by (simp add: normalize_alt pad_mod4)

lemma normalize_no_urlsafe:
  "chr16 CHR ''-'' \<notin> set (normalizeBase64ForAtob s) \<and> chr16 CHR ''_'' \<notin> set (normalizeBase64ForAtob s)"
  by (auto simp: normalize_alt unmark_def chr16_def split: if_splits)

lemma normalize_trim_fix: "trim (normalizeBase64ForAtob s) = normalizeBase64ForAtob s"
proof (cases "trim s = []")
  case True
  then show ?thesis by (simp add: normalize_alt trim_noop)
next
  case False
  let ?b = "map unmark (trim s)"
  let ?p = "replicate ((4 - length (trim s) mod 4) mod 4) (chr16 CHR ''='')"
  from False have h: "\<not> isWhiteSpace (hd (?b @ ?p))"
    using trim_ends [of s] by (simp add: hd_map unmark_ws)
  have l: "\<not> isWhiteSpace (last (?b @ ?p))"
  proof (cases "?p = []")
    case True
    with False show ?thesis using trim_ends [of s] by (simp add: last_map unmark_ws)
  next
    case False
    then have "last (?b @ ?p) = chr16 CHR ''=''" by (simp del: replicate_eq_replicate)
    then show ?thesis by (simp add: eq_not_ws)
  qed
  show ?thesis unfolding normalize_alt
    by (rule trim_noop, rule disjI2, rule conjI, rule h, rule l)
qed

lemma normalize_idem: "normalizeBase64ForAtob (normalizeBase64ForAtob s) = normalizeBase64ForAtob s"
proof -
  let ?n = "normalizeBase64ForAtob s"
  have 1: "trim ?n = ?n" by (rule normalize_trim_fix)
  have 2: "map unmark ?n = ?n"
    by (simp add: normalize_alt unmark_idem unmark_eq)
  have 3: "(4 - length ?n mod 4) mod 4 = 0" by (simp add: normalize_length)
  have "normalizeBase64ForAtob ?n = map unmark (trim ?n) @ replicate ((4 - length (trim ?n) mod 4) mod 4) (chr16 CHR ''='')"
    by (rule normalize_alt)
  also have "\<dots> = ?n" by (simp only: 1 2 3) simp
  finally show ?thesis .
qed

lemma normalize_nonempty: "trim s \<noteq> [] \<Longrightarrow> normalizeBase64ForAtob s \<noteq> []"
  by (simp add: normalize_alt)


lemma all_not_ws_trim: "list_all (\<lambda>c. \<not> isWhiteSpace c) s \<Longrightarrow> trim s = s"
proof (cases s)
  case Nil
  then show ?thesis by (simp add: trim_def)
next
  case (Cons a as)
  assume "list_all (\<lambda>c. \<not> isWhiteSpace c) s"
  then have all: "\<forall>c\<in>set s. \<not> isWhiteSpace c" by (simp add: list_all_iff)
  from Cons have "hd s \<in> set s" and "last s \<in> set s" by simp_all
  with all have "\<not> isWhiteSpace (hd s) \<and> \<not> isWhiteSpace (last s)" by blast
  then show ?thesis by (intro trim_noop disjI2)
qed

lemma base64url_of_alt: "base64url_of s = map mark (base64Body s)"
  by (simp add: base64url_of_def replaceAll_def mark_def chr16_def comp_def)

lemma unmark_mark: "isBase64Char c \<Longrightarrow> unmark (mark c) = c"
  by (auto simp: isBase64Char_def unmark_def mark_def chr16_def)

lemma unmark_base64: "isBase64Char c \<Longrightarrow> unmark c = c"
  by (auto simp: isBase64Char_def unmark_def chr16_def)

lemma mark_not_ws: "isBase64Char c \<Longrightarrow> \<not> isWhiteSpace (mark c)"
  using base64_not_ws [of c]
  by (auto simp: mark_def isWhiteSpace_def chr16_def)

lemma pad_len: "(b + k) mod 4 = 0 \<Longrightarrow> k \<le> 2 \<Longrightarrow> (4 - b mod 4) mod 4 = (k::nat)"
proof -
  assume a: "(b + k) mod 4 = 0" and k: "k \<le> 2"
  have e: "(b + k) mod 4 = (b mod 4 + k) mod 4"
    by (simp add: mod_add_left_eq)
  have "b mod 4 < 4" by simp
  then have r: "b mod 4 = 0 \<or> b mod 4 = 1 \<or> b mod 4 = 2 \<or> b mod 4 = 3"
    by linarith
  from k have kk: "k = 0 \<or> k = 1 \<or> k = 2" by linarith
  from r kk a [unfolded e] show ?thesis
    by (elim disjE) simp_all
qed

lemma body_padding: "base64Body s @ base64Padding s = s"
  by (simp add: base64Body_def base64Padding_def)

lemma std_parts:
  assumes "isStandardBase64 s"
  shows "list_all isBase64Char (base64Body s)"
    and "base64Body s @ replicate (length (base64Padding s)) (chr16 CHR ''='') = s"
    and "length (base64Padding s) \<le> 2"
    and "(length (base64Body s) + length (base64Padding s)) mod 4 = 0"
proof -
  from assms have a: "list_all isBase64Char (base64Body s)
     \<and> base64Padding s = replicate (length (base64Padding s)) (chr16 CHR ''='')
     \<and> length (base64Padding s) \<le> 2
     \<and> length s mod 4 = 0"
    unfolding isStandardBase64_def .
  from a show "list_all isBase64Char (base64Body s)" by (rule conjunct1)
  from a have p: "base64Padding s = replicate (length (base64Padding s)) (chr16 CHR ''='')"
    by (elim conjE)
  show "base64Body s @ replicate (length (base64Padding s)) (chr16 CHR ''='') = s"
    by (subst p [symmetric]) (rule body_padding)
  from a show "length (base64Padding s) \<le> 2" by (elim conjE)
  from a have "length s mod 4 = 0" by (elim conjE)
  moreover have "length s = length (base64Body s) + length (base64Padding s)"
    by (subst body_padding [of s, symmetric]) (simp only: length_append)
  ultimately show "(length (base64Body s) + length (base64Padding s)) mod 4 = 0"
    by (simp only:)
qed

lemma list_all_map_id: "list_all (\<lambda>c. f c = c) xs \<Longrightarrow> map f xs = xs"
  by (induction xs) simp_all

lemma normalize_std: "isStandardBase64 s \<Longrightarrow> normalizeBase64ForAtob s = s"
proof -
  assume std: "isStandardBase64 s"
  define body where "body = base64Body s"
  define k where "k = length (base64Padding s)"
  note parts = std_parts [OF std, folded body_def k_def]
  have b: "list_all isBase64Char body" by (rule parts(1))
  have s: "s = body @ replicate k (chr16 CHR ''='')" by (rule parts(2) [symmetric])
  have m: "(length body + k) mod 4 = 0" by (rule parts(4))
  have "list_all (\<lambda>c. \<not> isWhiteSpace c) body"
    by (rule list.pred_mono_strong [OF b]) (rule base64_not_ws)
  then have nws: "list_all (\<lambda>c. \<not> isWhiteSpace c) (body @ replicate k (chr16 CHR ''=''))"
    by (auto simp: list_all_iff eq_not_ws)
  have t: "trim (body @ replicate k (chr16 CHR ''='')) = body @ replicate k (chr16 CHR ''='')"
    by (rule all_not_ws_trim [OF nws])
  have "list_all (\<lambda>c. unmark c = c) body"
    by (rule list.pred_mono_strong [OF b]) (rule unmark_base64)
  then have u: "map unmark body = body" by (rule list_all_map_id)
  have l: "(4 - (length body + k) mod 4) mod 4 = 0" by (simp only: m) simp
  have "normalizeBase64ForAtob (body @ replicate k (chr16 CHR ''='')) = body @ replicate k (chr16 CHR ''='')"
    unfolding normalize_alt t by (simp add: u unmark_eq l)
  then show ?thesis by (simp only: s [symmetric])
qed

lemma normalize_url: "isStandardBase64 s \<Longrightarrow> normalizeBase64ForAtob (base64url_of s) = s"
proof -
  assume std: "isStandardBase64 s"
  define body where "body = base64Body s"
  define k where "k = length (base64Padding s)"
  note parts = std_parts [OF std, folded body_def k_def]
  have b: "list_all isBase64Char body" by (rule parts(1))
  have s: "body @ replicate k (chr16 CHR ''='') = s" by (rule parts(2))
  have k: "k \<le> 2" by (rule parts(3))
  have m: "(length body + k) mod 4 = 0" by (rule parts(4))
  have url: "base64url_of s = map mark body" by (simp only: base64url_of_alt body_def)
  have "list_all (\<lambda>c. \<not> isWhiteSpace (mark c)) body"
    by (rule list.pred_mono_strong [OF b]) (rule mark_not_ws)
  then have nws: "list_all (\<lambda>c. \<not> isWhiteSpace c) (map mark body)"
    by (simp add: list_all_iff)
  have t: "trim (map mark body) = map mark body" by (rule all_not_ws_trim [OF nws])
  have "list_all (\<lambda>c. (unmark \<circ> mark) c = c) body"
    by (rule list.pred_mono_strong [OF b]) (simp add: unmark_mark)
  then have "map (unmark \<circ> mark) body = body" by (rule list_all_map_id)
  then have u: "map unmark (map mark body) = body" by (simp only: map_map)
  have l: "(4 - length body mod 4) mod 4 = k" by (rule pad_len [OF m k])
  have "normalizeBase64ForAtob (map mark body) = body @ replicate k (chr16 CHR ''='')"
    unfolding normalize_alt t u by (simp add: l)
  then show ?thesis by (simp only: url s)
qed

lemma url_empty_iff: "isStandardBase64 s \<Longrightarrow> trim (base64url_of s) = [] \<longleftrightarrow> trim s = []"
proof -
  assume std: "isStandardBase64 s"
  have e: "normalizeBase64ForAtob x = [] \<longleftrightarrow> trim x = []" for x
    by (cases "trim x = []") (simp_all add: normalize_alt)
  have "trim (base64url_of s) = [] \<longleftrightarrow> normalizeBase64ForAtob (base64url_of s) = []"
    by (simp only: e)
  also have "\<dots> \<longleftrightarrow> normalizeBase64ForAtob s = []"
    by (simp only: normalize_url [OF std] normalize_std [OF std])
  also have "\<dots> \<longleftrightarrow> trim s = []" by (simp only: e)
  finally show ?thesis .
qed


lemma coerceApiCreds_Inr_D:
  "coerceApiCreds raw = Inr c \<Longrightarrow>
     \<exists>k s p. c = \<lparr>key = trim k, secret = normalizeBase64ForAtob s, passphrase = trim p\<rparr>
        \<and> trim k \<noteq> [] \<and> trim s \<noteq> [] \<and> trim p \<noteq> []"
  unfolding coerceApiCreds_def Let_def
  by (simp split: if_splits jsval.splits) blast+

lemma credsResponse_props:
  "typeof (credsResponse c) = T_object" "truthy (credsResponse c)"
  "getProp (credsResponse c) (lit ''key'') = JStr (key c)"
  "getProp (credsResponse c) (lit ''secret'') = JStr (secret c)"
  "getProp (credsResponse c) (lit ''passphrase'') = JStr (passphrase c)"
  by (simp_all add: credsResponse_def lit_def chr16_def)

lemma coerceApiCreds_credsResponse:
  assumes "trim (key c) = key c" "key c \<noteq> []" "trim (passphrase c) = passphrase c"
    "passphrase c \<noteq> []" "normalizeBase64ForAtob (secret c) = secret c" "trim (secret c) \<noteq> []"
  shows "coerceApiCreds (credsResponse c) = Inr (c :: ApiCreds)"
  unfolding coerceApiCreds_def Let_def
  by (simp add: credsResponse_props assms)

lemma coerceApiCreds_fixed:
  assumes "coerceApiCreds raw = Inr c"
  shows "coerceApiCreds (credsResponse c) = Inr c"
proof -
  from coerceApiCreds_Inr_D [OF assms] obtain k s p where
    c: "c = \<lparr>key = trim k, secret = normalizeBase64ForAtob s, passphrase = trim p\<rparr>"
    and ne: "trim k \<noteq> []" "trim s \<noteq> []" "trim p \<noteq> []" by blast
  show ?thesis
  proof (rule coerceApiCreds_credsResponse)
    show "trim (key c) = key c" by (simp add: c trim_trim)
    show "key c \<noteq> []" by (simp add: c ne)
    show "trim (passphrase c) = passphrase c" by (simp add: c trim_trim)
    show "passphrase c \<noteq> []" by (simp add: c ne)
    show "normalizeBase64ForAtob (secret c) = secret c" by (simp add: c normalize_idem)
    show "trim (secret c) \<noteq> []" by (simp add: c normalize_trim_fix normalize_nonempty ne)
  qed
qed

lemma coerceApiCreds_secret:
  assumes "coerceApiCreds raw = Inr c"
  shows "chr16 CHR ''-'' \<notin> set (secret c) \<and> chr16 CHR ''_'' \<notin> set (secret c)
         \<and> length (secret c) mod 4 = 0"
proof -
  from coerceApiCreds_Inr_D [OF assms] obtain k s p where
    c: "c = \<lparr>key = trim k, secret = normalizeBase64ForAtob s, passphrase = trim p\<rparr>" by blast
  then have "secret c = normalizeBase64ForAtob s" by simp
  then show ?thesis using normalize_no_urlsafe [of s] normalize_length [of s] by simp
qed

lemma coerceApiCreds_alt_canon:
  assumes std: "isStandardBase64 sec"
    and "typeof (getProp (JObj alt) (lit ''key'')) \<noteq> T_string"
    and "getProp (JObj alt) (lit ''apiKey'') = JStr k"
    and "getProp (JObj alt) (lit ''secret'') = JStr (base64url_of sec)"
    and "getProp (JObj alt) (lit ''passphrase'') = JStr p"
    and "getProp (JObj canon) (lit ''key'') = JStr k"
    and "getProp (JObj canon) (lit ''secret'') = JStr sec"
    and "getProp (JObj canon) (lit ''passphrase'') = JStr p"
  shows "coerceApiCreds (JObj alt) = coerceApiCreds (JObj canon)"
    and "trim k \<noteq> [] \<Longrightarrow> sec \<noteq> [] \<Longrightarrow> trim p \<noteq> [] \<Longrightarrow>
         coerceApiCreds (JObj canon) = Inr \<lparr>key = trim k, secret = sec, passphrase = trim p\<rparr>"
proof -
  have a: "coerceApiCreds (JObj alt) =
      (if trim k = [] then Inl (Error (lit ''Invalid api creds: missing key/apiKey''))
       else if trim sec = [] then Inl (Error (lit ''Invalid api creds: missing secret''))
       else if trim p = [] then Inl (Error (lit ''Invalid api creds: missing passphrase''))
       else Inr \<lparr>key = trim k, secret = sec, passphrase = trim p\<rparr>)"
    unfolding coerceApiCreds_def Let_def
    using assms(2-5) by (simp add: url_empty_iff [OF std] normalize_url [OF std])
  have b: "coerceApiCreds (JObj canon) =
      (if trim k = [] then Inl (Error (lit ''Invalid api creds: missing key/apiKey''))
       else if trim sec = [] then Inl (Error (lit ''Invalid api creds: missing secret''))
       else if trim p = [] then Inl (Error (lit ''Invalid api creds: missing passphrase''))
       else Inr \<lparr>key = trim k, secret = sec, passphrase = trim p\<rparr>)"
    unfolding coerceApiCreds_def Let_def
    using assms(6-8) by (simp add: normalize_std [OF std])
  show "coerceApiCreds (JObj alt) = coerceApiCreds (JObj canon)" by (simp only: a b)
  have "trim sec = sec"
    using normalize_std [OF std] normalize_trim_fix [of sec] by simp
  then show "trim k \<noteq> [] \<Longrightarrow> sec \<noteq> [] \<Longrightarrow> trim p \<noteq> [] \<Longrightarrow>
         coerceApiCreds (JObj canon) = Inr \<lparr>key = trim k, secret = sec, passphrase = trim p\<rparr>"
    by (simp add: b)
qed


section \<open>Credential normalisation is canonicalising\<close>

text \<open>
  Claim C7. A response that carries the key under \<open>apiKey\<close> (and no string under \<open>key\<close>)
  and the secret in URL-safe Base64 normalises to exactly the credential of the response that
  carries the same key under \<open>key\<close> and the same secret in standard padded Base64, whatever
  other fields the two responses have; when key, secret and passphrase are not blank that
  credential is the trimmed key, the standard secret and the trimmed passphrase. Every
  credential that \<open>coerceApiCreds\<close> returns has a secret without \<open>-\<close> and \<open>_\<close> whose length
  is a multiple of 4, and normalising the response that carries it returns it unchanged.
\<close>

theorem coerceApiCreds_canonicalising:
  "(isStandardBase64 sec
      \<and> typeof (getProp (JObj alt) (lit ''key'')) \<noteq> T_string
      \<and> getProp (JObj alt) (lit ''apiKey'') = JStr k
      \<and> getProp (JObj alt) (lit ''secret'') = JStr (base64url_of sec)
      \<and> getProp (JObj alt) (lit ''passphrase'') = JStr p
      \<and> getProp (JObj canon) (lit ''key'') = JStr k
      \<and> getProp (JObj canon) (lit ''secret'') = JStr sec
      \<and> getProp (JObj canon) (lit ''passphrase'') = JStr p
    \<longrightarrow> coerceApiCreds (JObj alt) = coerceApiCreds (JObj canon)
        \<and> (trim k \<noteq> [] \<and> sec \<noteq> [] \<and> trim p \<noteq> []
             \<longrightarrow> coerceApiCreds (JObj canon)
                  = Inr \<lparr>key = trim k, secret = sec, passphrase = trim p\<rparr>))
   \<and> (coerceApiCreds raw = Inr c
    \<longrightarrow> chr16 CHR ''-'' \<notin> set (secret c) \<and> chr16 CHR ''_'' \<notin> set (secret c)
        \<and> length (secret c) mod 4 = 0
        \<and> coerceApiCreds (credsResponse c) = Inr c)"
proof (intro conjI impI)
  assume h: "isStandardBase64 sec
      \<and> typeof (getProp (JObj alt) (lit ''key'')) \<noteq> T_string
      \<and> getProp (JObj alt) (lit ''apiKey'') = JStr k
      \<and> getProp (JObj alt) (lit ''secret'') = JStr (base64url_of sec)
      \<and> getProp (JObj alt) (lit ''passphrase'') = JStr p
      \<and> getProp (JObj canon) (lit ''key'') = JStr k
      \<and> getProp (JObj canon) (lit ''secret'') = JStr sec
      \<and> getProp (JObj canon) (lit ''passphrase'') = JStr p"
  then show "coerceApiCreds (JObj alt) = coerceApiCreds (JObj canon)"
    by (intro coerceApiCreds_alt_canon(1) [of sec alt k p canon]) (elim conjE, assumption)+
  assume "trim k \<noteq> [] \<and> sec \<noteq> [] \<and> trim p \<noteq> []"
  with h show "coerceApiCreds (JObj canon) = Inr \<lparr>key = trim k, secret = sec, passphrase = trim p\<rparr>"
    by (intro coerceApiCreds_alt_canon(2) [of sec alt k p canon]) (elim conjE, assumption)+
next
  assume r: "coerceApiCreds raw = Inr c"
  from coerceApiCreds_secret [OF r]
  show "chr16 CHR ''-'' \<notin> set (secret c)" and "chr16 CHR ''_'' \<notin> set (secret c)"
    and "length (secret c) mod 4 = 0"
    by blast+
  show "coerceApiCreds (credsResponse c) = Inr c" by (rule coerceApiCreds_fixed [OF r])
qed

theorem coerceApiCreds_canonicalising_witness:
  "isStandardBase64 (lit ''ab+/cQ=='')
   \<and> base64url_of (lit ''ab+/cQ=='') = lit ''ab-_cQ''
   \<and> coerceApiCreds (JObj alternateResponse) = coerceApiCreds (JObj canonicalResponse)
   \<and> coerceApiCreds (JObj canonicalResponse) = Inr sampleCreds
   \<and> chr16 CHR ''-'' \<notin> set (secret sampleCreds) \<and> chr16 CHR ''_'' \<notin> set (secret sampleCreds)
   \<and> length (secret sampleCreds) mod 4 = 0
   \<and> coerceApiCreds (credsResponse sampleCreds) = Inr sampleCreds"
  using coerceApiCreds_canonicalising
    [of "lit ''ab+/cQ==''" alternateResponse "lit '' k1 ''" "lit ''pw''" canonicalResponse
        "JObj alternateResponse" sampleCreds]
  by (simp add: alternateResponse_def canonicalResponse_def sampleCreds_def credsResponse_def
      coerceApiCreds_def normalizeBase64ForAtob_def replaceAll_def trim_def isWhiteSpace_def
      isStandardBase64_def base64Body_def base64Padding_def base64url_of_def isBase64Char_def
      lit_def chr16_def)


section \<open>Facts about the derived wallets and the caches\<close>

lemma getThirdwebSigner_eq:
  "getThirdwebSigner e s phone =
     (case deriveUserPrivateKey e phone of Inl err \<Rightarrow> Inl err | Inr k \<Rightarrow> new_Wallet e k,
      noteDerivation phone s)"
  by (simp add: getThirdwebSigner_def Let_def split: sum.splits)

lemma noteDerivation_fields:
  "apiCredsCache (noteDerivation p s) = apiCredsCache s"
  "sdkCache (noteDerivation p s) = sdkCache s"
  "remoteCalls (noteDerivation p s) = remoteCalls s"
  "sentTransactions (noteDerivation p s) = sentTransactions s"
  "derivations (noteDerivation p s) = derivations s @ [p]"
  by (simp_all add: noteDerivation_def)

lemma getApiCreds_try_caches:
  assumes "getApiCreds_try e s phone = (r, s1)"
  shows "sdkCache s1 = sdkCache s"
    and "sentTransactions s1 = sentTransactions s"
    and "other \<noteq> phone \<Longrightarrow> apiCredsCache s1 other = apiCredsCache s other"
  using assms
  by (auto simp: getApiCreds_try_def getThirdwebSigner_eq noteDerivation_fields Let_def
      split: sum.splits)

lemma getApiCreds_try_Inr:
  assumes "getApiCreds_try e s phone = (Inr creds, s1)"
  shows "apiCredsCache s1 phone = Some creds"
  using assms
  by (auto simp: getApiCreds_try_def getThirdwebSigner_eq Let_def split: sum.splits)

lemma getApiCreds_try_remote:
  assumes "getApiCreds_try e s phone = (r, s1)" and "remoteCalls s1 = remoteCalls s @ [signer]"
  shows "fst (getThirdwebSigner e s' phone) = Inr signer"
  using assms
  by (auto simp: getApiCreds_try_def getThirdwebSigner_eq noteDerivation_fields Let_def
      split: sum.splits)

lemma getApiCreds_try_with_signer:
  assumes "fst (getThirdwebSigner e s phone) = Inr signer"
  shows "remoteCalls (snd (getApiCreds_try e s phone)) = remoteCalls s @ [signer]"
    and "createOrDeriveApiKey e (length (remoteCalls s)) signer (apiNonce e) = Inr raw
         \<Longrightarrow> coerceApiCreds raw = Inr creds
         \<Longrightarrow> fst (getApiCreds_try e s phone) = Inr creds"
  using assms
  by (auto simp: getApiCreds_try_def getThirdwebSigner_eq noteDerivation_fields Let_def
      split: sum.splits)

lemma getApiCreds_miss:
  assumes "apiCredsCache s phone = None"
  shows "remoteCalls (snd (getApiCreds e s phone)) = remoteCalls (snd (getApiCreds_try e s phone))"
    and "fst (getApiCreds e s phone) = fst (getApiCreds_try e s phone)"
  using assms by (auto simp: getApiCreds_def split: prod.splits sum.splits)

lemma getApiCreds_Inl:
  assumes "getApiCreds e s phone = (Inl err, s1)"
  shows "apiCredsCache s phone = None" and "apiCredsCache s1 phone = None"
    and "\<exists>s0. getApiCreds_try e s phone = (Inl err, s0) \<and> remoteCalls s1 = remoteCalls s0"
  using assms by (auto simp: getApiCreds_def split: option.splits prod.splits sum.splits)

lemma getApiCreds_Inr:
  assumes "getApiCreds e s phone = (Inr creds, s1)"
  shows "apiCredsCache s1 phone = Some creds"
  using assms
  by (auto simp: getApiCreds_def getApiCreds_try_Inr split: option.splits prod.splits sum.splits)

lemma getApiCreds_hit:
  "apiCredsCache s phone = Some creds \<Longrightarrow> getApiCreds e s phone = (Inr creds, s)"
  by (simp add: getApiCreds_def)

lemma getApiCreds_frame:
  assumes "getApiCreds e s phone = (r, s1)"
  shows "sdkCache s1 = sdkCache s"
    and "sentTransactions s1 = sentTransactions s"
    and "other \<noteq> phone \<Longrightarrow> apiCredsCache s1 other = apiCredsCache s other"
  using assms getApiCreds_try_caches [of e s phone]
  by (auto simp: getApiCreds_def split: option.splits prod.splits sum.splits)


section \<open>Runs in the concrete environment\<close>

lemma demoEnv_fields:
  "MASTER_PRIVATE_KEY demoEnv = lit ''0xmaster''"
  "fromPrivateKey demoEnv = (\<lambda>k. Inr k)"
  "sdk_wallet_getAddress demoEnv = (\<lambda>sdk. Inr (lit ''addr:'' @ sdk))"
  "new_Wallet demoEnv = (\<lambda>k. Inr k)"
  "wallet_address demoEnv = (\<lambda>w. lit ''addr:'' @ w)"
  "getBalance demoEnv = (\<lambda>a. Inr (if a = lit ''addr:0xmaster'' then 10 ^ 18 else 10 ^ 17 - 1))"
  "sendTransaction demoEnv = (\<lambda>w r. Inr (lit ''0xhash''))"
  "tx_wait demoEnv = (\<lambda>h. Inr ())"
  "formatEther demoEnv = (\<lambda>n. lit ''n'')"
  "POLYMARKET_API_NONCE demoEnv = None"
  "createOrDeriveApiKey demoEnv =
     (\<lambda>n w nonce. if n = 0 then Inl (Error (lit ''network'')) else Inr (JObj canonicalResponse))"
  by (simp_all add: demoEnv_def)

lemma demo_derive_alice: "deriveUserPrivateKey demoEnv alice = Inr aliceKey"
  by (simp add: deriveUserPrivateKey_def demoEnv_def alice_def aliceKey_def lit_def chr16_def)

lemma alice_bob: "alice \<noteq> bob" "bob \<noteq> alice"
  by (simp_all add: alice_def bob_def lit_def chr16_def)

lemma aliceKey_bytes32: "isBytes32Hex aliceKey"
  by (simp add: isBytes32Hex_def aliceKey_def isHexDigit_def lit_def chr16_def list_all_iff)

lemma aliceKey_not_master: "lit ''addr:'' @ aliceKey \<noteq> lit ''addr:0xmaster''"
  by (simp add: aliceKey_def lit_def chr16_def)

lemma demo_coerce: "coerceApiCreds (JObj canonicalResponse) = Inr sampleCreds"
  by (simp add: canonicalResponse_def sampleCreds_def coerceApiCreds_def
      normalizeBase64ForAtob_def replaceAll_def trim_def isWhiteSpace_def lit_def chr16_def)

lemma demo_apiNonce: "apiNonce demoEnv = None"
  by (simp add: apiNonce_def demoEnv_fields)

lemma demo_signer_alice: "getThirdwebSigner demoEnv s alice = (Inr aliceKey, noteDerivation alice s)"
  by (simp add: getThirdwebSigner_eq demo_derive_alice demoEnv_fields)

lemma demo_first_attempt:
  "getApiCreds demoEnv initial_state alice = (Inl (Error (lit ''network'')), afterFailure)"
  by (simp add: getApiCreds_def getApiCreds_try_def demo_signer_alice demo_apiNonce
      demoEnv_fields initial_state_def afterFailure_def noteDerivation_def)

lemma demo_second_attempt:
  "getApiCreds demoEnv afterFailure alice = (Inr sampleCreds, afterRetry)"
  by (simp add: getApiCreds_def getApiCreds_try_def demo_signer_alice demo_apiNonce
      demoEnv_fields initial_state_def afterFailure_def afterRetry_def noteDerivation_def
      demo_coerce)

lemma demo_failure_beside_bob:
  "fst (getApiCreds demoEnv bobCached alice) = Inl (Error (lit ''network''))"
  by (simp add: getApiCreds_def getApiCreds_try_def demo_signer_alice demo_apiNonce
      demoEnv_fields initial_state_def bobCached_def noteDerivation_def alice_bob)


section \<open>Facts about the SDK cache and the gas top-up\<close>

lemma getSDKForUser_frame:
  assumes "getSDKForUser e s phone = (r, s1)"
  shows "sentTransactions s1 = sentTransactions s"
    and "apiCredsCache s1 = apiCredsCache s"
    and "remoteCalls s1 = remoteCalls s"
  using assms
  by (auto simp: getSDKForUser_def noteDerivation_def Let_def split: option.splits sum.splits)

lemma getSDKForUser_Inr:
  assumes "getSDKForUser e s phone = (Inr sdk, s1)"
  shows "sdkCache s1 phone = Some sdk"
    and "length (derivations s1) \<le> length (derivations s) + 1"
    and "derivations s1 = derivations s @ (if sdkCache s phone = None then [phone] else [])"
  using assms
  by (auto simp: getSDKForUser_def noteDerivation_def Let_def split: option.splits sum.splits)

lemma getSDKForUser_hit:
  "sdkCache s phone = Some sdk \<Longrightarrow> getSDKForUser e s phone = (Inr sdk, s)"
  by (simp add: getSDKForUser_def)

lemma getOrCreateServerWallet_frame:
  assumes "getOrCreateServerWallet e s phone = (r, s1)"
  shows "sentTransactions s1 = sentTransactions s"
  using assms getSDKForUser_frame(1) [of e s phone]
  by (auto simp: getOrCreateServerWallet_def split: prod.splits sum.splits)

lemma ensureGasBalance_try_funded:
  assumes "getOrCreateServerWallet e s userPhone = (Inr userWallet, s1)"
    and "getBalance e (address userWallet) = Inr userBalance"
    and "MATIC_TOP_UP_THRESHOLD_WEI \<le> userBalance"
  shows "ensureGasBalance_try e s userPhone = (Inr (), s1)"
  using assms by (simp add: ensureGasBalance_try_def)

lemma ensureGasBalance_try_master_short:
  assumes "getOrCreateServerWallet e s userPhone = (Inr userWallet, s1)"
    and "getBalance e (address userWallet) = Inr userBalance"
    and "userBalance < MATIC_TOP_UP_THRESHOLD_WEI"
    and "new_Wallet e (MASTER_PRIVATE_KEY e) = Inr masterWallet"
    and "getBalance e (wallet_address e masterWallet) = Inr masterBalance"
    and "masterBalance < MATIC_TOP_UP_AMOUNT_WEI"
  shows "ensureGasBalance_try e s userPhone =
     (Inl (Error (lit ''CRITICAL: Master wallet has insufficient MATIC (''
                  @ formatEther e masterBalance @ lit '' < ''
                  @ formatEther e MATIC_TOP_UP_AMOUNT_WEI @ lit '')'')), s1)"
  using assms by (simp add: ensureGasBalance_try_def)

lemma ensureGasBalance_try_top_up:
  assumes "getOrCreateServerWallet e s userPhone = (Inr userWallet, s1)"
    and "getBalance e (address userWallet) = Inr userBalance"
    and "userBalance < MATIC_TOP_UP_THRESHOLD_WEI"
    and "new_Wallet e (MASTER_PRIVATE_KEY e) = Inr masterWallet"
    and "getBalance e (wallet_address e masterWallet) = Inr masterBalance"
    and "MATIC_TOP_UP_AMOUNT_WEI \<le> masterBalance"
  shows "sentTransactions (snd (ensureGasBalance_try e s userPhone)) =
           sentTransactions s1
           @ [(masterWallet, \<lparr>tx_to = address userWallet, tx_value = MATIC_TOP_UP_AMOUNT_WEI\<rparr>)]"
    and "sendTransaction e masterWallet
           \<lparr>tx_to = address userWallet, tx_value = MATIC_TOP_UP_AMOUNT_WEI\<rparr> = Inr hash
         \<Longrightarrow> tx_wait e hash = Inr ()
         \<Longrightarrow> fst (ensureGasBalance_try e s userPhone) = Inr ()"
  using assms by (auto simp: ensureGasBalance_try_def Let_def split: sum.splits)

lemma ensureGasBalance_try_eq:
  "snd (ensureGasBalance e s userPhone) = snd (ensureGasBalance_try e s userPhone)"
  "fst (ensureGasBalance_try e s userPhone) = Inr u \<Longrightarrow> fst (ensureGasBalance e s userPhone) = Inr u"
  by (auto simp: ensureGasBalance_def split: prod.splits sum.splits)

lemma Error_name: "name (Error msg) = lit ''Error''" "message (Error msg) = msg"
  by (simp_all add: Error_def)


lemma derive_update_getBalance:
  "deriveUserPrivateKey (e\<lparr>getBalance := f\<rparr>) phone = deriveUserPrivateKey e phone"
  by (simp add: deriveUserPrivateKey_def)

lemma demo_wallet:
  "getOrCreateServerWallet (demoEnv\<lparr>getBalance := f\<rparr>) initial_state alice
     = (Inr aliceWallet, aliceCachedSdk)"
  by (simp add: getOrCreateServerWallet_def getSDKForUser_def derive_update_getBalance
      demo_derive_alice demoEnv_fields initial_state_def aliceCachedSdk_def aliceWallet_def
      noteDerivation_def CHAIN_ID_def)

lemma demo_wallet': "getOrCreateServerWallet demoEnv initial_state alice = (Inr aliceWallet, aliceCachedSdk)"
  using demo_wallet [of "getBalance demoEnv"] by simp

lemma thresholds: "(10 ^ 17 - 1 :: nat) < MATIC_TOP_UP_THRESHOLD_WEI"
  "MATIC_TOP_UP_THRESHOLD_WEI \<le> 10 ^ 17" "MATIC_TOP_UP_AMOUNT_WEI \<le> 10 ^ 18"
  "0 < MATIC_TOP_UP_THRESHOLD_WEI" "0 < MATIC_TOP_UP_AMOUNT_WEI"
  by (simp_all add: MATIC_TOP_UP_THRESHOLD_WEI_def MATIC_TOP_UP_AMOUNT_WEI_def)

lemma aliceWallet_address: "address aliceWallet = lit ''addr:'' @ aliceKey"
  by (simp add: aliceWallet_def)

lemma aliceCachedSdk_sent: "sentTransactions aliceCachedSdk = []" "sentTransactions initial_state = []"
  by (simp_all add: aliceCachedSdk_def initial_state_def)


section \<open>Repeated signer retrieval\<close>

lemma getThirdwebSigner_result:
  "fst (getThirdwebSigner e s phone) = fst (getThirdwebSigner e s' phone)"
  by (simp add: getThirdwebSigner_eq)

lemma repeat_getThirdwebSigner:
  "repeatCall n (\<lambda>s. getThirdwebSigner e s phone) s =
     (replicate n (fst (getThirdwebSigner e s0 phone)),
      s\<lparr>derivations := derivations s @ replicate n phone\<rparr>)"
proof (induction n arbitrary: s)
  case 0
  then show ?case by simp
next
  case (Suc n)
  have step: "getThirdwebSigner e s phone =
      (fst (getThirdwebSigner e s0 phone), s\<lparr>derivations := derivations s @ [phone]\<rparr>)"
    by (simp add: getThirdwebSigner_eq noteDerivation_def)
  show ?case
    by (simp add: step Suc.IH replicate_app_Cons_same)
qed

lemma repeat_getSDKForUser_hit:
  "sdkCache s phone = Some sdk \<Longrightarrow>
     repeatCall n (\<lambda>s. getSDKForUser e s phone) s = (replicate n (Inr sdk), s)"
  by (induction n) (simp_all add: getSDKForUser_hit)

lemma repeat_getSDKForUser:
  assumes "fst (getSDKForUser e s phone) = Inr sdk"
  shows "fst (repeatCall n (\<lambda>s. getSDKForUser e s phone) s) = replicate n (Inr sdk)"
    and "length (derivations (snd (repeatCall n (\<lambda>s. getSDKForUser e s phone) s)))
           \<le> length (derivations s) + 1"
proof -
  obtain s1 where first: "getSDKForUser e s phone = (Inr sdk, s1)"
    using assms by (cases "getSDKForUser e s phone") simp
  have rest: "repeatCall k (\<lambda>s. getSDKForUser e s phone) s1 = (replicate k (Inr sdk), s1)" for k
    by (rule repeat_getSDKForUser_hit [OF getSDKForUser_Inr(1) [OF first]])
  show "fst (repeatCall n (\<lambda>s. getSDKForUser e s phone) s) = replicate n (Inr sdk)"
    by (cases n) (simp_all add: first rest)
  show "length (derivations (snd (repeatCall n (\<lambda>s. getSDKForUser e s phone) s)))
           \<le> length (derivations s) + 1"
    using getSDKForUser_Inr(2) [OF first] by (cases n) (simp_all add: first rest)
qed

lemma ThirdwebSigner_new_unresolved:
  "ThirdwebSigner_new e s phone = (Inr this, s1) \<Longrightarrow>
     signer_address this = [] \<and> private_address this = None"
  by (auto simp: ThirdwebSigner_new_def Let_def split: prod.splits sum.splits)


section \<open>The credentials cache\<close>

text \<open>
  Claim C5. When a call of \<open>getApiCreds\<close> for a tenant fails, the credentials cache holds no
  entry for that tenant afterwards; if the failure came after the remote call was made (the
  remote call itself failed, or its answer was rejected), the next call for the tenant makes
  the remote call again, with the same signer, and returns the credential if the remote system
  then answers with a well-formed one. When a call returns a credential, the cache holds it
  afterwards, and the next call returns the same credential and changes nothing: no remote call
  is made.
\<close>

theorem getApiCreds_retry_then_cache:
  "(getApiCreds e s phone = (Inl err, s1)
      \<longrightarrow> apiCredsCache s1 phone = None
          \<and> (remoteCalls s1 = remoteCalls s @ [signer]
               \<longrightarrow> remoteCalls (snd (getApiCreds e s1 phone)) = remoteCalls s1 @ [signer]
                   \<and> (createOrDeriveApiKey e (length (remoteCalls s1)) signer (apiNonce e) = Inr raw
                        \<and> coerceApiCreds raw = Inr creds
                        \<longrightarrow> fst (getApiCreds e s1 phone) = Inr creds)))
   \<and> (getApiCreds e s phone = (Inr creds, s1)
      \<longrightarrow> apiCredsCache s1 phone = Some creds
          \<and> getApiCreds e s1 phone = (Inr creds, s1)
          \<and> remoteCalls (snd (getApiCreds e s1 phone)) = remoteCalls s1)"
proof (intro conjI impI)
  assume a: "getApiCreds e s phone = (Inl err, s1)"
  show none: "apiCredsCache s1 phone = None" by (rule getApiCreds_Inl(2) [OF a])
  assume r: "remoteCalls s1 = remoteCalls s @ [signer]"
  from getApiCreds_Inl(3) [OF a] obtain s0 where
    t: "getApiCreds_try e s phone = (Inl err, s0)" and "remoteCalls s1 = remoteCalls s0" by blast
  with r have "remoteCalls s0 = remoteCalls s @ [signer]" by simp
  from getApiCreds_try_remote [OF t this]
  have sg: "fst (getThirdwebSigner e s1 phone) = Inr signer" .
  show "remoteCalls (snd (getApiCreds e s1 phone)) = remoteCalls s1 @ [signer]"
    by (simp only: getApiCreds_miss(1) [OF none] getApiCreds_try_with_signer(1) [OF sg])
  assume "createOrDeriveApiKey e (length (remoteCalls s1)) signer (apiNonce e) = Inr raw
            \<and> coerceApiCreds raw = Inr creds"
  then have c1: "createOrDeriveApiKey e (length (remoteCalls s1)) signer (apiNonce e) = Inr raw"
    and c2: "coerceApiCreds raw = Inr creds" by blast+
  have "fst (getApiCreds_try e s1 phone) = Inr creds"
    by (rule getApiCreds_try_with_signer(2) [OF sg c1 c2])
  then show "fst (getApiCreds e s1 phone) = Inr creds"
    by (simp only: getApiCreds_miss(2) [OF none])
next
  assume a: "getApiCreds e s phone = (Inr creds, s1)"
  show c: "apiCredsCache s1 phone = Some creds" by (rule getApiCreds_Inr [OF a])
  show h: "getApiCreds e s1 phone = (Inr creds, s1)" by (rule getApiCreds_hit [OF c])
  show "remoteCalls (snd (getApiCreds e s1 phone)) = remoteCalls s1" by (simp add: h)
qed


theorem getApiCreds_retry_then_cache_witness:
  "getApiCreds demoEnv initial_state alice = (Inl (Error (lit ''network'')), afterFailure)
   \<and> apiCredsCache afterFailure alice = None
   \<and> remoteCalls afterFailure = [] @ [aliceKey]
   \<and> remoteCalls (snd (getApiCreds demoEnv afterFailure alice)) = remoteCalls afterFailure @ [aliceKey]
   \<and> getApiCreds demoEnv afterFailure alice = (Inr sampleCreds, afterRetry)
   \<and> apiCredsCache afterRetry alice = Some sampleCreds
   \<and> getApiCreds demoEnv afterRetry alice = (Inr sampleCreds, afterRetry)"
proof -
  have a: "apiCredsCache afterFailure alice = None"
    and b: "remoteCalls afterFailure = [] @ [aliceKey]"
    and i: "remoteCalls (initial_state :: (jsstring, jsstring) state) = []"
    by (simp_all add: afterFailure_def initial_state_def)
  have c: "createOrDeriveApiKey demoEnv (length (remoteCalls afterFailure)) aliceKey
             (apiNonce demoEnv) = Inr (JObj canonicalResponse)"
    by (simp add: demoEnv_fields afterFailure_def)
  show ?thesis
    using getApiCreds_retry_then_cache
        [of demoEnv initial_state alice "Error (lit ''network'')" afterFailure aliceKey
            "JObj canonicalResponse" sampleCreds]
      getApiCreds_retry_then_cache
        [of demoEnv afterFailure alice "Error (lit ''network'')" afterRetry aliceKey
            "JObj canonicalResponse" sampleCreds]
    by (simp add: demo_first_attempt demo_second_attempt demo_coerce a b c i)
qed


text \<open>
  Claim C8. A call of \<open>getApiCreds\<close> for one tenant, whether it fails (and removes that
  tenant's entry) or succeeds, leaves the credentials-cache entry of every other tenant as it
  was, and leaves the whole SDK cache as it was.
\<close>

theorem getApiCreds_other_tenants:
  "getApiCreds e s t1 = (Inl err, s1) \<and> t2 \<noteq> t1
     \<longrightarrow> apiCredsCache s1 t2 = apiCredsCache s t2 \<and> sdkCache s1 = sdkCache s
         \<and> apiCredsCache s1 t1 = None"
  using getApiCreds_frame(1) [of e s t1 "Inl err" s1]
    getApiCreds_frame(3) [of e s t1 "Inl err" s1 t2] getApiCreds_Inl(2) [of e s t1 err s1]
  by simp


theorem getApiCreds_other_tenants_witness:
  "fst (getApiCreds demoEnv bobCached alice) = Inl (Error (lit ''network''))
   \<and> bob \<noteq> alice
   \<and> apiCredsCache bobCached bob = Some sampleCreds
   \<and> apiCredsCache (snd (getApiCreds demoEnv bobCached alice)) bob = Some sampleCreds
   \<and> apiCredsCache (snd (getApiCreds demoEnv bobCached alice)) alice = None
   \<and> sdkCache (snd (getApiCreds demoEnv bobCached alice)) = sdkCache bobCached"
  using getApiCreds_other_tenants
      [of demoEnv bobCached alice "Error (lit ''network'')"
          "snd (getApiCreds demoEnv bobCached alice)" bob]
    demo_failure_beside_bob
  by (simp add: prod_eq_iff alice_bob bobCached_def initial_state_def)


section \<open>The gas top-up\<close>

text \<open>
  Claim C1. Let the tenant's wallet be resolved and its balance be read. If the balance is at
  least the threshold (in particular if it equals the threshold), \<open>ensureGasBalance\<close> returns
  success and sends no transaction. If the balance is below the threshold, the master wallet is
  built, and its balance is read and is at least the top-up amount, then \<open>ensureGasBalance\<close>
  calls \<open>sendTransaction\<close> exactly once: on the master wallet, to the tenant's address, with
  the top-up amount as value; and it returns success when that transaction is accepted and
  confirmed.
\<close>

theorem ensureGasBalance_threshold:
  "getOrCreateServerWallet e s userPhone = (Inr userWallet, s1)
     \<and> getBalance e (address userWallet) = Inr userBalance
   \<longrightarrow> (MATIC_TOP_UP_THRESHOLD_WEI \<le> userBalance
          \<longrightarrow> ensureGasBalance e s userPhone = (Inr (), s1)
              \<and> sentTransactions s1 = sentTransactions s)
       \<and> (userBalance < MATIC_TOP_UP_THRESHOLD_WEI
            \<and> new_Wallet e (MASTER_PRIVATE_KEY e) = Inr masterWallet
            \<and> getBalance e (wallet_address e masterWallet) = Inr masterBalance
            \<and> MATIC_TOP_UP_AMOUNT_WEI \<le> masterBalance
          \<longrightarrow> sentTransactions (snd (ensureGasBalance e s userPhone)) =
                sentTransactions s
                @ [(masterWallet, \<lparr>tx_to = address userWallet, tx_value = MATIC_TOP_UP_AMOUNT_WEI\<rparr>)]
              \<and> (sendTransaction e masterWallet
                    \<lparr>tx_to = address userWallet, tx_value = MATIC_TOP_UP_AMOUNT_WEI\<rparr> = Inr hash
                    \<and> tx_wait e hash = Inr ()
                  \<longrightarrow> fst (ensureGasBalance e s userPhone) = Inr ()))"
proof (intro impI conjI)
  assume h: "getOrCreateServerWallet e s userPhone = (Inr userWallet, s1)
     \<and> getBalance e (address userWallet) = Inr userBalance"
  then have w: "getOrCreateServerWallet e s userPhone = (Inr userWallet, s1)"
    and b: "getBalance e (address userWallet) = Inr userBalance" by blast+
  show fr: "sentTransactions s1 = sentTransactions s"
    by (rule getOrCreateServerWallet_frame [OF w])
  {
    assume "MATIC_TOP_UP_THRESHOLD_WEI \<le> userBalance"
    from ensureGasBalance_try_funded [OF w b this]
    show "ensureGasBalance e s userPhone = (Inr (), s1)"
      by (simp add: ensureGasBalance_def)
  }
  assume m: "userBalance < MATIC_TOP_UP_THRESHOLD_WEI
            \<and> new_Wallet e (MASTER_PRIVATE_KEY e) = Inr masterWallet
            \<and> getBalance e (wallet_address e masterWallet) = Inr masterBalance
            \<and> MATIC_TOP_UP_AMOUNT_WEI \<le> masterBalance"
  then have m1: "userBalance < MATIC_TOP_UP_THRESHOLD_WEI"
    and m2: "new_Wallet e (MASTER_PRIVATE_KEY e) = Inr masterWallet"
    and m3: "getBalance e (wallet_address e masterWallet) = Inr masterBalance"
    and m4: "MATIC_TOP_UP_AMOUNT_WEI \<le> masterBalance" by blast+
  note top = ensureGasBalance_try_top_up [OF w b m1 m2 m3 m4]
  show "sentTransactions (snd (ensureGasBalance e s userPhone)) =
          sentTransactions s
          @ [(masterWallet, \<lparr>tx_to = address userWallet, tx_value = MATIC_TOP_UP_AMOUNT_WEI\<rparr>)]"
    by (simp only: ensureGasBalance_try_eq(1) top(1) fr)
  assume "sendTransaction e masterWallet
            \<lparr>tx_to = address userWallet, tx_value = MATIC_TOP_UP_AMOUNT_WEI\<rparr> = Inr hash
          \<and> tx_wait e hash = Inr ()"
  then have "fst (ensureGasBalance_try e s userPhone) = Inr ()"
    using top(2) [of hash] by blast
  then show "fst (ensureGasBalance e s userPhone) = Inr ()"
    by (rule ensureGasBalance_try_eq(2))
qed


theorem ensureGasBalance_threshold_witness:
  "getOrCreateServerWallet fundedEnv initial_state alice = (Inr aliceWallet, aliceCachedSdk)
   \<and> getBalance fundedEnv (address aliceWallet) = Inr (10 ^ 17)
   \<and> MATIC_TOP_UP_THRESHOLD_WEI \<le> 10 ^ 17
   \<and> ensureGasBalance fundedEnv initial_state alice = (Inr (), aliceCachedSdk)
   \<and> sentTransactions aliceCachedSdk = []
   \<and> getBalance demoEnv (address aliceWallet) = Inr (10 ^ 17 - 1)
   \<and> 10 ^ 17 - 1 < MATIC_TOP_UP_THRESHOLD_WEI
   \<and> getBalance demoEnv (wallet_address demoEnv (lit ''0xmaster'')) = Inr (10 ^ 18)
   \<and> sentTransactions (snd (ensureGasBalance demoEnv initial_state alice)) =
       [(lit ''0xmaster'', \<lparr>tx_to = address aliceWallet, tx_value = MATIC_TOP_UP_AMOUNT_WEI\<rparr>)]
   \<and> fst (ensureGasBalance demoEnv initial_state alice) = Inr ()"
proof -
  have w1: "getOrCreateServerWallet fundedEnv initial_state alice = (Inr aliceWallet, aliceCachedSdk)"
    unfolding fundedEnv_def by (rule demo_wallet)
  have b1: "getBalance fundedEnv (address aliceWallet) = Inr (10 ^ 17)"
    by (simp add: fundedEnv_def)
  have b2: "getBalance demoEnv (address aliceWallet) = Inr (10 ^ 17 - 1)"
    by (simp add: demoEnv_fields aliceWallet_address aliceKey_not_master)
  have b3: "getBalance demoEnv (wallet_address demoEnv (lit ''0xmaster'')) = Inr (10 ^ 18)"
    by (simp add: demoEnv_fields lit_def)
  have m: "new_Wallet demoEnv (MASTER_PRIVATE_KEY demoEnv) = Inr (lit ''0xmaster'')"
    by (simp add: demoEnv_fields)
  have t: "sendTransaction demoEnv (lit ''0xmaster'')
             \<lparr>tx_to = address aliceWallet, tx_value = MATIC_TOP_UP_AMOUNT_WEI\<rparr> = Inr (lit ''0xhash'')
           \<and> tx_wait demoEnv (lit ''0xhash'') = Inr ()"
    by (simp add: demoEnv_fields)
  have r1: "ensureGasBalance fundedEnv initial_state alice = (Inr (), aliceCachedSdk)
            \<and> sentTransactions aliceCachedSdk = []"
    using ensureGasBalance_threshold
        [of fundedEnv initial_state alice aliceWallet aliceCachedSdk "10 ^ 17"
            "lit ''0xmaster''" "10 ^ 18" "lit ''0xhash''"]
      w1 b1 thresholds(2) by (simp add: aliceCachedSdk_sent)
  have r2: "sentTransactions (snd (ensureGasBalance demoEnv initial_state alice)) =
       [(lit ''0xmaster'', \<lparr>tx_to = address aliceWallet, tx_value = MATIC_TOP_UP_AMOUNT_WEI\<rparr>)]
       \<and> fst (ensureGasBalance demoEnv initial_state alice) = Inr ()"
    using ensureGasBalance_threshold
        [of demoEnv initial_state alice aliceWallet aliceCachedSdk "10 ^ 17 - 1"
            "lit ''0xmaster''" "10 ^ 18" "lit ''0xhash''"]
      demo_wallet' b2 b3 m t thresholds(1,3) by (simp add: aliceCachedSdk_sent)
  from w1 b1 b2 b3 r1 r2 thresholds(1,2) show ?thesis by simp
qed


text \<open>
  Claim C2, as the code has it. If the tenant's balance is below the threshold and the master
  balance is below the top-up amount, \<open>ensureGasBalance\<close> sends no transaction and fails. The
  error is a plain \<open>Error\<close>, the one the code throws for every failure of this operation; the
  master shortage is told by its message only: \<open>Gas balance check failed: \<close> followed by
  \<open>CRITICAL: Master wallet has insufficient MATIC\<close> and the two formatted amounts.
\<close>

theorem ensureGasBalance_master_short:
  "getOrCreateServerWallet e s userPhone = (Inr userWallet, s1)
     \<and> getBalance e (address userWallet) = Inr userBalance
     \<and> userBalance < MATIC_TOP_UP_THRESHOLD_WEI
     \<and> new_Wallet e (MASTER_PRIVATE_KEY e) = Inr masterWallet
     \<and> getBalance e (wallet_address e masterWallet) = Inr masterBalance
     \<and> masterBalance < MATIC_TOP_UP_AMOUNT_WEI
   \<longrightarrow> ensureGasBalance e s userPhone =
         (Inl \<lparr>name = lit ''Error'',
               message = lit ''Gas balance check failed: ''
                         @ lit ''CRITICAL: Master wallet has insufficient MATIC (''
                         @ formatEther e masterBalance @ lit '' < ''
                         @ formatEther e MATIC_TOP_UP_AMOUNT_WEI @ lit '')''\<rparr>, s1)
       \<and> sentTransactions s1 = sentTransactions s"
proof (intro impI conjI)
  assume h: "getOrCreateServerWallet e s userPhone = (Inr userWallet, s1)
     \<and> getBalance e (address userWallet) = Inr userBalance
     \<and> userBalance < MATIC_TOP_UP_THRESHOLD_WEI
     \<and> new_Wallet e (MASTER_PRIVATE_KEY e) = Inr masterWallet
     \<and> getBalance e (wallet_address e masterWallet) = Inr masterBalance
     \<and> masterBalance < MATIC_TOP_UP_AMOUNT_WEI"
  then have w: "getOrCreateServerWallet e s userPhone = (Inr userWallet, s1)"
    and b: "getBalance e (address userWallet) = Inr userBalance"
    and m1: "userBalance < MATIC_TOP_UP_THRESHOLD_WEI"
    and m2: "new_Wallet e (MASTER_PRIVATE_KEY e) = Inr masterWallet"
    and m3: "getBalance e (wallet_address e masterWallet) = Inr masterBalance"
    and m4: "masterBalance < MATIC_TOP_UP_AMOUNT_WEI" by blast+
  show "sentTransactions s1 = sentTransactions s"
    by (rule getOrCreateServerWallet_frame [OF w])
  from ensureGasBalance_try_master_short [OF w b m1 m2 m3 m4]
  show "ensureGasBalance e s userPhone =
         (Inl \<lparr>name = lit ''Error'',
               message = lit ''Gas balance check failed: ''
                         @ lit ''CRITICAL: Master wallet has insufficient MATIC (''
                         @ formatEther e masterBalance @ lit '' < ''
                         @ formatEther e MATIC_TOP_UP_AMOUNT_WEI @ lit '')''\<rparr>, s1)"
    by (simp add: ensureGasBalance_def Error_def)
qed


theorem ensureGasBalance_master_short_witness:
  "getOrCreateServerWallet poorEnv initial_state alice = (Inr aliceWallet, aliceCachedSdk)
   \<and> getBalance poorEnv (address aliceWallet) = Inr 0
   \<and> 0 < MATIC_TOP_UP_THRESHOLD_WEI
   \<and> new_Wallet poorEnv (MASTER_PRIVATE_KEY poorEnv) = Inr (lit ''0xmaster'')
   \<and> getBalance poorEnv (wallet_address poorEnv (lit ''0xmaster'')) = Inr 0
   \<and> 0 < MATIC_TOP_UP_AMOUNT_WEI
   \<and> ensureGasBalance poorEnv initial_state alice =
       (Inl \<lparr>name = lit ''Error'',
             message = lit ''Gas balance check failed: ''
                       @ lit ''CRITICAL: Master wallet has insufficient MATIC (''
                       @ formatEther poorEnv 0 @ lit '' < ''
                       @ formatEther poorEnv MATIC_TOP_UP_AMOUNT_WEI @ lit '')''\<rparr>, aliceCachedSdk)
   \<and> sentTransactions aliceCachedSdk = []"
proof -
  have w: "getOrCreateServerWallet poorEnv initial_state alice = (Inr aliceWallet, aliceCachedSdk)"
    unfolding poorEnv_def by (rule demo_wallet)
  have f: "getBalance poorEnv (address aliceWallet) = Inr 0"
    "new_Wallet poorEnv (MASTER_PRIVATE_KEY poorEnv) = Inr (lit ''0xmaster'')"
    "getBalance poorEnv (wallet_address poorEnv (lit ''0xmaster'')) = Inr 0"
    by (simp_all add: poorEnv_def demoEnv_fields)
  from ensureGasBalance_master_short
        [of poorEnv initial_state alice aliceWallet aliceCachedSdk 0 "lit ''0xmaster''" 0]
    w f thresholds(4,5)
  show ?thesis by (simp add: aliceCachedSdk_sent)
qed

text \<open>
  The claim as it was worded fails in that run: the error that \<open>ensureGasBalance\<close> throws is
  named \<open>Error\<close>, not \<open>InsufficientMasterFunds\<close>.
\<close>

theorem ensureGasBalance_error_is_untyped:
  "getBalance poorEnv (address aliceWallet) = Inr 0 \<and> 0 < MATIC_TOP_UP_THRESHOLD_WEI
   \<and> getBalance poorEnv (wallet_address poorEnv (lit ''0xmaster'')) = Inr 0
   \<and> 0 < MATIC_TOP_UP_AMOUNT_WEI
   \<and> fst (ensureGasBalance poorEnv initial_state alice) =
       Inl \<lparr>name = lit ''Error'',
            message = lit ''Gas balance check failed: CRITICAL: Master wallet has insufficient MATIC (n < n)''\<rparr>
   \<and> lit ''Error'' \<noteq> lit ''InsufficientMasterFunds''"
proof -
  have w: "getOrCreateServerWallet poorEnv initial_state alice = (Inr aliceWallet, aliceCachedSdk)"
    unfolding poorEnv_def by (rule demo_wallet)
  have f: "getBalance poorEnv (address aliceWallet) = Inr 0"
    "new_Wallet poorEnv (MASTER_PRIVATE_KEY poorEnv) = Inr (lit ''0xmaster'')"
    "getBalance poorEnv (wallet_address poorEnv (lit ''0xmaster'')) = Inr 0"
    by (simp_all add: poorEnv_def demoEnv_fields)
  have g: "formatEther poorEnv = (\<lambda>n. lit ''n'')"
    by (simp add: poorEnv_def demoEnv_fields)
  have "ensureGasBalance_try poorEnv initial_state alice =
      (Inl (Error (lit ''CRITICAL: Master wallet has insufficient MATIC (''
                   @ lit ''n'' @ lit '' < '' @ lit ''n'' @ lit '')'')), aliceCachedSdk)"
    by (simp add: ensureGasBalance_try_def w f g thresholds)
  then have "fst (ensureGasBalance poorEnv initial_state alice) =
      Inl (Error (lit ''Gas balance check failed: ''
                  @ lit ''CRITICAL: Master wallet has insufficient MATIC (''
                  @ lit ''n'' @ lit '' < '' @ lit ''n'' @ lit '')''))"
    by (simp add: ensureGasBalance_def Error_name)
  moreover have "lit ''Gas balance check failed: ''
                  @ lit ''CRITICAL: Master wallet has insufficient MATIC (''
                  @ lit ''n'' @ lit '' < '' @ lit ''n'' @ lit '')''
      = lit ''Gas balance check failed: CRITICAL: Master wallet has insufficient MATIC (n < n)''"
    by (simp add: lit_def)
  ultimately have e: "fst (ensureGasBalance poorEnv initial_state alice) =
       Inl \<lparr>name = lit ''Error'',
            message = lit ''Gas balance check failed: CRITICAL: Master wallet has insufficient MATIC (n < n)''\<rparr>"
    by (simp only: Error_def)
  have n: "lit ''Error'' \<noteq> lit ''InsufficientMasterFunds''"
    by (simp add: lit_def chr16_def)
  from f(1,3) thresholds(4,5) e n show ?thesis by simp
qed


text \<open>
  Claim C3, as the code has it. \<open>n\<close> calls of \<open>getThirdwebSigner\<close> for a tenant return
  \<open>n\<close> times the same result, the one that a call in any state returns, so the wallet and its
  address are the same on every call. \<open>getThirdwebSigner\<close> keeps no cache: the \<open>n\<close> calls
  run the key derivation \<open>n\<close> times, and they leave the SDK cache and the credentials cache
  as they were. The cache is in \<open>getSDKForUser\<close>: when a call of it succeeds, \<open>n\<close> calls
  return \<open>n\<close> times the same SDK instance and run the key derivation at most once.
\<close>

theorem signer_retrieval_repeated:
  "fst (repeatCall n (\<lambda>s. getThirdwebSigner e s phone) s)
     = replicate n (fst (getThirdwebSigner e s0 phone))
   \<and> derivations (snd (repeatCall n (\<lambda>s. getThirdwebSigner e s phone) s))
     = derivations s @ replicate n phone
   \<and> sdkCache (snd (repeatCall n (\<lambda>s. getThirdwebSigner e s phone) s)) = sdkCache s
   \<and> apiCredsCache (snd (repeatCall n (\<lambda>s. getThirdwebSigner e s phone) s)) = apiCredsCache s
   \<and> (fst (getSDKForUser e s phone) = Inr sdk
      \<longrightarrow> fst (repeatCall n (\<lambda>s. getSDKForUser e s phone) s) = replicate n (Inr sdk)
          \<and> length (derivations (snd (repeatCall n (\<lambda>s. getSDKForUser e s phone) s)))
              \<le> length (derivations s) + 1)"
  using repeat_getSDKForUser [of e s phone sdk n]
  by (simp add: repeat_getThirdwebSigner [of n e phone s s0])

theorem signer_retrieval_repeated_witness:
  "fst (repeatCall 3 (\<lambda>s. getThirdwebSigner demoEnv s alice) initial_state)
     = [Inr aliceKey, Inr aliceKey, Inr aliceKey]
   \<and> derivations (snd (repeatCall 3 (\<lambda>s. getThirdwebSigner demoEnv s alice) initial_state))
     = [alice, alice, alice]
   \<and> fst (getSDKForUser demoEnv initial_state alice) = Inr aliceKey
   \<and> fst (repeatCall 3 (\<lambda>s. getSDKForUser demoEnv s alice) initial_state)
     = [Inr aliceKey, Inr aliceKey, Inr aliceKey]
   \<and> length (derivations (snd (repeatCall 3 (\<lambda>s. getSDKForUser demoEnv s alice) initial_state)))
     \<le> 1"
proof -
  have g: "fst (getSDKForUser demoEnv initial_state alice) = Inr aliceKey"
    by (simp add: getSDKForUser_def demo_derive_alice demoEnv_fields initial_state_def Let_def)
  have i: "derivations (initial_state :: (jsstring, jsstring) state) = []"
    by (simp add: initial_state_def)
  have r: "replicate 3 x = [x, x, x]" for x :: "'a"
    by (simp add: numeral_3_eq_3)
  show ?thesis
    using signer_retrieval_repeated [of 3 demoEnv alice initial_state initial_state aliceKey]
    by (simp add: g i r demo_signer_alice)
qed

text \<open>
  The claim as it was worded fails for \<open>getThirdwebSigner\<close>: two calls for one tenant run the
  key derivation twice, and no handle is cached.
\<close>

theorem getThirdwebSigner_derives_every_time:
  "derivations (snd (repeatCall (Suc (Suc 0)) (\<lambda>s. getThirdwebSigner demoEnv s alice) initial_state))
     = [alice, alice]
   \<and> sdkCache (snd (repeatCall (Suc (Suc 0)) (\<lambda>s. getThirdwebSigner demoEnv s alice) initial_state))
        alice = None"
  by (simp add: demo_signer_alice noteDerivation_def initial_state_def)


section \<open>Facts about the hash\<close>

lemma length_keccakRound: "length (keccakRound rc a) = 25"
  by (simp add: keccakRound_def iota_def chi_def)

lemma length_fold_keccakRound:
  "length a = 25 \<Longrightarrow> length (fold keccakRound rcs a) = 25"
  by (induction rcs arbitrary: a) (simp_all add: length_keccakRound)

lemma length_absorbBlock: "length (absorbBlock a block) = 25"
  by (simp add: absorbBlock_def keccakF_def length_fold_keccakRound)

lemma length_absorb: "length a = 25 \<Longrightarrow> length (absorb n a bs) = 25"
  by (induction n arbitrary: a bs) (simp_all add: length_absorbBlock)

lemma length_lanes_bytes: "length (concat (map bytesOfLane a)) = 8 * length a"
  by (induction a) (simp_all add: bytesOfLane_def)

lemma length_keccak256: "length (keccak256 m) = 32"
  by (simp add: keccak256_def Let_def length_lanes_bytes length_absorb)

lemma hexDigit_isHexDigit: "n < 16 \<Longrightarrow> isHexDigit (hexDigit n)"
  by (auto simp: hexDigit_def isHexDigit_def word_le_nat_alt unat_of_nat)

lemma hexlify_digits:
  "list_all isHexDigit
     (concat (map (\<lambda>b. [hexDigit (unat b div 16), hexDigit (unat b mod 16)]) (bs :: byte list)))"
proof (induction bs)
  case Nil
  then show ?case by simp
next
  case (Cons b bs)
  have "unat (b :: byte) < 2 ^ LENGTH(8)" by (rule unsigned_less)
  then have "unat b < 256" by simp
  then have "unat b div 16 < 16" by simp
  with Cons show ?case by (simp add: hexDigit_isHexDigit)
qed

lemma length_hexlify: "length (hexlify bs) = 2 + 2 * length bs"
  by (induction bs) (simp_all add: hexlify_def lit_def)

lemma hexlify_bytes32: "length bs = 32 \<Longrightarrow> isBytes32Hex (hexlify bs)"
  using hexlify_digits [of bs]
  by (simp add: isBytes32Hex_def length_hexlify) (simp add: hexlify_def lit_def)

lemma length_hexPairs: "length (hexPairs xs) = length xs div 2"
  by (induction xs rule: hexPairs.induct) simp_all

lemma isBytes32Hex_isHexString: "isBytes32Hex k \<longleftrightarrow> isHexString k \<and> length k = 66"
  by (auto simp: isBytes32Hex_def isHexString_def)

lemma pack_bytes32_valid:
  "isBytes32Hex v \<Longrightarrow> pack_bytes32 mk v = Inr (hexPairs (drop 2 v))"
  by (simp add: pack_bytes32_def arrayify_def isBytes32Hex_isHexString length_hexPairs)

lemma pack_bytes32_invalid: "\<not> isBytes32Hex v \<Longrightarrow> isl (pack_bytes32 mk v)"
proof -
  assume n: "\<not> isBytes32Hex v"
  show ?thesis
  proof (cases "isHexString v")
    case False
    then show ?thesis by (simp add: pack_bytes32_def arrayify_def)
  next
    case True
    then have "2 \<le> length v"
      by (cases v rule: hexPairs.cases) (simp_all add: isHexString_def lit_def)
    with True n have "length v - 2 \<noteq> 64" by (auto simp: isBytes32Hex_isHexString)
    then have "(length v - 2) mod 2 \<noteq> 0 \<or> (length v - 2) div 2 \<noteq> 32"
      by presburger
    then show ?thesis
      using True by (auto simp: pack_bytes32_def arrayify_def Let_def length_hexPairs)
  qed
qed

lemma toUtf8Bytes_wellFormed: "wellFormedUtf16 s \<longleftrightarrow> \<not> isl (toUtf8Bytes s)"
  by (induction s rule: toUtf8Bytes.induct) (auto split: sum.splits)

lemma ethers_solidityKeccak256_valid:
  assumes "isBytes32Hex master" and "toUtf8Bytes phone = Inr phoneBytes"
  shows "ethers_solidityKeccak256 mk master phone
           = Inr (hexlify (keccak256 (hexPairs (drop 2 master) @ phoneBytes)))"
  using assms by (simp add: ethers_solidityKeccak256_def pack_bytes32_valid)

lemma ethers_solidityKeccak256_invalid:
  assumes "\<not> isBytes32Hex master \<or> \<not> wellFormedUtf16 phone"
  shows "isl (ethers_solidityKeccak256 mk master phone)"
  using assms pack_bytes32_invalid [of master mk]
  by (auto simp: ethers_solidityKeccak256_def toUtf8Bytes_wellFormed split: sum.splits)

lemma ethers_solidityKeccak256_bytes32:
  "ethers_solidityKeccak256 mk master phone = Inr k \<Longrightarrow> isBytes32Hex k"
  by (auto simp: ethers_solidityKeccak256_def hexlify_bytes32 length_keccak256 split: sum.splits)

subsection \<open>The digest of the empty message\<close>

text \<open>
  The digest of the empty message is the known value
  \<open>c5d2460186f7233c927e7db2dcc703c0e500b653ca82273b7bfad8045d85a470\<close> of Keccak-256. The
  permutation is evaluated round by round, on the rounds written out for a state of 25 lanes.
\<close>

lemma word_rotl_shift:
  "word_rotl n (w :: lane) = push_bit (n mod 64) w OR drop_bit (64 - n mod 64) w"
proof (rule bit_word_eqI)
  fix k assume "k < LENGTH(64)"
  then have k: "k < 64" by simp
  define m where "m = n mod 64"
  define r where "r = 64 - m"
  have m: "m < 64" by (simp add: m_def)
  have L: "bit (word_rotl n w) k = bit w ((k + r) mod 64)"
    using k by (simp add: bit_word_rotl_iff m_def r_def)
  have R: "bit (push_bit m w OR drop_bit r w) k = ((m \<le> k \<and> bit w (k - m)) \<or> bit w (r + k))"
    using k by (simp add: bit_or_iff bit_push_bit_iff bit_drop_bit_eq)
  have "bit w ((k + r) mod 64) = ((m \<le> k \<and> bit w (k - m)) \<or> bit w (r + k))"
  proof (cases "m \<le> k")
    case True
    have "k + r = 64 + (k - m)" using True m by (simp add: r_def)
    then have e: "(k + r) mod 64 = k - m" using k by simp
    have "64 \<le> r + k" using True m by (simp add: r_def)
    then have "\<not> bit w (r + k)" using bit_imp_le_length [of w "r + k"] by auto
    then show ?thesis using True e by simp
  next
    case False
    then have "k + r < 64" using m by (simp add: r_def)
    then have "(k + r) mod 64 = r + k" by (simp add: add.commute)
    then show ?thesis using False by simp
  qed
  then show "bit (word_rotl n w) k = bit (push_bit (n mod 64) w OR drop_bit (64 - n mod 64) w) k"
    using L R by (simp add: m_def r_def)
qed

lemma upt_25: "[0..<25] = [0, 1, 2, 3, 4, 5, 6, 7, 8, 9, 10, 11, 12, 13, 14, 15, 16, 17, 18, 19, 20, 21, 22, 23, 24]"
  by code_simp

lemma upt_5: "[0..<5] = [0, 1, 2, 3, 4]"
  by code_simp

lemma theta_lanes:
  "theta [a0, a1, a2, a3, a4,
          a5, a6, a7, a8, a9,
          a10, a11, a12, a13, a14,
          a15, a16, a17, a18, a19,
          a20, a21, a22, a23, a24]
   = (let c0 = a0 XOR a5 XOR a10 XOR a15 XOR a20;
          c1 = a1 XOR a6 XOR a11 XOR a16 XOR a21;
          c2 = a2 XOR a7 XOR a12 XOR a17 XOR a22;
          c3 = a3 XOR a8 XOR a13 XOR a18 XOR a23;
          c4 = a4 XOR a9 XOR a14 XOR a19 XOR a24
      in let d0 = c4 XOR word_rotl 1 c1;
             d1 = c0 XOR word_rotl 1 c2;
             d2 = c1 XOR word_rotl 1 c3;
             d3 = c2 XOR word_rotl 1 c4;
             d4 = c3 XOR word_rotl 1 c0
      in [a0 XOR d0, a1 XOR d1, a2 XOR d2, a3 XOR d3, a4 XOR d4,
          a5 XOR d0, a6 XOR d1, a7 XOR d2, a8 XOR d3, a9 XOR d4,
          a10 XOR d0, a11 XOR d1, a12 XOR d2, a13 XOR d3, a14 XOR d4,
          a15 XOR d0, a16 XOR d1, a17 XOR d2, a18 XOR d3, a19 XOR d4,
          a20 XOR d0, a21 XOR d1, a22 XOR d2, a23 XOR d3, a24 XOR d4])"
  by (simp add: theta_def upt_25 upt_5 Let_def)

lemma rhoPi_lanes:
  "rhoPi [a0, a1, a2, a3, a4,
          a5, a6, a7, a8, a9,
          a10, a11, a12, a13, a14,
          a15, a16, a17, a18, a19,
          a20, a21, a22, a23, a24]
   = [word_rotl 0 a0, word_rotl 44 a6, word_rotl 43 a12, word_rotl 21 a18, word_rotl 14 a24,
       word_rotl 28 a3, word_rotl 20 a9, word_rotl 3 a10, word_rotl 45 a16, word_rotl 61 a22,
       word_rotl 1 a1, word_rotl 6 a7, word_rotl 25 a13, word_rotl 8 a19, word_rotl 18 a20,
       word_rotl 27 a4, word_rotl 36 a5, word_rotl 10 a11, word_rotl 15 a17, word_rotl 56 a23,
       word_rotl 62 a2, word_rotl 55 a8, word_rotl 39 a14, word_rotl 41 a15, word_rotl 2 a21]"
  by (simp add: rhoPi_def rotationOffsets_def upt_25)

lemma chi_lanes:
  "chi [a0, a1, a2, a3, a4,
          a5, a6, a7, a8, a9,
          a10, a11, a12, a13, a14,
          a15, a16, a17, a18, a19,
          a20, a21, a22, a23, a24]
   = [a0 XOR (NOT a1 AND a2), a1 XOR (NOT a2 AND a3), a2 XOR (NOT a3 AND a4), a3 XOR (NOT a4 AND a0), a4 XOR (NOT a0 AND a1),
       a5 XOR (NOT a6 AND a7), a6 XOR (NOT a7 AND a8), a7 XOR (NOT a8 AND a9), a8 XOR (NOT a9 AND a5), a9 XOR (NOT a5 AND a6),
       a10 XOR (NOT a11 AND a12), a11 XOR (NOT a12 AND a13), a12 XOR (NOT a13 AND a14), a13 XOR (NOT a14 AND a10), a14 XOR (NOT a10 AND a11),
       a15 XOR (NOT a16 AND a17), a16 XOR (NOT a17 AND a18), a17 XOR (NOT a18 AND a19), a18 XOR (NOT a19 AND a15), a19 XOR (NOT a15 AND a16),
       a20 XOR (NOT a21 AND a22), a21 XOR (NOT a22 AND a23), a22 XOR (NOT a23 AND a24), a23 XOR (NOT a24 AND a20), a24 XOR (NOT a20 AND a21)]"
  by (simp add: chi_def upt_25)

lemmas keccakRound_lanes =
  keccakRound_def iota_def theta_lanes rhoPi_lanes chi_lanes word_rotl_shift Let_def

lemma keccak_empty_rounds_0:
  "fold keccakRound (take 0 roundConstants)
     [0x0000000000000001, 0x0000000000000000, 0x0000000000000000, 0x0000000000000000, 0x0000000000000000,
       0x0000000000000000, 0x0000000000000000, 0x0000000000000000, 0x0000000000000000, 0x0000000000000000,
       0x0000000000000000, 0x0000000000000000, 0x0000000000000000, 0x0000000000000000, 0x0000000000000000,
       0x0000000000000000, 0x8000000000000000, 0x0000000000000000, 0x0000000000000000, 0x0000000000000000,
       0x0000000000000000, 0x0000000000000000, 0x0000000000000000, 0x0000000000000000, 0x0000000000000000]
   = [0x0000000000000001, 0x0000000000000000, 0x0000000000000000, 0x0000000000000000, 0x0000000000000000,
       0x0000000000000000, 0x0000000000000000, 0x0000000000000000, 0x0000000000000000, 0x0000000000000000,
       0x0000000000000000, 0x0000000000000000, 0x0000000000000000, 0x0000000000000000, 0x0000000000000000,
       0x0000000000000000, 0x8000000000000000, 0x0000000000000000, 0x0000000000000000, 0x0000000000000000,
       0x0000000000000000, 0x0000000000000000, 0x0000000000000000, 0x0000000000000000, 0x0000000000000000]"
  by simp

lemma keccak_empty_rounds_1:
  "fold keccakRound (take 1 roundConstants)
     [0x0000000000000001, 0x0000000000000000, 0x0000000000000000, 0x0000000000000000, 0x0000000000000000,
       0x0000000000000000, 0x0000000000000000, 0x0000000000000000, 0x0000000000000000, 0x0000000000000000,
       0x0000000000000000, 0x0000000000000000, 0x0000000000000000, 0x0000000000000000, 0x0000000000000000,
       0x0000000000000000, 0x8000000000000000, 0x0000000000000000, 0x0000000000000000, 0x0000000000000000,
       0x0000000000000000, 0x0000000000000000, 0x0000000000000000, 0x0000000000000000, 0x0000000000000000]
   = [0x0000040000000001, 0x0000100000000000, 0x0000040000008000, 0x0000000000000000, 0x0000100000008000,
      0x0000000000000008, 0x0000300000200000, 0x1000000000000008, 0x0000300000000000, 0x1000000000200000,
      0x0000000000000002, 0x0000000000000220, 0x0000000000040000, 0x0000000000000202, 0x0000000000040020,
      0x0000000010000400, 0x0000001000004000, 0x0000000000000400, 0x0000000010004000, 0x0000001000000000,
      0x2000010000000000, 0x0000020000000000, 0x0000010000000004, 0x2000020000000000, 0x0000000000000004]"
proof -
  have t: "take 1 roundConstants = take 0 roundConstants @ [0x0000000000000001]"
    by (simp add: roundConstants_def)
  show ?thesis
    unfolding t fold_append comp_apply keccak_empty_rounds_0
    by (simp add: keccakRound_lanes cong: let_weak_cong)
qed

lemma keccak_empty_rounds_2:
  "fold keccakRound (take 2 roundConstants)
     [0x0000000000000001, 0x0000000000000000, 0x0000000000000000, 0x0000000000000000, 0x0000000000000000,
       0x0000000000000000, 0x0000000000000000, 0x0000000000000000, 0x0000000000000000, 0x0000000000000000,
       0x0000000000000000, 0x0000000000000000, 0x0000000000000000, 0x0000000000000000, 0x0000000000000000,
       0x0000000000000000, 0x8000000000000000, 0x0000000000000000, 0x0000000000000000, 0x0000000000000000,
       0x0000000000000000, 0x0000000000000000, 0x0000000000000000, 0x0000000000000000, 0x0000000000000000]
   = [0x36305230006404E6, 0x10C339B88B760106, 0x2C31260010309901, 0xB402598888E60461, 0x8EC12C0011141902,
      0x000479C441202162, 0xA9834204A1850002, 0x8002A96207243BF4, 0x2986B00442E20013, 0x88030AE2A44318C5,
      0x40002504A452186C, 0x00298438083B9F34, 0x14C09A8C9DF0C04B, 0x00382E3020480C46, 0x54D1819819B14311,
      0x01BC065087388D40, 0x254056D141076300, 0x442C006724388184, 0x22881640E2122040, 0x425040A620050F84,
      0x10250AB408141191, 0xEA18C00A90A046E2, 0x02252E3040181054, 0xD800C8A408A061A1, 0x2218340AD024160E]"
proof -
  have t: "take 2 roundConstants = take 1 roundConstants @ [0x0000000000008082]"
    by (simp add: roundConstants_def)
  show ?thesis
    unfolding t fold_append comp_apply keccak_empty_rounds_1
    by (simp add: keccakRound_lanes cong: let_weak_cong)
qed

lemma keccak_empty_rounds_3:
  "fold keccakRound (take 3 roundConstants)
     [0x0000000000000001, 0x0000000000000000, 0x0000000000000000, 0x0000000000000000, 0x0000000000000000,
       0x0000000000000000, 0x0000000000000000, 0x0000000000000000, 0x0000000000000000, 0x0000000000000000,
       0x0000000000000000, 0x0000000000000000, 0x0000000000000000, 0x0000000000000000, 0x0000000000000000,
       0x0000000000000000, 0x8000000000000000, 0x0000000000000000, 0x0000000000000000, 0x0000000000000000,
       0x0000000000000000, 0x0000000000000000, 0x0000000000000000, 0x0000000000000000, 0x0000000000000000]
   = [0x7308CF19F675A28C, 0x24C8413593A231E3, 0x9F099D478B237977, 0x2AB7F95C8AC310B3, 0x8E28A10FC66873FC,
      0x5D32E773B2B55C7D, 0x7D33980232045C83, 0xE28A2B70205085A5, 0xCC2CD7E324D2468E, 0xB74A863BF2536585,
      0x5D369D3C79BA85A5, 0x22ED7119E3C4E384, 0x4BCC0C935097F374, 0x2E5DC77A860CA66F, 0x2DBEEA71F1E35A7A,
      0xC669DEC7291539AB, 0x9F80D8AC374BB6CD, 0x91C77AFE0262C26D, 0x2DE8DBD4DCDE6FB1, 0x46C24C7C739D6870,
      0x783E0513AFECCC1A, 0xA29AC517088AD63A, 0x1D20DF7ECB8E7067, 0x655B7BF46AAE9A3C, 0x43C735309C4E1439]"
proof -
  have t: "take 3 roundConstants = take 2 roundConstants @ [0x800000000000808A]"
    by (simp add: roundConstants_def)
  show ?thesis
    unfolding t fold_append comp_apply keccak_empty_rounds_2
    by (simp add: keccakRound_lanes cong: let_weak_cong)
qed

lemma keccak_empty_rounds_4:
  "fold keccakRound (take 4 roundConstants)
     [0x0000000000000001, 0x0000000000000000, 0x0000000000000000, 0x0000000000000000, 0x0000000000000000,
       0x0000000000000000, 0x0000000000000000, 0x0000000000000000, 0x0000000000000000, 0x0000000000000000,
       0x0000000000000000, 0x0000000000000000, 0x0000000000000000, 0x0000000000000000, 0x0000000000000000,
       0x0000000000000000, 0x8000000000000000, 0x0000000000000000, 0x0000000000000000, 0x0000000000000000,
       0x0000000000000000, 0x0000000000000000, 0x0000000000000000, 0x0000000000000000, 0x0000000000000000]
   = [0x7EEC1012F66BAEE6, 0xE6D2E4458CAC18A9, 0x5096C520535F288F, 0x5ADF5824750696D5, 0x2867F1088B8FD658,
      0xACCFDCB0BD9BCEA8, 0x05FD9797E9164980, 0x44A2CBF947E16CEE, 0xACEB2429DB2CD55D, 0x6A48FC23515EE2A8,
      0xB94607983D4705BF, 0x1B1BD3901A486275, 0xF1C146F6AFE51EC3, 0x10DE9DE4EF506C58, 0x6AC0B280C3C395BB,
      0xF97C5FBE14FF3BC6, 0x19CB20108C838C96, 0x982B0CF11854F22C, 0xD75032DE9743A238, 0x027F400CC90C3447,
      0xF2FACACDE688AFB6, 0x682013742AA1E73D, 0x0CE5665BB2DF4E84, 0x279226377095E8D6, 0x634646675441CE51]"
proof -
  have t: "take 4 roundConstants = take 3 roundConstants @ [0x8000000080008000]"
    by (simp add: roundConstants_def)
  show ?thesis
    unfolding t fold_append comp_apply keccak_empty_rounds_3
    by (simp add: keccakRound_lanes cong: let_weak_cong)
qed

lemma keccak_empty_rounds_5:
  "fold keccakRound (take 5 roundConstants)
     [0x0000000000000001, 0x0000000000000000, 0x0000000000000000, 0x0000000000000000, 0x0000000000000000,
       0x0000000000000000, 0x0000000000000000, 0x0000000000000000, 0x0000000000000000, 0x0000000000000000,
       0x0000000000000000, 0x0000000000000000, 0x0000000000000000, 0x0000000000000000, 0x0000000000000000,
       0x0000000000000000, 0x8000000000000000, 0x0000000000000000, 0x0000000000000000, 0x0000000000000000,
       0x0000000000000000, 0x0000000000000000, 0x0000000000000000, 0x0000000000000000, 0x0000000000000000]
   = [0x2CA78D1FB0A64DC7, 0x6450DD6A88CD74E3, 0x6CCE78E37BE7CCF9, 0x5F5144BA9082B898, 0x50BD6EBB1A526D89,
      0x06B68CEE4F00B096, 0x1D0FD475CB63DF7B, 0xB871C02C5547E2EE, 0x54E2FF6B9C6E656E, 0xAC2400FF8481B1E8,
      0x484FB645561A4AF9, 0x5B2D34B2FA6DF33C, 0x85EE3CE0C5E41191, 0x19852566623A33E5, 0x5623446D9C77334D,
      0xC0041CD3A2E7CDE2, 0x268A41A57A642F48, 0x7F274EE5A657E34E, 0x23CB54EE34C79A96, 0x4087455B7B69C9A0,
      0x3C4EEE45F0E96635, 0xF60516BABE614702, 0xDD5DC346837E8117, 0x14A0E647EB74E246, 0x6875306431036BE1]"
proof -
  have t: "take 5 roundConstants = take 4 roundConstants @ [0x000000000000808B]"
    by (simp add: roundConstants_def)
  show ?thesis
    unfolding t fold_append comp_apply keccak_empty_rounds_4
    by (simp add: keccakRound_lanes cong: let_weak_cong)
qed

lemma keccak_empty_rounds_6:
  "fold keccakRound (take 6 roundConstants)
     [0x0000000000000001, 0x0000000000000000, 0x0000000000000000, 0x0000000000000000, 0x0000000000000000,
       0x0000000000000000, 0x0000000000000000, 0x0000000000000000, 0x0000000000000000, 0x0000000000000000,
       0x0000000000000000, 0x0000000000000000, 0x0000000000000000, 0x0000000000000000, 0x0000000000000000,
       0x0000000000000000, 0x8000000000000000, 0x0000000000000000, 0x0000000000000000, 0x0000000000000000,
       0x0000000000000000, 0x0000000000000000, 0x0000000000000000, 0x0000000000000000, 0x0000000000000000]
   = [0x03714EC483B77561, 0x960390566A2C6AC8, 0x4C6550ED49562E97, 0x23DD64E6B0DAAF2B, 0x91056DD06977D6C0,
      0xB956F647C80E8D70, 0xEA5C2241FD7B94BA, 0x134BB59F1BCF0247, 0x91452A19CAF34F91, 0xAEAB563906CF2385,
      0xB866018A9E0BBA63, 0x7F3CA8C6BA9C61D8, 0x8C679969C1CC1E85, 0xDAC3103FBD2D1C5F, 0x9545A6FD2AA12E71,
      0x3B60BA0DAF5DD647, 0xC61C9AEF7A406AFF, 0xFD48252495F77488, 0x3E35D8A1775921F2, 0x86EA5B33F7B4ACAD,
      0x7F2C4298932AA448, 0x75D1A9EC21ED8FD3, 0x0B53BAA7AB739A65, 0x0FE0F5D774357647, 0x394CAE2300E6C89B]"
proof -
  have t: "take 6 roundConstants = take 5 roundConstants @ [0x0000000080000001]"
    by (simp add: roundConstants_def)
  show ?thesis
    unfolding t fold_append comp_apply keccak_empty_rounds_5
    by (simp add: keccakRound_lanes cong: let_weak_cong)
qed

lemma keccak_empty_rounds_7:
  "fold keccakRound (take 7 roundConstants)
     [0x0000000000000001, 0x0000000000000000, 0x0000000000000000, 0x0000000000000000, 0x0000000000000000,
       0x0000000000000000, 0x0000000000000000, 0x0000000000000000, 0x0000000000000000, 0x0000000000000000,
       0x0000000000000000, 0x0000000000000000, 0x0000000000000000, 0x0000000000000000, 0x0000000000000000,
       0x0000000000000000, 0x8000000000000000, 0x0000000000000000, 0x0000000000000000, 0x0000000000000000,
       0x0000000000000000, 0x0000000000000000, 0x0000000000000000, 0x0000000000000000, 0x0000000000000000]
   = [0xFF647574FD808EE5, 0xF7D9BDEF0B0ECAF5, 0xC83D187FAAB6F1F9, 0x0657B3D4B4F63BF5, 0x97300FCA0282BBA7,
      0x770101D976C15573, 0xF7271ADE017FEBFA, 0x42B9F7D70C5705AE, 0xCAFF990EF3C91833, 0x697C3C858A8E3440,
      0x75F63AB33135C188, 0x1C5DE0B94E4E9954, 0xDCA8D56A6EB23EE3, 0x6FBFB5A056E6C459, 0xEEEBF6BFF71634B1,
      0xEBD520E879A78D6C, 0x4DD8667CD028F448, 0xDAB9A465A90B554E, 0x753935893C57F357, 0xFB087FD2C2E521C5,
      0x72C54EB4855261A4, 0x82C7569247019817, 0xE136C0A064873906, 0xA729D20E42D31B67, 0x61EEBD0E0E2D812B]"
proof -
  have t: "take 7 roundConstants = take 6 roundConstants @ [0x8000000080008081]"
    by (simp add: roundConstants_def)
  show ?thesis
    unfolding t fold_append comp_apply keccak_empty_rounds_6
    by (simp add: keccakRound_lanes cong: let_weak_cong)
qed

lemma keccak_empty_rounds_8:
  "fold keccakRound (take 8 roundConstants)
     [0x0000000000000001, 0x0000000000000000, 0x0000000000000000, 0x0000000000000000, 0x0000000000000000,
       0x0000000000000000, 0x0000000000000000, 0x0000000000000000, 0x0000000000000000, 0x0000000000000000,
       0x0000000000000000, 0x0000000000000000, 0x0000000000000000, 0x0000000000000000, 0x0000000000000000,
       0x0000000000000000, 0x8000000000000000, 0x0000000000000000, 0x0000000000000000, 0x0000000000000000,
       0x0000000000000000, 0x0000000000000000, 0x0000000000000000, 0x0000000000000000, 0x0000000000000000]
   = [0xB0FD17F53AE92E45, 0x1D4F440A212924C0, 0xB6B9F5785215876B, 0xA8EBC10D7B748A08, 0xE45DBB16D8CA36FB,
      0x2D50C83785B5EE32, 0x4646C94FFD3915F0, 0xD46E9A152672FD83, 0xEC848C63BD941392, 0xD8968DCFED2D6F8B,
      0xAC196B6D0C6CE375, 0xC3DAD3C06D317F1C, 0x68797A3CE839047B, 0x096FAA603FE34647, 0xDF9252373AC663FA,
      0xDF1772C56178E1B5, 0xA3E26E77AC8C9687, 0x0B71DC8DD0A96284, 0x847C301EEE5374B0, 0xCA3604A2D2A6AA88,
      0xDE41F7B3BCE1ACA2, 0xCF4D4DE020D8C994, 0xE069595B550BEF2E, 0xBA1D7F0D189010D0, 0xF513233C28F4DDA0]"
proof -
  have t: "take 8 roundConstants = take 7 roundConstants @ [0x8000000000008009]"
    by (simp add: roundConstants_def)
  show ?thesis
    unfolding t fold_append comp_apply keccak_empty_rounds_7
    by (simp add: keccakRound_lanes cong: let_weak_cong)
qed

lemma keccak_empty_rounds_9:
  "fold keccakRound (take 9 roundConstants)
     [0x0000000000000001, 0x0000000000000000, 0x0000000000000000, 0x0000000000000000, 0x0000000000000000,
       0x0000000000000000, 0x0000000000000000, 0x0000000000000000, 0x0000000000000000, 0x0000000000000000,
       0x0000000000000000, 0x0000000000000000, 0x0000000000000000, 0x0000000000000000, 0x0000000000000000,
       0x0000000000000000, 0x8000000000000000, 0x0000000000000000, 0x0000000000000000, 0x0000000000000000,
       0x0000000000000000, 0x0000000000000000, 0x0000000000000000, 0x0000000000000000, 0x0000000000000000]
   = [0xE6793E2397506542, 0x1DDB637D149A8A06, 0x5B35A54E14BCFFFF, 0xCB5AA90388EBA654, 0xA3A4BFC5A60473EB,
      0x386AEE2B513A1936, 0x6513D1F1219CB90F, 0xB8EC554E5F878440, 0x03580A2CAED41269, 0x385BDF5EEE3B532D,
      0xD41099A6AEF35B05, 0x262BC24121EBED31, 0x258932BF7F92E37D, 0x57CF2D18C4CD4F90, 0x1BF18BA20CFB0BA5,
      0x9D56828B652F2B44, 0x8A1ABFDF9D671216, 0xD32D5E80EE56EAD9, 0x38C279AC8674CD62, 0x8E6B4F19F3AB9E48,
      0xA101A4B68570F00B, 0x3646245C26B464B4, 0x1A0312EE4BECC874, 0xCB1C53D72F8F5BDE, 0xA5533594F4A600FC]"
proof -
  have t: "take 9 roundConstants = take 8 roundConstants @ [0x000000000000008A]"
    by (simp add: roundConstants_def)
  show ?thesis
    unfolding t fold_append comp_apply keccak_empty_rounds_8
    by (simp add: keccakRound_lanes cong: let_weak_cong)
qed

lemma keccak_empty_rounds_10:
  "fold keccakRound (take 10 roundConstants)
     [0x0000000000000001, 0x0000000000000000, 0x0000000000000000, 0x0000000000000000, 0x0000000000000000,
       0x0000000000000000, 0x0000000000000000, 0x0000000000000000, 0x0000000000000000, 0x0000000000000000,
       0x0000000000000000, 0x0000000000000000, 0x0000000000000000, 0x0000000000000000, 0x0000000000000000,
       0x0000000000000000, 0x8000000000000000, 0x0000000000000000, 0x0000000000000000, 0x0000000000000000,
       0x0000000000000000, 0x0000000000000000, 0x0000000000000000, 0x0000000000000000, 0x0000000000000000]
   = [0xACB0712A8E67C328, 0xD12EE2D8BA7828BD, 0xE583C9F0ADAB0B75, 0x0AB20E819ECCBABA, 0x40B16F59857C716D,
      0x39620378D318E17E, 0x424B4BFE05838ECA, 0xD6CFD65C9C7DEE34, 0xFABA550E389966F2, 0xC60A3EA32A5B1959,
      0x28643BBF7CF604CD, 0x0D2DC698A5FFBAAE, 0x4DEE9A2CF0B9A120, 0xB0B47222035B2542, 0x1B67E710D1AE8703,
      0x75E4051C3C9DBA3F, 0x3CC5F4D4261A20E4, 0x0AD1C26E0B9E4F3A, 0x9FCF6BBD5D3004FF, 0x9699D7BF2C1B0F8A,
      0xF32901AA2E4467DB, 0xD4BD2C31D05F2A31, 0x77EF741DA52CD5AB, 0xB7DD4DE235AB46F0, 0x7F397DE3F1CFB970]"
proof -
  have t: "take 10 roundConstants = take 9 roundConstants @ [0x0000000000000088]"
    by (simp add: roundConstants_def)
  show ?thesis
    unfolding t fold_append comp_apply keccak_empty_rounds_9
    by (simp add: keccakRound_lanes cong: let_weak_cong)
qed

lemma keccak_empty_rounds_11:
  "fold keccakRound (take 11 roundConstants)
     [0x0000000000000001, 0x0000000000000000, 0x0000000000000000, 0x0000000000000000, 0x0000000000000000,
       0x0000000000000000, 0x0000000000000000, 0x0000000000000000, 0x0000000000000000, 0x0000000000000000,
       0x0000000000000000, 0x0000000000000000, 0x0000000000000000, 0x0000000000000000, 0x0000000000000000,
       0x0000000000000000, 0x8000000000000000, 0x0000000000000000, 0x0000000000000000, 0x0000000000000000,
       0x0000000000000000, 0x0000000000000000, 0x0000000000000000, 0x0000000000000000, 0x0000000000000000]
   = [0x26A5233F6438B6DC, 0xACE3DF49A43E3FD6, 0xC4086346DC94DC2E, 0x20EA8BEC3236B3C9, 0xF229827EFF26D05A,
      0xFAF8F47D3F5F6884, 0x927D36F588A9B430, 0x11DA5674194B4E64, 0x6DA5E479DFD8191E, 0xBE1079143A68539F,
      0xCADBD0CABD32FC24, 0xE9DD3BBDEAA3DD94, 0x76F97CF8108E2CA0, 0xD1107B058A44218C, 0xEEA97E5C08F8AC49,
      0xDAF2D4E0F2F78F95, 0x883160E013F90580, 0xB1A414213BF04CE4, 0xD44A7EDA957D550E, 0x9E55B35D791CDC21,
      0xD1DEC853A1015AE4, 0x4C926EF6A84EEF87, 0x6F0576229FA8AA0C, 0xD59C1598F6CE72CA, 0xAFF83D1CBAD917BA]"
proof -
  have t: "take 11 roundConstants = take 10 roundConstants @ [0x0000000080008009]"
    by (simp add: roundConstants_def)
  show ?thesis
    unfolding t fold_append comp_apply keccak_empty_rounds_10
    by (simp add: keccakRound_lanes cong: let_weak_cong)
qed

lemma keccak_empty_rounds_12:
  "fold keccakRound (take 12 roundConstants)
     [0x0000000000000001, 0x0000000000000000, 0x0000000000000000, 0x0000000000000000, 0x0000000000000000,
       0x0000000000000000, 0x0000000000000000, 0x0000000000000000, 0x0000000000000000, 0x0000000000000000,
       0x0000000000000000, 0x0000000000000000, 0x0000000000000000, 0x0000000000000000, 0x0000000000000000,
       0x0000000000000000, 0x8000000000000000, 0x0000000000000000, 0x0000000000000000, 0x0000000000000000,
       0x0000000000000000, 0x0000000000000000, 0x0000000000000000, 0x0000000000000000, 0x0000000000000000]
   = [0xE215D0D659163823, 0x8683974493A469B1, 0xF64F37F10BF45B28, 0xFDEE927EA471DF68, 0x500C7269F3EE0799,
      0x45D78EA405A3A964, 0x03557220B429A4D3, 0x3195DEB85A7107AB, 0x3D502DDDA7398A8D, 0xC2FEBBF32D430D7B,
      0x917923E1A60BF1BE, 0xC22DD9CF3E60EFBE, 0x21CE54A25B74D00D, 0x9868DE16A584C50E, 0xA62D01CD00859E89,
      0xD1C3D4F6F08DA26F, 0xB0BE6294F4D17ACE, 0x69DA1AFCE162547D, 0x03C8A7B614F3CAB7, 0xC5B26F28BFDB70E2,
      0x795AD43D7A4BEAEA, 0x9D9BBA34AB9D1948, 0x7BE76F07D92B7C83, 0x1528C0DC1CCE7E4E, 0x2831A3BF7AEEB33E]"
proof -
  have t: "take 12 roundConstants = take 11 roundConstants @ [0x000000008000000A]"
    by (simp add: roundConstants_def)
  show ?thesis
    unfolding t fold_append comp_apply keccak_empty_rounds_11
    by (simp add: keccakRound_lanes cong: let_weak_cong)
qed

lemma keccak_empty_rounds_13:
  "fold keccakRound (take 13 roundConstants)
     [0x0000000000000001, 0x0000000000000000, 0x0000000000000000, 0x0000000000000000, 0x0000000000000000,
       0x0000000000000000, 0x0000000000000000, 0x0000000000000000, 0x0000000000000000, 0x0000000000000000,
       0x0000000000000000, 0x0000000000000000, 0x0000000000000000, 0x0000000000000000, 0x0000000000000000,
       0x0000000000000000, 0x8000000000000000, 0x0000000000000000, 0x0000000000000000, 0x0000000000000000,
       0x0000000000000000, 0x0000000000000000, 0x0000000000000000, 0x0000000000000000, 0x0000000000000000]
   = [0x5C7F04A9EB415DAA, 0x4C44E75259F5833E, 0xADFF9FB8251DE691, 0xECC21E383B00020C, 0xD7F4EE69F1415482,
      0x6E0E74DF7917D016, 0x7ACE3467E85790D7, 0x5C67F9BF8AA12768, 0x494F75D8F24F6D3B, 0xA06AB0F6F845067F,
      0xE5E6F8F52E665057, 0x095C81719483BCF1, 0x2E6EBD9C061C2477, 0x40D303D8DA5E09A6, 0x6BA6B350BF2473CC,
      0x75FF6312B50B7CA0, 0x36E3E7649BE5660D, 0x70815CACE6248E90, 0x5D083F8A3F827FB4, 0x5B533D654E7C4F7C,
      0x827F66994D03D4B2, 0x6DB7286666D1DD08, 0x4974356A95BF7635, 0xA4F8FB3B401C504D, 0xE6A9DD54D881EE17]"
proof -
  have t: "take 13 roundConstants = take 12 roundConstants @ [0x000000008000808B]"
    by (simp add: roundConstants_def)
  show ?thesis
    unfolding t fold_append comp_apply keccak_empty_rounds_12
    by (simp add: keccakRound_lanes cong: let_weak_cong)
qed

lemma keccak_empty_rounds_14:
  "fold keccakRound (take 14 roundConstants)
     [0x0000000000000001, 0x0000000000000000, 0x0000000000000000, 0x0000000000000000, 0x0000000000000000,
       0x0000000000000000, 0x0000000000000000, 0x0000000000000000, 0x0000000000000000, 0x0000000000000000,
       0x0000000000000000, 0x0000000000000000, 0x0000000000000000, 0x0000000000000000, 0x0000000000000000,
       0x0000000000000000, 0x8000000000000000, 0x0000000000000000, 0x0000000000000000, 0x0000000000000000,
       0x0000000000000000, 0x0000000000000000, 0x0000000000000000, 0x0000000000000000, 0x0000000000000000]
   = [0x94B8714A79B4F579, 0xDD97992DA9CC5043, 0xA7969C8E19EE2E30, 0xE17CB08C2DCB80B2, 0x93B4C73A176A6E8B,
      0x930635EC94145A75, 0x62C1C8E04F0FE2F1, 0x6B8F7814668BD3B6, 0xFD3C7A8645DAAC15, 0x6664B42598DD1A9F,
      0xD02899CB42351935, 0x6E073A60688D2F43, 0xF7A3BF7901C8A1B4, 0xD28BF4A883D9F707, 0x69AC15F15BC3CAA1,
      0xA10DFF23D712EFD6, 0xD25BF564ECB6BAE4, 0xA2A205D32D1C77D5, 0x4CD0F337C02EB42D, 0xCD037F12B25F8C45,
      0x91009DEA8A079812, 0x42F7644E5C9CE5FA, 0xEBFEAC5F99D4EC3D, 0xC1A9909371A9524E, 0x446967526ECE2D32]"
proof -
  have t: "take 14 roundConstants = take 13 roundConstants @ [0x800000000000008B]"
    by (simp add: roundConstants_def)
  show ?thesis
    unfolding t fold_append comp_apply keccak_empty_rounds_13
    by (simp add: keccakRound_lanes cong: let_weak_cong)
qed

lemma keccak_empty_rounds_15:
  "fold keccakRound (take 15 roundConstants)
     [0x0000000000000001, 0x0000000000000000, 0x0000000000000000, 0x0000000000000000, 0x0000000000000000,
       0x0000000000000000, 0x0000000000000000, 0x0000000000000000, 0x0000000000000000, 0x0000000000000000,
       0x0000000000000000, 0x0000000000000000, 0x0000000000000000, 0x0000000000000000, 0x0000000000000000,
       0x0000000000000000, 0x8000000000000000, 0x0000000000000000, 0x0000000000000000, 0x0000000000000000,
       0x0000000000000000, 0x0000000000000000, 0x0000000000000000, 0x0000000000000000, 0x0000000000000000]
   = [0x1251936A8B5EEBA5, 0x4ACA96297139B192, 0x8182EDC9F77FA479, 0x8293FAA3877ACE1B, 0x59CD706154E322AB,
      0xEF6EC5CF7B1B7AB9, 0xEE37513A4F7D4E0C, 0x3700D6C3B2E813EA, 0xC4D7B805FC59D00E, 0x852CC5AA82014EAA,
      0x8DB34CA93C0A3C01, 0xC5C336FA1C78CBEB, 0x6F924CBEBB1C8143, 0x20DD590C86345D40, 0x1927DBFE08689C5E,
      0xE9414EAE99FD861A, 0xA1A4155038E1F6C2, 0x55954C3799242D13, 0x0FEC57F37F0FBB1C, 0x1215638FE6A8666E,
      0x1A6BF3C160D5E086, 0x1D936B379AAF3AAE, 0x44BE2462BF8D77FB, 0x24A8976EC4680654, 0x2714F4EE7154B4E5]"
proof -
  have t: "take 15 roundConstants = take 14 roundConstants @ [0x8000000000008089]"
    by (simp add: roundConstants_def)
  show ?thesis
    unfolding t fold_append comp_apply keccak_empty_rounds_14
    by (simp add: keccakRound_lanes cong: let_weak_cong)
qed

lemma keccak_empty_rounds_16:
  "fold keccakRound (take 16 roundConstants)
     [0x0000000000000001, 0x0000000000000000, 0x0000000000000000, 0x0000000000000000, 0x0000000000000000,
       0x0000000000000000, 0x0000000000000000, 0x0000000000000000, 0x0000000000000000, 0x0000000000000000,
       0x0000000000000000, 0x0000000000000000, 0x0000000000000000, 0x0000000000000000, 0x0000000000000000,
       0x0000000000000000, 0x8000000000000000, 0x0000000000000000, 0x0000000000000000, 0x0000000000000000,
       0x0000000000000000, 0x0000000000000000, 0x0000000000000000, 0x0000000000000000, 0x0000000000000000]
   = [0xC0A57522C1EFE859, 0xE69B77EC2C9DA6A6, 0x742A4601A5F0E5DC, 0x17C698335125EB15, 0xBD1D5DA6CB6E5FC4,
      0x96DE5A792E31754C, 0x4138EBAE6A7CFB4D, 0x3B7CD6B3EA8EBF75, 0xF03C1A06392E26BC, 0x01612232072F44FA,
      0x31342913C82745E4, 0x68DDC2ED8BC8D24C, 0xD99975F96A92D1CC, 0x25E266C9373F7458, 0x1AAB65F4DF45F0E4,
      0xC5F388588CDAA834, 0x98C80570CB3A38E0, 0x0BBD7E454C66C974, 0xB82928DE1C884093, 0xED0519D874AEB66C,
      0x91C4350B275F2C14, 0x5BF7EAEC860B83DC, 0x4AFCA4318F8727CA, 0x5C69CA452B9AC7A6, 0x773D4EFCFE30E690]"
proof -
  have t: "take 16 roundConstants = take 15 roundConstants @ [0x8000000000008003]"
    by (simp add: roundConstants_def)
  show ?thesis
    unfolding t fold_append comp_apply keccak_empty_rounds_15
    by (simp add: keccakRound_lanes cong: let_weak_cong)
qed

lemma keccak_empty_rounds_17:
  "fold keccakRound (take 17 roundConstants)
     [0x0000000000000001, 0x0000000000000000, 0x0000000000000000, 0x0000000000000000, 0x0000000000000000,
       0x0000000000000000, 0x0000000000000000, 0x0000000000000000, 0x0000000000000000, 0x0000000000000000,
       0x0000000000000000, 0x0000000000000000, 0x0000000000000000, 0x0000000000000000, 0x0000000000000000,
       0x0000000000000000, 0x8000000000000000, 0x0000000000000000, 0x0000000000000000, 0x0000000000000000,
       0x0000000000000000, 0x0000000000000000, 0x0000000000000000, 0x0000000000000000, 0x0000000000000000]
   = [0x74CD1A0B5C45BB1D, 0x2FDBBFD5E26E6C80, 0x3664FD7ADE3D2112, 0x4D596E0A2082FD39, 0x0DA9866F1AD50D45,
      0xD081DF0AAFB1C0F8, 0x3317BF0929C61CCE, 0x8AC112AA8F94D330, 0xCDF09C15B803936B, 0x0767832D8BBE71DE,
      0xE97B6951D0F40780, 0xE37353AED69D93B7, 0xBF467D1C1715B186, 0x39348C0471D52BAD, 0x6AA26979DE1B4EBE,
      0x31D984E187FD0B3F, 0x787A7DDA6B04518F, 0xF43C16480AD8A982, 0xE5D188994432A48D, 0x79D04865DBFCF654,
      0x85263FDF3C61FB76, 0xB5EB3E9DE6322F32, 0xD3B3770D01BAD296, 0x21C6091F1B07DF3A, 0x0EC5BE23D9A252E3]"
proof -
  have t: "take 17 roundConstants = take 16 roundConstants @ [0x8000000000008002]"
    by (simp add: roundConstants_def)
  show ?thesis
    unfolding t fold_append comp_apply keccak_empty_rounds_16
    by (simp add: keccakRound_lanes cong: let_weak_cong)
qed

lemma keccak_empty_rounds_18:
  "fold keccakRound (take 18 roundConstants)
     [0x0000000000000001, 0x0000000000000000, 0x0000000000000000, 0x0000000000000000, 0x0000000000000000,
       0x0000000000000000, 0x0000000000000000, 0x0000000000000000, 0x0000000000000000, 0x0000000000000000,
       0x0000000000000000, 0x0000000000000000, 0x0000000000000000, 0x0000000000000000, 0x0000000000000000,
       0x0000000000000000, 0x8000000000000000, 0x0000000000000000, 0x0000000000000000, 0x0000000000000000,
       0x0000000000000000, 0x0000000000000000, 0x0000000000000000, 0x0000000000000000, 0x0000000000000000]
   = [0x076A338EB96C92D7, 0x33484C2467DA3A2F, 0xA00A123B70909768, 0xF9725637037DFEC9, 0xB3C8DF9ED9AFE09F,
      0x4F560E9256792297, 0x23D8AF656DE816D5, 0x90B7983DE0E67EBC, 0x09B875A7F1E4C593, 0x63D1D365572FF328,
      0x3CD41B33E0BE651F, 0xFE2E681C51DCB871, 0xFA68EC5D2B44CE9E, 0xE209BF0E26DC6666, 0xD50E252D48F3400E,
      0xFEE5680E61A436B8, 0x5DA6FE223A46434E, 0x88874B94BD7F6D01, 0xAC675B1C243A04B2, 0xAF29DFEE768EC58E,
      0x3FC384CF44F72C9D, 0x77A9BFA813162312, 0xB31566F0585E1C84, 0x055A8E9DF0C9DFD4, 0x53CB08A7274B89BA]"
proof -
  have t: "take 18 roundConstants = take 17 roundConstants @ [0x8000000000000080]"
    by (simp add: roundConstants_def)
  show ?thesis
    unfolding t fold_append comp_apply keccak_empty_rounds_17
    by (simp add: keccakRound_lanes cong: let_weak_cong)
qed

lemma keccak_empty_rounds_19:
  "fold keccakRound (take 19 roundConstants)
     [0x0000000000000001, 0x0000000000000000, 0x0000000000000000, 0x0000000000000000, 0x0000000000000000,
       0x0000000000000000, 0x0000000000000000, 0x0000000000000000, 0x0000000000000000, 0x0000000000000000,
       0x0000000000000000, 0x0000000000000000, 0x0000000000000000, 0x0000000000000000, 0x0000000000000000,
       0x0000000000000000, 0x8000000000000000, 0x0000000000000000, 0x0000000000000000, 0x0000000000000000,
       0x0000000000000000, 0x0000000000000000, 0x0000000000000000, 0x0000000000000000, 0x0000000000000000]
   = [0xEF48B8BFEB2744BB, 0x654B0FED0F6F068A, 0xADA6F64B2DA58246, 0xE16EE8916777DD68, 0x351A1BC3205D7BE8,
      0x7733A961DC396EC9, 0xFE4447C6FC297F31, 0xA2198697B28D31E6, 0x3315496C0EDA1790, 0x484B014D0533ADBC,
      0xC81F6372C288F986, 0xBCB01C04457D96E5, 0xA95796CF47E15612, 0x0A030C2B49DDA1FF, 0x8958CCF7679C3B5F,
      0x5CB577CD8075589F, 0x4A018F11BC97D772, 0xB8D323349E6A70B7, 0xE5DEE69748ADD5ED, 0x030FFE2AE183B496,
      0x5CF98236A4EC69CA, 0x2604AF7D93C245F6, 0xDA0AD860A7DDF6D6, 0xDBD1670866D6A624, 0xA0A384A3442103C8]"
proof -
  have t: "take 19 roundConstants = take 18 roundConstants @ [0x000000000000800A]"
    by (simp add: roundConstants_def)
  show ?thesis
    unfolding t fold_append comp_apply keccak_empty_rounds_18
    by (simp add: keccakRound_lanes cong: let_weak_cong)
qed

lemma keccak_empty_rounds_20:
  "fold keccakRound (take 20 roundConstants)
     [0x0000000000000001, 0x0000000000000000, 0x0000000000000000, 0x0000000000000000, 0x0000000000000000,
       0x0000000000000000, 0x0000000000000000, 0x0000000000000000, 0x0000000000000000, 0x0000000000000000,
       0x0000000000000000, 0x0000000000000000, 0x0000000000000000, 0x0000000000000000, 0x0000000000000000,
       0x0000000000000000, 0x8000000000000000, 0x0000000000000000, 0x0000000000000000, 0x0000000000000000,
       0x0000000000000000, 0x0000000000000000, 0x0000000000000000, 0x0000000000000000, 0x0000000000000000]
   = [0xE7C975D8AEFBF550, 0xA38F3460ADA0EE7D, 0xE143B97D38D0DF35, 0x40246AA05ABB10CE, 0xE9B3782DB6913304,
      0x30CBB8A9A0834BEB, 0xA2B410364559D216, 0x67D074BEB826412A, 0xCA4E92687EF87D6D, 0x219BDCC027541342,
      0x7287620A39B8D589, 0x727A598D6E76600D, 0x0ACD076F2C449233, 0x4BDEEC258E791D5D, 0x186D5406E4E958E3,
      0x4CE14C632358ED5A, 0x9E2C7E0A7A1EC320, 0xB28753789ACE8DA3, 0xA7B0C9991FE8FE4B, 0xCEAC19ABF26F1851,
      0xCAEFFEC7B0507B05, 0x472CA39EA510F66A, 0xCC7B6B61BFF78BA5, 0xF1764918625504AB, 0xCD384B9645C503A3]"
proof -
  have t: "take 20 roundConstants = take 19 roundConstants @ [0x800000008000000A]"
    by (simp add: roundConstants_def)
  show ?thesis
    unfolding t fold_append comp_apply keccak_empty_rounds_19
    by (simp add: keccakRound_lanes cong: let_weak_cong)
qed

lemma keccak_empty_rounds_21:
  "fold keccakRound (take 21 roundConstants)
     [0x0000000000000001, 0x0000000000000000, 0x0000000000000000, 0x0000000000000000, 0x0000000000000000,
       0x0000000000000000, 0x0000000000000000, 0x0000000000000000, 0x0000000000000000, 0x0000000000000000,
       0x0000000000000000, 0x0000000000000000, 0x0000000000000000, 0x0000000000000000, 0x0000000000000000,
       0x0000000000000000, 0x8000000000000000, 0x0000000000000000, 0x0000000000000000, 0x0000000000000000,
       0x0000000000000000, 0x0000000000000000, 0x0000000000000000, 0x0000000000000000, 0x0000000000000000]
   = [0xE4D287A01F080409, 0xF3B08FC3BF083F01, 0x7E680663C87E4F86, 0x90A8ECE65AF85627, 0x2A3116B3FC59EC77,
      0x0BE7CFD4F0D27DD3, 0x30789D2A287BC677, 0x26B4F670E8CB0279, 0x01230A9C408798B1, 0xB903EC5CE1023CF2,
      0xE8836C0824CCBE8C, 0x5D8D0A5FE34F0FF0, 0x490CFAB0B0389C56, 0x4036E0C46DB89D14, 0x67030540A22E3684,
      0x33C47B3A83EEEE7D, 0x3D0CBE5B21CCA71C, 0xD084A6B8A202161A, 0x3CB73E2079D93726, 0x2E9FF3BF787FD2C8,
      0x12E9DC1EF75368AC, 0x74670F81DB392BD8, 0x789557CC0CDDC3F7, 0xA0C829C5D7DBD624, 0xE38F4F2843106A1A]"
proof -
  have t: "take 21 roundConstants = take 20 roundConstants @ [0x8000000080008081]"
    by (simp add: roundConstants_def)
  show ?thesis
    unfolding t fold_append comp_apply keccak_empty_rounds_20
    by (simp add: keccakRound_lanes cong: let_weak_cong)
qed

lemma keccak_empty_rounds_22:
  "fold keccakRound (take 22 roundConstants)
     [0x0000000000000001, 0x0000000000000000, 0x0000000000000000, 0x0000000000000000, 0x0000000000000000,
       0x0000000000000000, 0x0000000000000000, 0x0000000000000000, 0x0000000000000000, 0x0000000000000000,
       0x0000000000000000, 0x0000000000000000, 0x0000000000000000, 0x0000000000000000, 0x0000000000000000,
       0x0000000000000000, 0x8000000000000000, 0x0000000000000000, 0x0000000000000000, 0x0000000000000000,
       0x0000000000000000, 0x0000000000000000, 0x0000000000000000, 0x0000000000000000, 0x0000000000000000]
   = [0x67A6B668B7823E97, 0x6836C186C6896C37, 0x5228A82D35EA443D, 0x1147F1F0D89E6089, 0x9E61B976DEF8787E,
      0x425268B17D929984, 0xBB647912C69E8767, 0x7DFE5DCD8C02E555, 0x7D8A497E88D5BC58, 0x1FA3EA82647AFDFD,
      0x0D716262751ECD3F, 0xADDF2B6362A74ADE, 0xD1AE1668EE1F7B6B, 0x22E411DE1CE7AE26, 0xB573B3FA09AB1497,
      0x8A84D26FC954382A, 0x97AC3379CD19E543, 0x95B0A4D5625A494A, 0x1E25DB0B8CBA4E17, 0xD342634463487E3B,
      0x5AB2266E5F4F1133, 0x29ED02739DEFD2A4, 0x5FF62DA7FB015C4A, 0xC488556B6DD3A215, 0x24B8BDCDE0E9EBD8]"
proof -
  have t: "take 22 roundConstants = take 21 roundConstants @ [0x8000000000008080]"
    by (simp add: roundConstants_def)
  show ?thesis
    unfolding t fold_append comp_apply keccak_empty_rounds_21
    by (simp add: keccakRound_lanes cong: let_weak_cong)
qed

lemma keccak_empty_rounds_23:
  "fold keccakRound (take 23 roundConstants)
     [0x0000000000000001, 0x0000000000000000, 0x0000000000000000, 0x0000000000000000, 0x0000000000000000,
       0x0000000000000000, 0x0000000000000000, 0x0000000000000000, 0x0000000000000000, 0x0000000000000000,
       0x0000000000000000, 0x0000000000000000, 0x0000000000000000, 0x0000000000000000, 0x0000000000000000,
       0x0000000000000000, 0x8000000000000000, 0x0000000000000000, 0x0000000000000000, 0x0000000000000000,
       0x0000000000000000, 0x0000000000000000, 0x0000000000000000, 0x0000000000000000, 0x0000000000000000]
   = [0xB776C454221536A0, 0x2CC562AAB665C6AC, 0x96854EC3F757A478, 0xBAF0E8C55C739718, 0x8263456BA091515A,
      0x76626AC752F6F6AA, 0x4E6FB95A23376335, 0x6DD890FA0AC6380B, 0xE63E22AC7DE0AF2A, 0x9ECFC93F76589EEC,
      0xA0B01B1261AB6A01, 0xAE3D547551959057, 0x016E9BF1D538D80D, 0x2167900EA6E5A7BE, 0x7A406941F60CF465,
      0xD3881A5CA182984D, 0xBD5F1E80592136C8, 0x9B8A935BA0DDF5B0, 0x242C1ECEF1782E23, 0xF105204297C34BE6,
      0xCEFB15EC5F89B0AD, 0xDA47883FE04394BD, 0x668C64884A0EC53F, 0xA8511C9CFC53E49B, 0xF48EFCF3A69E3A4E]"
proof -
  have t: "take 23 roundConstants = take 22 roundConstants @ [0x0000000080000001]"
    by (simp add: roundConstants_def)
  show ?thesis
    unfolding t fold_append comp_apply keccak_empty_rounds_22
    by (simp add: keccakRound_lanes cong: let_weak_cong)
qed

lemma keccak_empty_rounds_24:
  "fold keccakRound (take 24 roundConstants)
     [0x0000000000000001, 0x0000000000000000, 0x0000000000000000, 0x0000000000000000, 0x0000000000000000,
       0x0000000000000000, 0x0000000000000000, 0x0000000000000000, 0x0000000000000000, 0x0000000000000000,
       0x0000000000000000, 0x0000000000000000, 0x0000000000000000, 0x0000000000000000, 0x0000000000000000,
       0x0000000000000000, 0x8000000000000000, 0x0000000000000000, 0x0000000000000000, 0x0000000000000000,
       0x0000000000000000, 0x0000000000000000, 0x0000000000000000, 0x0000000000000000, 0x0000000000000000]
   = [0x3C23F7860146D2C5, 0xC003C7DCB27D7E92, 0x3B2782CA53B600E5, 0x70A4855D04D8FA7B, 0x74A97CD82C9ABB3D,
      0xCB9B1161ECB0A2B9, 0x1F2211C4C0F9ED5C, 0x820DC6175FA24161, 0x81BABFBCAB8046D2, 0xB1D551B7242B765B,
      0x3CF26D5EBA2553E8, 0x3BCE6A98FE5B7210, 0xBA7D9FA73545D2A2, 0xFA0D3CD3B03B15BB, 0x3BFED7EB12C7CE09,
      0xEB829C854E19A949, 0x1B5D1A6545A611FF, 0x064146F400E16B72, 0xFE8734E16471AB9F, 0x9C3088BDEEBB0936,
      0xDEE8B8ECA7B2ACBA, 0x163B62B71DCF4521, 0x6B571B9910726D91, 0xB7FA22CF622318BE, 0xA3FE1AF7779FAFD7]"
proof -
  have t: "take 24 roundConstants = take 23 roundConstants @ [0x8000000080008008]"
    by (simp add: roundConstants_def)
  show ?thesis
    unfolding t fold_append comp_apply keccak_empty_rounds_23
    by (simp add: keccakRound_lanes cong: let_weak_cong)
qed

lemma keccakF_empty:
  "keccakF [0x0000000000000001, 0x0000000000000000, 0x0000000000000000, 0x0000000000000000, 0x0000000000000000,
       0x0000000000000000, 0x0000000000000000, 0x0000000000000000, 0x0000000000000000, 0x0000000000000000,
       0x0000000000000000, 0x0000000000000000, 0x0000000000000000, 0x0000000000000000, 0x0000000000000000,
       0x0000000000000000, 0x8000000000000000, 0x0000000000000000, 0x0000000000000000, 0x0000000000000000,
       0x0000000000000000, 0x0000000000000000, 0x0000000000000000, 0x0000000000000000, 0x0000000000000000]
   = [0x3C23F7860146D2C5, 0xC003C7DCB27D7E92, 0x3B2782CA53B600E5, 0x70A4855D04D8FA7B, 0x74A97CD82C9ABB3D,
      0xCB9B1161ECB0A2B9, 0x1F2211C4C0F9ED5C, 0x820DC6175FA24161, 0x81BABFBCAB8046D2, 0xB1D551B7242B765B,
      0x3CF26D5EBA2553E8, 0x3BCE6A98FE5B7210, 0xBA7D9FA73545D2A2, 0xFA0D3CD3B03B15BB, 0x3BFED7EB12C7CE09,
      0xEB829C854E19A949, 0x1B5D1A6545A611FF, 0x064146F400E16B72, 0xFE8734E16471AB9F, 0x9C3088BDEEBB0936,
      0xDEE8B8ECA7B2ACBA, 0x163B62B71DCF4521, 0x6B571B9910726D91, 0xB7FA22CF622318BE, 0xA3FE1AF7779FAFD7]"
proof -
  have "take 24 roundConstants = roundConstants"
    by (simp add: roundConstants_def)
  then show ?thesis
    using keccak_empty_rounds_24 by (simp add: keccakF_def)
qed

lemma keccak256_empty:
  "keccak256 []
   = [0xc5, 0xd2, 0x46, 0x01, 0x86, 0xf7, 0x23, 0x3c,
      0x92, 0x7e, 0x7d, 0xb2, 0xdc, 0xc7, 0x03, 0xc0,
      0xe5, 0x00, 0xb6, 0x53, 0xca, 0x82, 0x27, 0x3b,
      0x7b, 0xfa, 0xd8, 0x04, 0x5d, 0x85, 0xa4, 0x70]"
proof -
  have pad: "keccakPad [] = [0x01] @ replicate 134 0 @ [0x80]"
    by (simp add: keccakPad_def)
  have len: "length (keccakPad []) div 136 = Suc 0"
    by (simp add: pad)
  have block: "map (\<lambda>i. if i < 17 then (replicate 25 0 :: lane list) ! i
                                    XOR laneOfBytes (take 8 (drop (8 * i) (take 136 (keccakPad []))))
                     else replicate 25 0 ! i) [0..<25]
               = [0x0000000000000001, 0x0000000000000000, 0x0000000000000000, 0x0000000000000000, 0x0000000000000000,
                  0x0000000000000000, 0x0000000000000000, 0x0000000000000000, 0x0000000000000000, 0x0000000000000000,
                  0x0000000000000000, 0x0000000000000000, 0x0000000000000000, 0x0000000000000000, 0x0000000000000000,
                  0x0000000000000000, 0x8000000000000000, 0x0000000000000000, 0x0000000000000000, 0x0000000000000000,
                  0x0000000000000000, 0x0000000000000000, 0x0000000000000000, 0x0000000000000000, 0x0000000000000000]"
    by code_simp
  have squeeze: "take 32 (concat (map bytesOfLane
                    [0x3C23F7860146D2C5, 0xC003C7DCB27D7E92, 0x3B2782CA53B600E5, 0x70A4855D04D8FA7B, 0x74A97CD82C9ABB3D,
                      0xCB9B1161ECB0A2B9, 0x1F2211C4C0F9ED5C, 0x820DC6175FA24161, 0x81BABFBCAB8046D2, 0xB1D551B7242B765B,
                      0x3CF26D5EBA2553E8, 0x3BCE6A98FE5B7210, 0xBA7D9FA73545D2A2, 0xFA0D3CD3B03B15BB, 0x3BFED7EB12C7CE09,
                      0xEB829C854E19A949, 0x1B5D1A6545A611FF, 0x064146F400E16B72, 0xFE8734E16471AB9F, 0x9C3088BDEEBB0936,
                      0xDEE8B8ECA7B2ACBA, 0x163B62B71DCF4521, 0x6B571B9910726D91, 0xB7FA22CF622318BE, 0xA3FE1AF7779FAFD7]))
                 = [0xc5, 0xd2, 0x46, 0x01, 0x86, 0xf7, 0x23, 0x3c,
                    0x92, 0x7e, 0x7d, 0xb2, 0xdc, 0xc7, 0x03, 0xc0,
                    0xe5, 0x00, 0xb6, 0x53, 0xca, 0x82, 0x27, 0x3b,
                    0x7b, 0xfa, 0xd8, 0x04, 0x5d, 0x85, 0xa4, 0x70]"
    by code_simp
  show ?thesis
    unfolding keccak256_def Let_def len absorb.simps absorbBlock_def block keccakF_empty squeeze ..
qed

lemma hexlify_keccak256_empty:
  "hexlify (keccak256 [])
   = lit ''0xc5d2460186f7233c927e7db2dcc703c0e500b653ca82273b7bfad8045d85a470''"
  unfolding keccak256_empty by code_simp

section \<open>The key derivation\<close>

text \<open>
  Claim C4, as the code has it. Let the hash be the library's. For a master secret that is
  \<open>0x\<close> and 64 hexadecimal digits and a tenant identifier in which every high surrogate is
  followed by a low one, \<open>deriveUserPrivateKey\<close> yields a key, and the key is the printed
  Keccak-256 digest of the 32 bytes of the master secret followed by the UTF-8 bytes of the
  identifier: a function of the two and of nothing else, so two environments with the same
  master secret derive the same. Every key that is yielded is a 32-byte value. For any other
  master secret or identifier the derivation throws and yields no key. \<open>getThirdwebSigner\<close>
  returns, in every state, the wallet built from that key, and \<open>getSDKForUser\<close> on a cache
  miss the SDK instance built from it; \<open>getThirdwebSigner\<close> leaves both caches, the
  remote-call log and the transaction log as they were.
\<close>

theorem deriveUserPrivateKey_deterministic:
  "(solidityKeccak256 e = ethers_solidityKeccak256 mk
      \<longrightarrow> (isBytes32Hex (MASTER_PRIVATE_KEY e) \<and> wellFormedUtf16 phone
            \<longrightarrow> (\<exists>phoneBytes. toUtf8Bytes phone = Inr phoneBytes
                  \<and> deriveUserPrivateKey e phone
                      = Inr (hexlify (keccak256 (hexPairs (drop 2 (MASTER_PRIVATE_KEY e))
                                                 @ phoneBytes)))))
          \<and> (deriveUserPrivateKey e phone = Inr k \<longrightarrow> isBytes32Hex k)
          \<and> (\<not> isBytes32Hex (MASTER_PRIVATE_KEY e) \<or> \<not> wellFormedUtf16 phone
               \<longrightarrow> isl (deriveUserPrivateKey e phone))
          \<and> (solidityKeccak256 e2 = ethers_solidityKeccak256 mk
               \<and> MASTER_PRIVATE_KEY e2 = MASTER_PRIVATE_KEY e
               \<longrightarrow> deriveUserPrivateKey e2 phone = deriveUserPrivateKey e phone))
   \<and> fst (getThirdwebSigner e s phone)
       = (case deriveUserPrivateKey e phone of Inl err \<Rightarrow> Inl err | Inr derived \<Rightarrow> new_Wallet e derived)
   \<and> (sdkCache s phone = None
      \<longrightarrow> fst (getSDKForUser e s phone)
          = (case deriveUserPrivateKey e phone of
               Inl err \<Rightarrow> Inl err | Inr derived \<Rightarrow> fromPrivateKey e derived))
   \<and> apiCredsCache (snd (getThirdwebSigner e s phone)) = apiCredsCache s
   \<and> sdkCache (snd (getThirdwebSigner e s phone)) = sdkCache s
   \<and> remoteCalls (snd (getThirdwebSigner e s phone)) = remoteCalls s
   \<and> sentTransactions (snd (getThirdwebSigner e s phone)) = sentTransactions s"
proof (intro conjI impI)
  assume h: "solidityKeccak256 e = ethers_solidityKeccak256 mk"
  then have d: "deriveUserPrivateKey e phone
                  = ethers_solidityKeccak256 mk (MASTER_PRIVATE_KEY e) phone"
    by (simp add: deriveUserPrivateKey_def)
  {
    assume v: "isBytes32Hex (MASTER_PRIVATE_KEY e) \<and> wellFormedUtf16 phone"
    then obtain phoneBytes where p: "toUtf8Bytes phone = Inr phoneBytes"
      by (cases "toUtf8Bytes phone") (simp_all add: toUtf8Bytes_wellFormed)
    from v have "isBytes32Hex (MASTER_PRIVATE_KEY e)" by simp
    from ethers_solidityKeccak256_valid [OF this p, of mk] p
    show "\<exists>phoneBytes. toUtf8Bytes phone = Inr phoneBytes
            \<and> deriveUserPrivateKey e phone
                = Inr (hexlify (keccak256 (hexPairs (drop 2 (MASTER_PRIVATE_KEY e))
                                           @ phoneBytes)))"
      by (simp add: d)
  }
  {
    assume "deriveUserPrivateKey e phone = Inr k"
    then show "isBytes32Hex k"
      by (simp add: d ethers_solidityKeccak256_bytes32)
  }
  {
    assume "\<not> isBytes32Hex (MASTER_PRIVATE_KEY e) \<or> \<not> wellFormedUtf16 phone"
    then show "isl (deriveUserPrivateKey e phone)"
      by (simp only: d) (rule ethers_solidityKeccak256_invalid)
  }
  assume "solidityKeccak256 e2 = ethers_solidityKeccak256 mk
            \<and> MASTER_PRIVATE_KEY e2 = MASTER_PRIVATE_KEY e"
  then show "deriveUserPrivateKey e2 phone = deriveUserPrivateKey e phone"
    by (simp add: h deriveUserPrivateKey_def)
next
  show "fst (getThirdwebSigner e s phone)
       = (case deriveUserPrivateKey e phone of Inl err \<Rightarrow> Inl err | Inr derived \<Rightarrow> new_Wallet e derived)"
    by (simp add: getThirdwebSigner_eq)
next
  assume "sdkCache s phone = None"
  then show "fst (getSDKForUser e s phone)
          = (case deriveUserPrivateKey e phone of
               Inl err \<Rightarrow> Inl err | Inr derived \<Rightarrow> fromPrivateKey e derived)"
    by (simp add: getSDKForUser_def Let_def split: sum.splits)
qed (simp_all add: getThirdwebSigner_eq noteDerivation_fields)

theorem deriveUserPrivateKey_deterministic_witness:
  "solidityKeccak256 ethersEnv = ethers_solidityKeccak256 Error
   \<and> isBytes32Hex (MASTER_PRIVATE_KEY ethersEnv)
   \<and> wellFormedUtf16 alice
   \<and> toUtf8Bytes alice = Inr aliceBytes
   \<and> deriveUserPrivateKey ethersEnv alice
       = Inr (hexlify (keccak256 (hexPairs (drop 2 (MASTER_PRIVATE_KEY ethersEnv)) @ aliceBytes)))
   \<and> isBytes32Hex (hexlify (keccak256 (hexPairs (drop 2 (MASTER_PRIVATE_KEY ethersEnv))
                                        @ aliceBytes)))
   \<and> fst (getThirdwebSigner ethersEnv afterRetry alice)
       = Inr (hexlify (keccak256 (hexPairs (drop 2 (MASTER_PRIVATE_KEY ethersEnv)) @ aliceBytes)))
   \<and> fst (getSDKForUser ethersEnv initial_state alice)
       = Inr (hexlify (keccak256 (hexPairs (drop 2 (MASTER_PRIVATE_KEY ethersEnv)) @ aliceBytes)))
   \<and> \<not> isBytes32Hex (MASTER_PRIVATE_KEY unprefixedEnv)
   \<and> isl (deriveUserPrivateKey unprefixedEnv alice)"
proof -
  let ?key = "hexlify (keccak256 (hexPairs (drop 2 (MASTER_PRIVATE_KEY ethersEnv)) @ aliceBytes))"
  have h: "solidityKeccak256 ethersEnv = ethers_solidityKeccak256 Error"
    "solidityKeccak256 unprefixedEnv = ethers_solidityKeccak256 Error"
    by (simp_all add: ethersEnv_def unprefixedEnv_def)
  have m: "isBytes32Hex (MASTER_PRIVATE_KEY ethersEnv)"
    by (simp add: ethersEnv_def isBytes32Hex_def isHexDigit_def lit_def chr16_def)
  have n: "\<not> isBytes32Hex (MASTER_PRIVATE_KEY unprefixedEnv)"
    by (simp add: unprefixedEnv_def isBytes32Hex_def lit_def)
  have w: "wellFormedUtf16 alice"
    by (simp add: alice_def isHighSurrogate_def lit_def chr16_def)
  have b: "toUtf8Bytes alice = Inr aliceBytes"
    by (simp add: alice_def aliceBytes_def isHighSurrogate_def utf8Unit_def lit_def chr16_def)
  have f: "new_Wallet ethersEnv = (\<lambda>k. Inr k)" "fromPrivateKey ethersEnv = (\<lambda>k. Inr k)"
    by (simp_all add: ethersEnv_def demoEnv_fields)
  have c: "sdkCache (initial_state :: (jsstring, jsstring) state) alice = None"
    by (simp add: initial_state_def)
  have 1: "deriveUserPrivateKey ethersEnv alice = Inr ?key \<and> isBytes32Hex ?key
           \<and> fst (getThirdwebSigner ethersEnv afterRetry alice) = Inr ?key"
    using deriveUserPrivateKey_deterministic
        [of ethersEnv Error alice "?key" ethersEnv afterRetry]
    by (simp add: h m w b f)
  have 2: "fst (getSDKForUser ethersEnv initial_state alice) = Inr ?key"
    using deriveUserPrivateKey_deterministic
        [of ethersEnv Error alice "?key" ethersEnv initial_state]
    by (simp add: h m w b f c)
  have 3: "isl (deriveUserPrivateKey unprefixedEnv alice)"
    using deriveUserPrivateKey_deterministic
        [of unprefixedEnv Error alice "?key" unprefixedEnv initial_state]
    by (simp add: h n)
  from h(1) m w b 1 2 n 3 show ?thesis by simp
qed

text \<open>
  The claim as it was worded fails for a master secret that is the 64 hexadecimal digits of a
  32-byte value without the prefix \<open>0x\<close>: \<open>arrayify\<close> refuses it, the derivation throws
  the library's error (here with the reason alone as its message), and no key is yielded.
\<close>

theorem deriveUserPrivateKey_unprefixed_master:
  "length (MASTER_PRIVATE_KEY unprefixedEnv) = 64
   \<and> list_all isHexDigit (MASTER_PRIVATE_KEY unprefixedEnv)
   \<and> solidityKeccak256 unprefixedEnv = ethers_solidityKeccak256 Error
   \<and> deriveUserPrivateKey unprefixedEnv alice = Inl (Error (lit ''invalid arrayify value''))"
  by (simp add: deriveUserPrivateKey_def ethers_solidityKeccak256_def pack_bytes32_def
      arrayify_def isHexString_def unprefixedEnv_def ethersEnv_def isHexDigit_def lit_def
      chr16_def)

section \<open>The address of a new signer\<close>

text \<open>
  Claim C6 does not hold of the code. The constructor of \<open>ThirdwebSigner\<close> returns before the
  address is resolved: for the tenant \<open>alice\<close> the new signer has the empty string in its
  public field \<open>address\<close> and \<open>null\<close> in \<open>_address\<close>, and only the later step in which the
  pending promise settles stores the resolved address in both.
\<close>

theorem ThirdwebSigner_address_empty_until_settled:
  "fst (ThirdwebSigner_new demoEnv initial_state alice) = Inr aliceSigner
   \<and> signer_address aliceSigner = []
   \<and> private_address aliceSigner = None
   \<and> signer_address (ThirdwebSigner_settled demoEnv aliceSigner) = lit ''addr:'' @ aliceKey"
  by (simp add: ThirdwebSigner_new_def ThirdwebSigner_settled_def getSDKForUser_def
      demo_derive_alice demoEnv_fields initial_state_def aliceSigner_def noteDerivation_def
      Let_def)


section \<open>The authentication gate\<close>

lemma EXECUTOR_API_TOKEN_unset: "EXECUTOR_API_TOKEN None = []"
  by (simp add: EXECUTOR_API_TOKEN_def trim_def)

lemma EXECUTOR_API_TOKEN_blank: "trim w = [] \<Longrightarrow> EXECUTOR_API_TOKEN (Some w) = []"
  by (simp add: EXECUTOR_API_TOKEN_def trim_def)

text \<open>
  Claim C9. With the token that the server computes from the environment: a request to
  \<open>/health\<close> passes the middleware without any check and reaches its handler. A request to any
  other path is answered by the middleware itself, and no handler runs, with status 500 when the
  configured token is empty (the variable is unset or blank) and with status 401 when a token is
  configured and the \<open>x-executor-token\<close> header is absent or different; it reaches its handler
  exactly when the header equals the configured token. An unset variable and a blank one give
  the empty token.
\<close>

theorem authMiddleware_gate:
  "(path req = lit ''/health''
      \<longrightarrow> authMiddleware (EXECUTOR_API_TOKEN v) req = Next
          \<and> serve (EXECUTOR_API_TOKEN v) handler req = Inr (handler req))
   \<and> (path req \<noteq> lit ''/health'' \<and> EXECUTOR_API_TOKEN v = []
      \<longrightarrow> serve (EXECUTOR_API_TOKEN v) handler req
            = Inl (500, JObj [(lit ''ok'', JBool False),
                              (lit ''error'', JStr (lit ''EXECUTOR_API_TOKEN missing''))]))
   \<and> (path req \<noteq> lit ''/health'' \<and> EXECUTOR_API_TOKEN v \<noteq> []
        \<and> header req (lit ''x-executor-token'') \<noteq> Some (EXECUTOR_API_TOKEN v)
      \<longrightarrow> serve (EXECUTOR_API_TOKEN v) handler req
            = Inl (401, JObj [(lit ''ok'', JBool False), (lit ''error'', JStr (lit ''unauthorized''))]))
   \<and> (path req \<noteq> lit ''/health'' \<and> EXECUTOR_API_TOKEN v \<noteq> []
        \<and> header req (lit ''x-executor-token'') = Some (EXECUTOR_API_TOKEN v)
      \<longrightarrow> serve (EXECUTOR_API_TOKEN v) handler req = Inr (handler req))
   \<and> EXECUTOR_API_TOKEN None = []
   \<and> (trim w = [] \<longrightarrow> EXECUTOR_API_TOKEN (Some w) = [])"
proof (cases "path req = lit ''/health''")
  case True
  then have "authMiddleware (EXECUTOR_API_TOKEN v) req = Next"
    by (simp add: authMiddleware_def)
  with True show ?thesis
    by (simp add: serve_def EXECUTOR_API_TOKEN_unset EXECUTOR_API_TOKEN_blank)
next
  case False
  show ?thesis
  proof (cases "EXECUTOR_API_TOKEN v = []")
    case True
    with False have "authMiddleware (EXECUTOR_API_TOKEN v) req =
        Respond 500 (JObj [(lit ''ok'', JBool False),
                           (lit ''error'', JStr (lit ''EXECUTOR_API_TOKEN missing''))])"
      by (simp add: authMiddleware_def)
    with False True show ?thesis
      by (simp add: serve_def EXECUTOR_API_TOKEN_unset EXECUTOR_API_TOKEN_blank)
  next
    case configured: False
    with False have "authMiddleware (EXECUTOR_API_TOKEN v) req =
        (if header req (lit ''x-executor-token'') \<noteq> Some (EXECUTOR_API_TOKEN v)
         then Respond 401 (JObj [(lit ''ok'', JBool False),
                                 (lit ''error'', JStr (lit ''unauthorized''))])
         else Next)"
      by (simp add: authMiddleware_def)
    with False configured show ?thesis
      by (simp add: serve_def EXECUTOR_API_TOKEN_unset EXECUTOR_API_TOKEN_blank)
  qed
qed

theorem authMiddleware_gate_witness:
  "EXECUTOR_API_TOKEN (Some (lit '' s3cret '')) = lit ''s3cret''
   \<and> serve (EXECUTOR_API_TOKEN (Some (lit '' s3cret ''))) path healthRequest = Inr (lit ''/health'')
   \<and> serve (EXECUTOR_API_TOKEN None) path anonymousRequest
       = Inl (500, JObj [(lit ''ok'', JBool False),
                         (lit ''error'', JStr (lit ''EXECUTOR_API_TOKEN missing''))])
   \<and> serve (EXECUTOR_API_TOKEN (Some (lit '' s3cret ''))) path anonymousRequest
       = Inl (401, JObj [(lit ''ok'', JBool False), (lit ''error'', JStr (lit ''unauthorized''))])
   \<and> serve (EXECUTOR_API_TOKEN (Some (lit '' s3cret ''))) path authorisedRequest
       = Inr (lit ''/polymarket/orders/market'')
   \<and> trim (lit ''  '') = [] \<and> EXECUTOR_API_TOKEN (Some (lit ''  '')) = []"
proof -
  have t: "EXECUTOR_API_TOKEN (Some (lit '' s3cret '')) = lit ''s3cret''"
    by (simp add: EXECUTOR_API_TOKEN_def trim_def isWhiteSpace_def lit_def chr16_def)
  have n: "lit ''s3cret'' \<noteq> []" "lit ''/polymarket/orders/market'' \<noteq> lit ''/health''"
    by (simp_all add: lit_def chr16_def)
  have b: "trim (lit ''  '') = []"
    by (simp add: trim_def isWhiteSpace_def lit_def chr16_def)
  show ?thesis
    using authMiddleware_gate [of healthRequest "Some (lit '' s3cret '')" path]
      authMiddleware_gate [of anonymousRequest None path]
      authMiddleware_gate [of anonymousRequest "Some (lit '' s3cret '')" path]
      authMiddleware_gate [of authorisedRequest "Some (lit '' s3cret '')" path "lit ''  ''"]
    by (simp add: t n b healthRequest_def anonymousRequest_def authorisedRequest_def)
qed


section \<open>The limit of the market list\<close>

lemma safeLimit_cases:
  "safeLimit limit =
     (case limit of
        NaN \<Rightarrow> Fin 10
      | PosInfinity \<Rightarrow> Fin 50
      | NegInfinity \<Rightarrow> Fin 1
      | Fin r \<Rightarrow> if r = 0 then Fin 10 else if r < 1 then Fin 1 else if 50 < r then Fin 50 else Fin r)"
  by (cases limit) (simp_all add: safeLimit_def Math_max_def Math_min_def or_num_def)

lemma safeLimit_Fin: "\<exists>r. safeLimit limit = Fin r \<and> 1 \<le> r \<and> r \<le> 50"
  by (cases limit) (simp_all add: safeLimit_cases)

lemma length_slice0: "1 \<le> r \<Longrightarrow> real (length (slice0 xs (Fin r))) \<le> r"
proof -
  assume r: "1 \<le> r"
  then have f: "0 \<le> \<lfloor>r\<rfloor>" by simp
  have "length (slice0 xs (Fin r)) \<le> nat \<lfloor>r\<rfloor>"
    using r by (simp add: slice0_def truncate_def Let_def)
  then have "real (length (slice0 xs (Fin r))) \<le> real (nat \<lfloor>r\<rfloor>)" by simp
  also have "\<dots> = of_int \<lfloor>r\<rfloor>" using f by simp
  also have "\<dots> \<le> r" by simp
  finally show ?thesis .
qed

text \<open>
  Claim C10, as the code has it. The limit that \<open>gammaTopMarkets\<close> uses is 10 when the input
  is 0 or \<open>NaN\<close> (what \<open>Number\<close> makes of a non-numeric input), 1 when the input is below
  1 and not 0 (every negative number and \<open>-Infinity\<close>), 50 when it is above 50 (also
  \<open>Infinity\<close>), and the input itself otherwise; so it always lies between 1 and 50. A list that
  \<open>gammaTopMarkets\<close> returns has at most that many entries, and never more than 50.
\<close>

theorem gammaTopMarkets_limit:
  "safeLimit limit =
     (case limit of
        NaN \<Rightarrow> Fin 10
      | PosInfinity \<Rightarrow> Fin 50
      | NegInfinity \<Rightarrow> Fin 1
      | Fin r \<Rightarrow> if r = 0 then Fin 10 else if r < 1 then Fin 1 else if 50 < r then Fin 50 else Fin r)
   \<and> num_le (Fin 1) (safeLimit limit) \<and> num_le (safeLimit limit) (Fin 50)
   \<and> (gammaTopMarkets gammaGet limit = Inr ms
      \<longrightarrow> num_le (Fin (real (length ms))) (safeLimit limit) \<and> length ms \<le> 50)"
proof -
  obtain r where s: "safeLimit limit = Fin r" and r: "1 \<le> r" "r \<le> 50"
    using safeLimit_Fin by blast
  have "real (length ms) \<le> r \<and> length ms \<le> 50" if "gammaTopMarkets gammaGet limit = Inr ms"
  proof -
    from that obtain markets where "ms = slice0 markets (Fin r)"
      by (auto simp: gammaTopMarkets_def Let_def s split: sum.splits)
    then have "real (length ms) \<le> r" using length_slice0 [OF r(1)] by simp
    moreover from this r(2) have "real (length ms) \<le> 50" by linarith
    ultimately show ?thesis by simp
  qed
  then show ?thesis using r by (simp add: safeLimit_cases [symmetric] s)
qed

theorem gammaTopMarkets_limit_witness:
  "safeLimit (Fin 2) = Fin 2
   \<and> gammaTopMarkets (\<lambda>p q. Inr sampleEvents) (Fin 2)
       = Inr [marketView (hd sampleEvents) (JObj [(lit ''id'', JStr (lit ''m1''))]),
              marketView (hd sampleEvents) (JObj [(lit ''id'', JStr (lit ''m2''))])]
   \<and> num_le (Fin (real (length [marketView (hd sampleEvents) (JObj [(lit ''id'', JStr (lit ''m1''))]),
              marketView (hd sampleEvents) (JObj [(lit ''id'', JStr (lit ''m2''))])]))) (safeLimit (Fin 2))"
proof -
  have m: "getProp (hd sampleEvents) (lit ''markets'')
      = JArr [JObj [(lit ''id'', JStr (lit ''m1''))], JObj [(lit ''id'', JStr (lit ''m2''))],
              JObj [(lit ''id'', JStr (lit ''m3''))]]"
    by (simp add: sampleEvents_def lit_def chr16_def)
  have h: "sampleEvents = [hd sampleEvents]" by (simp add: sampleEvents_def)
  have s: "safeLimit (Fin 2) = Fin 2" by (simp add: safeLimit_cases)
  have g: "gammaTopMarkets (\<lambda>p q. Inr sampleEvents) (Fin 2)
       = Inr [marketView (hd sampleEvents) (JObj [(lit ''id'', JStr (lit ''m1''))]),
              marketView (hd sampleEvents) (JObj [(lit ''id'', JStr (lit ''m2''))])]"
    unfolding gammaTopMarkets_def Let_def s
    by (subst h) (simp add: m isNullish_def slice0_def truncate_def)
  show ?thesis
    using gammaTopMarkets_limit [of "Fin 2" "\<lambda>p q. Inr sampleEvents"
        "[marketView (hd sampleEvents) (JObj [(lit ''id'', JStr (lit ''m1''))]),
          marketView (hd sampleEvents) (JObj [(lit ''id'', JStr (lit ''m2''))])]"]
    by (simp add: g s)
qed

text \<open>
  The claim as it was worded fails for a negative input: \<open>-5\<close> is not a positive number, and
  the limit is 1, not the default 10.
\<close>

theorem gammaTopMarkets_negative_limit:
  "safeLimit (Fin (- 5)) = Fin 1 \<and> safeLimit (Fin (- 5)) \<noteq> Fin 10"
  by (simp add: safeLimit_def Math_max_def Math_min_def or_num_def)


end
